theory Spec2Isabelle
  imports Main "HOL-Library.AList" "HOL-Library.Multiset" "HOL-Library.Sublist"
begin

section \<open>JavaScript values and insertion-ordered maps\<close>

text \<open>
  Request payloads, capabilities, display names and device descriptors are free-form JSON.
  They are modelled by a JSON datatype with JavaScript's notion of truthiness, which the
  room code tests with \<^verbatim>\<open>!x\<close>, \<^verbatim>\<open>Boolean(x)\<close> and \<^verbatim>\<open>x || y\<close>. Numbers are integers here.
\<close>

type_synonym ident = string

datatype jsval =
    JUndefined
  | JNull
  | JBool bool
  | JNum int
  | JStr string
  | JArr "jsval list"
  | JObj "(string \<times> jsval) list"

fun truthy :: "jsval \<Rightarrow> bool" where
  "truthy JUndefined = False"
| "truthy JNull = False"
| "truthy (JBool b) = b"
| "truthy (JNum n) = (n \<noteq> 0)"
| "truthy (JStr s) = (s \<noteq> [])"
| "truthy (JArr xs) = True"
| "truthy (JObj kvs) = True"

text \<open>\<^verbatim>\<open>o.k\<close>: the property of an object, \<^verbatim>\<open>undefined\<close> when the object has none (and for the
  primitives the code reads a property from).\<close>

fun js_prop :: "jsval \<Rightarrow> string \<Rightarrow> jsval" where
  "js_prop (JObj kvs) k = (case map_of kvs k of Some v \<Rightarrow> v | None \<Rightarrow> JUndefined)"
| "js_prop v k = JUndefined"

text \<open>The decimal numeral of an index, which is the name of the property at that index of
  an array or a string.\<close>

fun decimal :: "nat \<Rightarrow> string" where
  "decimal n =
     (if n < 10 then [char_of (48 + n)] else decimal (n div 10) @ [char_of (48 + n mod 10)])"

declare decimal.simps [simp del]

definition indexed :: "jsval list \<Rightarrow> (string \<times> jsval) list" where
  "indexed xs = zip (map decimal [0..<length xs]) xs"

text \<open>\<^verbatim>\<open>{ ...o }\<close>: the own enumerable properties of the value. An object spreads to its
  properties, an array to its elements under their indices, a string to its characters
  under their indices, and every other value to nothing.\<close>

fun js_spread :: "jsval \<Rightarrow> (string \<times> jsval) list" where
  "js_spread (JObj kvs) = kvs"
| "js_spread (JArr xs) = indexed xs"
| "js_spread (JStr s) = indexed (map (\<lambda>c. JStr [c]) s)"
| "js_spread v = []"

text \<open>\<^verbatim>\<open>typeof v === 'string'\<close> and \<^verbatim>\<open>typeof v === 'object'\<close>.\<close>

fun is_string :: "jsval \<Rightarrow> bool" where
  "is_string (JStr s) = True"
| "is_string v = False"

fun is_object :: "jsval \<Rightarrow> bool" where
  "is_object JNull = True"
| "is_object (JArr xs) = True"
| "is_object (JObj kvs) = True"
| "is_object v = False"

text \<open>\<^verbatim>\<open>a || b\<close>.\<close>

definition js_or :: "jsval \<Rightarrow> jsval \<Rightarrow> jsval" where
  "js_or a b = (if truthy a then a else b)"

text \<open>
  A JavaScript \<^verbatim>\<open>Map\<close> iterates in insertion order and \<^verbatim>\<open>set\<close> on a present key keeps the
  key's place. It is an association list: \<^const>\<open>map_of\<close> is \<^verbatim>\<open>get\<close>, \<^const>\<open>AList.update\<close> is
  \<^verbatim>\<open>set\<close>, \<^const>\<open>AList.delete\<close> is \<^verbatim>\<open>delete\<close> and the values are read off in list order.
\<close>

definition map_values :: "('k \<times> 'v) list \<Rightarrow> 'v list" where
  "map_values m = map snd m"

definition map_has :: "('k \<times> 'v) list \<Rightarrow> 'k \<Rightarrow> bool" where
  "map_has m k = (map_of m k \<noteq> None)"

section \<open>Objects of the routing engine and of the room\<close>

text \<open>
  The routing engine (mediasoup) is outside the repository. The room keeps handles to the
  objects the engine creates; the model keeps what the room code reads from them.
\<close>

datatype transport_ctor = WebRtcTransport | PlainTransport

record transport =
  t_id :: ident
  t_ctor :: transport_ctor
  t_appData :: jsval
  t_params :: jsval

record producer =
  pr_id :: ident
  pr_kind :: jsval
  pr_appData :: jsval

record consumer =
  c_id :: ident
  c_kind :: jsval
  c_rtpParameters :: jsval
  c_type :: jsval
  c_producerPaused :: jsval
  c_score :: jsval

record dataProducer =
  dp_id :: ident
  dp_label :: string
  dp_appData :: jsval

record dataConsumer =
  dc_id :: ident
  dc_sctpStreamParameters :: jsval
  dc_label :: string
  dc_protocol :: string

text \<open>
  \<^verbatim>\<open>Broadcaster.data\<close> and \<^verbatim>\<open>peer.data\<close> share the display name, the device, the receive
  capabilities and the five owned collections; a signaling peer has three more fields.
\<close>

record party_data =
  displayName :: jsval
  device :: jsval
  rtpCapabilities :: jsval
  transports :: "(ident \<times> transport) list"
  producers :: "(ident \<times> producer) list"
  consumers :: "(ident \<times> consumer) list"
  dataProducers :: "(ident \<times> dataProducer) list"
  dataConsumers :: "(ident \<times> dataConsumer) list"

record peer_data = party_data +
  consume :: jsval
  joined :: bool
  sctpCapabilities :: jsval

record room =
  roomId :: ident
  r_closed :: bool
  peers :: "(ident \<times> peer_data) list"
  broadcasters :: "(ident \<times> party_data) list"
  routerRtpCapabilities :: jsval
  bot :: dataProducer
  networkThrottled :: bool

section \<open>Effects and the outside world\<close>

text \<open>
  Every call the room makes on the engine, on a signaling peer, on the bot or on the
  throttle is an action. A handler returns the actions it performs, in program order.
  \<^verbatim>\<open>TransportConsume t p caps paused\<close> is \<^verbatim>\<open>transport.consume({producerId, rtpCapabilities, paused})\<close>
  on transport \<^verbatim>\<open>t\<close>; a call that passes no \<^verbatim>\<open>paused\<close> option has \<^verbatim>\<open>paused = False\<close>, the engine's
  default. \<^verbatim>\<open>EngineCall m i arg\<close> stands for the remaining calls on the engine object \<^verbatim>\<open>i\<close>.
\<close>

datatype action =
    RouterCreateWebRtcTransport jsval
  | RouterCreatePlainTransport jsval
  | RouterClose
  | TransportProduce ident jsval jsval jsval
  | TransportConsume ident ident jsval bool
  | TransportProduceData ident jsval string string jsval
  | TransportConsumeData ident ident
  | TransportClose ident
  | ConsumerResume ident
  | EngineCall string ident jsval
  | ObserverAddProducer ident
  | BotHandlePeerDataProducer ident ident
  | BotClose
  | PeerClose ident
  | PeerRequest ident string jsval
  | PeerNotify ident string jsval
  | ProtooRoomClose
  | EmitClose
  | ThrottleStart jsval jsval jsval
  | ThrottleStop

text \<open>
  What the outside world answers while one event is handled: the engine's results (\<open>None\<close>
  when the call throws, and then \<open>throwText\<close> is the text of the error), whether a
  signaling peer answers a request positively, the order in which the answers to the
  calls that nobody awaits arrive (see \<open>interleave\<close> below), and the two environment values
  the code reads.
\<close>

record world =
  canConsume :: "ident \<Rightarrow> jsval \<Rightarrow> bool"
  createTransportR :: "(ident \<times> jsval) option"
  produceR :: "ident \<Rightarrow> ident option"
  consumeR :: "ident \<Rightarrow> ident \<Rightarrow> consumer option"
  produceDataR :: "ident \<Rightarrow> ident option"
  consumeDataR :: "ident \<Rightarrow> ident \<Rightarrow> dataConsumer option"
  requestR :: "ident \<Rightarrow> string \<Rightarrow> jsval \<Rightarrow> bool"
  callR :: "action \<Rightarrow> jsval option"
  throwText :: "action \<Rightarrow> string"
  answerOrder :: "nat list"
  createPeerR :: bool
  createRoomR :: "(jsval \<times> ident) option"
  throttleSecret :: "string option"
  listenIp :: jsval

datatype error = Error string | TypeError string | EngineError

text \<open>How a request handler ends: \<^verbatim>\<open>accept(data)\<close>, \<^verbatim>\<open>reject(code, reason)\<close>, or a thrown
  error.\<close>

datatype outcome = Accept jsval | Reject int string | Throw error

text \<open>What the requesting peer gets: the wrapper around the handler turns a thrown error
  into \<^verbatim>\<open>reject(error)\<close>.\<close>

datatype reply = Accepted jsval | Rejected int string | RejectedError error

section \<open>The consumer graph builder\<close>

text \<open>\<^verbatim>\<open>_getJoinedPeers({ excludePeer })\<close>. A peer is identified by its id within its room.\<close>

definition getJoinedPeers :: "room \<Rightarrow> ident option \<Rightarrow> (ident \<times> peer_data) list" where
  "getJoinedPeers rm excludePeer =
     filter (\<lambda>(i, d). joined d \<and> Some i \<noteq> excludePeer) (peers rm)"

definition notifyJoinedPeers :: "room \<Rightarrow> ident option \<Rightarrow> string \<Rightarrow> jsval \<Rightarrow> action list" where
  "notifyJoinedPeers rm excludePeer m payload =
     map (\<lambda>(i, d). PeerNotify i m payload) (getJoinedPeers rm excludePeer)"

text \<open>\<^verbatim>\<open>Array.from(transports.values()).find(t => t.appData.consuming)\<close>.\<close>

definition consumingTransport :: "(ident \<times> transport) list \<Rightarrow> transport option" where
  "consumingTransport ts =
     find (\<lambda>t. truthy (js_prop (t_appData t) ''consuming'')) (map_values ts)"

definition newConsumerData :: "ident \<Rightarrow> producer \<Rightarrow> consumer \<Rightarrow> jsval" where
  "newConsumerData producerPeerId pr c =
     JObj [(''peerId'', JStr producerPeerId), (''producerId'', JStr (pr_id pr)),
           (''id'', JStr (c_id c)), (''kind'', c_kind c),
           (''rtpParameters'', c_rtpParameters c), (''type'', c_type c),
           (''appData'', pr_appData pr), (''producerPaused'', c_producerPaused c)]"

text \<open>
  The two functions below are asynchronous and no caller awaits them. A call of an
  asynchronous function runs in turns: the first turn when the function is called, up to
  its first \<^verbatim>\<open>await\<close>; each later turn when the answer it awaits has arrived, up to the
  next \<^verbatim>\<open>await\<close> or to the end. A turn of these two functions stores at most one object in
  a collection of the receiving peer and then makes one call on the engine or on the
  peer.
\<close>

datatype store = NoStore | StoreConsumer consumer | StoreDataConsumer dataConsumer

fun applyStore :: "store \<Rightarrow> peer_data \<Rightarrow> peer_data" where
  "applyStore NoStore d = d"
| "applyStore (StoreConsumer c) d = d\<lparr>consumers := AList.update (c_id c) c (consumers d)\<rparr>"
| "applyStore (StoreDataConsumer dc) d =
     d\<lparr>dataConsumers := AList.update (dc_id dc) dc (dataConsumers d)\<rparr>"

type_synonym turn = "store \<times> action"

text \<open>
  \<^verbatim>\<open>_createConsumer({ consumerPeer, producerPeer, producer })\<close>, turn by turn. The first turn
  checks that the peer can consume, finds its consuming transport and calls
  \<^verbatim>\<open>transport.consume\<close> with \<^verbatim>\<open>paused: true\<close>; the second stores the consumer and sends the
  \<^verbatim>\<open>newConsumer\<close> request; the third, after a positive answer, calls \<^verbatim>\<open>consumer.resume()\<close>; the
  last notifies the score. A call that throws ends the function.
\<close>

definition createConsumerTurns ::
  "world \<Rightarrow> ident \<Rightarrow> peer_data \<Rightarrow> ident \<Rightarrow> producer \<Rightarrow> turn list" where
  "createConsumerTurns w consumerPeerId cp producerPeerId pr =
     (if \<not> truthy (rtpCapabilities cp) \<or> \<not> canConsume w (pr_id pr) (rtpCapabilities cp)
      then []
      else case consumingTransport (transports cp) of
        None \<Rightarrow> []
      | Some t \<Rightarrow>
          (NoStore, TransportConsume (t_id t) (pr_id pr) (rtpCapabilities cp) True) #
          (case consumeR w (t_id t) (pr_id pr) of
             None \<Rightarrow> []
           | Some c \<Rightarrow>
               (StoreConsumer c,
                PeerRequest consumerPeerId ''newConsumer'' (newConsumerData producerPeerId pr c)) #
               (if requestR w consumerPeerId ''newConsumer'' (newConsumerData producerPeerId pr c)
                then (NoStore, ConsumerResume (c_id c)) #
                     (if callR w (ConsumerResume (c_id c)) \<noteq> None
                      then [(NoStore, PeerNotify consumerPeerId ''consumerScore''
                               (JObj [(''consumerId'', JStr (c_id c)), (''score'', c_score c)]))]
                      else [])
                else [])))"

text \<open>
  The same function as one whole: the consumer peer's data after the call and the actions
  of the call, in the order the function performs them.
\<close>

definition createConsumer ::
  "world \<Rightarrow> ident \<Rightarrow> peer_data \<Rightarrow> ident \<Rightarrow> producer \<Rightarrow> peer_data \<times> action list" where
  "createConsumer w consumerPeerId cp producerPeerId pr =
     (if \<not> truthy (rtpCapabilities cp) \<or> \<not> canConsume w (pr_id pr) (rtpCapabilities cp)
      then (cp, [])
      else case consumingTransport (transports cp) of
        None \<Rightarrow> (cp, [])
      | Some t \<Rightarrow>
          (case consumeR w (t_id t) (pr_id pr) of
             None \<Rightarrow> (cp, [TransportConsume (t_id t) (pr_id pr) (rtpCapabilities cp) True])
           | Some c \<Rightarrow>
               (cp\<lparr>consumers := AList.update (c_id c) c (consumers cp)\<rparr>,
                TransportConsume (t_id t) (pr_id pr) (rtpCapabilities cp) True #
                PeerRequest consumerPeerId ''newConsumer'' (newConsumerData producerPeerId pr c) #
                (if requestR w consumerPeerId ''newConsumer'' (newConsumerData producerPeerId pr c)
                 then ConsumerResume (c_id c) #
                      (if callR w (ConsumerResume (c_id c)) \<noteq> None
                       then [PeerNotify consumerPeerId ''consumerScore''
                               (JObj [(''consumerId'', JStr (c_id c)), (''score'', c_score c)])]
                       else [])
                 else []))))"

definition newDataConsumerData :: "ident option \<Rightarrow> dataProducer \<Rightarrow> dataConsumer \<Rightarrow> jsval" where
  "newDataConsumerData dataProducerPeerId dp dc =
     JObj [(''peerId'', (case dataProducerPeerId of Some i \<Rightarrow> JStr i | None \<Rightarrow> JNull)),
           (''dataProducerId'', JStr (dp_id dp)), (''id'', JStr (dc_id dc)),
           (''sctpStreamParameters'', dc_sctpStreamParameters dc),
           (''label'', JStr (dc_label dc)), (''protocol'', JStr (dc_protocol dc)),
           (''appData'', dp_appData dp)]"

text \<open>
  \<^verbatim>\<open>_createDataConsumer({ dataConsumerPeer, dataProducerPeer, dataProducer })\<close>, turn by turn;
  the producer peer is \<open>None\<close> for the bot's data producer. The first turn checks the peer's
  \<^verbatim>\<open>sctpCapabilities\<close>, finds its consuming transport and calls \<^verbatim>\<open>transport.consumeData\<close>; the
  second stores the data consumer and sends the \<^verbatim>\<open>newDataConsumer\<close> request.
\<close>

definition createDataConsumerTurns ::
  "world \<Rightarrow> ident \<Rightarrow> peer_data \<Rightarrow> ident option \<Rightarrow> dataProducer \<Rightarrow> turn list" where
  "createDataConsumerTurns w dataConsumerPeerId cp dataProducerPeerId dp =
     (if \<not> truthy (sctpCapabilities cp) then []
      else case consumingTransport (transports cp) of
        None \<Rightarrow> []
      | Some t \<Rightarrow>
          (NoStore, TransportConsumeData (t_id t) (dp_id dp)) #
          (case consumeDataR w (t_id t) (dp_id dp) of
             None \<Rightarrow> []
           | Some dc \<Rightarrow>
               [(StoreDataConsumer dc,
                 PeerRequest dataConsumerPeerId ''newDataConsumer''
                   (newDataConsumerData dataProducerPeerId dp dc))]))"

text \<open>The same function as one whole.\<close>

definition createDataConsumer ::
  "world \<Rightarrow> ident \<Rightarrow> peer_data \<Rightarrow> ident option \<Rightarrow> dataProducer \<Rightarrow> peer_data \<times> action list" where
  "createDataConsumer w dataConsumerPeerId cp dataProducerPeerId dp =
     (if \<not> truthy (sctpCapabilities cp) then (cp, [])
      else case consumingTransport (transports cp) of
        None \<Rightarrow> (cp, [])
      | Some t \<Rightarrow>
          (case consumeDataR w (t_id t) (dp_id dp) of
             None \<Rightarrow> (cp, [TransportConsumeData (t_id t) (dp_id dp)])
           | Some dc \<Rightarrow>
               (cp\<lparr>dataConsumers := AList.update (dc_id dc) dc (dataConsumers cp)\<rparr>,
                [TransportConsumeData (t_id t) (dp_id dp),
                 PeerRequest dataConsumerPeerId ''newDataConsumer''
                   (newDataConsumerData dataProducerPeerId dp dc)])))"

text \<open>The turns of a call run on their own, one after the other.\<close>

definition runAlone :: "peer_data \<Rightarrow> turn list \<Rightarrow> peer_data \<times> action list" where
  "runAlone cp ts = (foldl (\<lambda>d t. applyStore (fst t) d) cp ts, map snd ts)"

text \<open>A call of one of the two functions for a receiving peer.\<close>

datatype task =
    ConsumerTask ident producer
  | DataConsumerTask "ident option" dataProducer


fun taskTurns :: "world \<Rightarrow> ident \<Rightarrow> peer_data \<Rightarrow> task \<Rightarrow> turn list" where
  "taskTurns w pid cp (ConsumerTask producerPeerId pr) = createConsumerTurns w pid cp producerPeerId pr"
| "taskTurns w pid cp (DataConsumerTask dataProducerPeerId dp) =
     createDataConsumerTurns w pid cp dataProducerPeerId dp"

text \<open>
  A handler that makes several such calls runs the first turn of each, in the order of
  the calls, and goes on with its own code. The later turns run when their answers
  arrive, and the program does not determine in which order the answers to different
  calls arrive; the turns of one call keep their order. \<open>interleave ns xss\<close> merges the
  lists \<open>xss\<close>: each number of \<open>ns\<close> picks, among the lists that are not yet exhausted, the
  one whose head comes next; when \<open>ns\<close> is used up the lists that are left follow one after
  the other. Every merge of the lists that keeps the order within each list is
  \<open>interleave ns xss\<close> for some \<open>ns\<close>.
\<close>

fun interleave :: "nat list \<Rightarrow> 'a list list \<Rightarrow> 'a list" where
  "interleave [] xss = concat xss"
| "interleave (n # ns) xss =
     (let yss = filter (\<lambda>xs. xs \<noteq> []) xss
      in if yss = [] then []
         else hd (yss ! (n mod length yss)) #
              interleave ns (yss[n mod length yss := tl (yss ! (n mod length yss))]))"

text \<open>
  The calls a handler has made: for each the id of the receiving peer and the turns of
  the call. \<open>started\<close> is what the first turns do; \<open>awaited\<close> are the later turns in the
  order in which they run, \<^const>\<open>answerOrder\<close> giving the order of the answers; and \<open>finish\<close>
  runs them on the room, each turn storing into the data of its peer. The room handles
  nothing else until the calls have finished.
\<close>

type_synonym call = "ident \<times> turn list"

definition started :: "call list \<Rightarrow> action list" where
  "started calls = concat (map (\<lambda>(i, ts). map snd (take 1 ts)) calls)"

definition awaited :: "world \<Rightarrow> call list \<Rightarrow> (ident \<times> turn) list" where
  "awaited w calls =
     interleave (answerOrder w) (map (\<lambda>(i, ts). map (Pair i) (drop 1 ts)) calls)"

definition applyTurn :: "room \<Rightarrow> ident \<times> turn \<Rightarrow> room" where
  "applyTurn rm x =
     (case map_of (peers rm) (fst x) of
        None \<Rightarrow> rm
      | Some d \<Rightarrow> rm\<lparr>peers := AList.update (fst x) (applyStore (fst (snd x)) d) (peers rm)\<rparr>)"

definition finish :: "world \<Rightarrow> room \<Rightarrow> call list \<Rightarrow> room \<times> action list" where
  "finish w rm calls =
     (foldl applyTurn rm (awaited w calls), map (\<lambda>x. snd (snd x)) (awaited w calls))"

section \<open>Request dispatch\<close>

text \<open>
  \<^verbatim>\<open>_handleProtooRequest(peer, request, accept, reject)\<close> switches on \<^verbatim>\<open>request.method\<close>;
  a request is the method with the fields the handler reads from \<^verbatim>\<open>request.data\<close>
  (\<^const>\<open>JUndefined\<close> for a field that is absent). Identifiers of engine objects are strings.
\<close>

datatype request =
    GetRouterRtpCapabilities
  | Join jsval jsval jsval jsval
  | CreateWebRtcTransport jsval jsval jsval jsval
  | ConnectWebRtcTransport ident jsval
  | RestartIce ident
  | Produce ident jsval jsval jsval
  | CloseProducer ident
  | PauseProducer ident
  | ResumeProducer ident
  | PauseConsumer ident
  | ResumeConsumer ident
  | SetConsumerPreferredLayers ident jsval jsval
  | SetConsumerPriority ident jsval
  | RequestConsumerKeyFrame ident
  | ProduceData ident jsval string string jsval
  | ChangeDisplayName jsval
  | MixerDataChanged jsval
  | GetTransportStats ident
  | GetProducerStats ident
  | GetConsumerStats ident
  | GetDataProducerStats ident
  | GetDataConsumerStats ident
  | ApplyNetworkThrottle jsval jsval jsval jsval
  | ResetNetworkThrottle jsval
  | UnknownMethod string

definition quoted :: "string \<Rightarrow> string" where
  "quoted s = [CHR 0x22] @ s @ [CHR 0x22]"

definition notFound :: "string \<Rightarrow> ident \<Rightarrow> error" where
  "notFound what i = Error (what @ '' with id '' @ quoted i @ '' not found'')"

definition notJoined :: error where
  "notJoined = Error ''Peer not yet joined''"

definition setPeer :: "room \<Rightarrow> ident \<Rightarrow> peer_data \<Rightarrow> room" where
  "setPeer rm pid pd = rm\<lparr>peers := AList.update pid pd (peers rm)\<rparr>"

text \<open>The calls of the \<^verbatim>\<open>join\<close> loop over the joined peers and broadcasters: a consumer for
  every producer, a data consumer for every data producer whose label is not \<^verbatim>\<open>'bot'\<close>.\<close>

definition genericJoinTasks :: "(ident \<times> party_data) list \<Rightarrow> task list" where
  "genericJoinTasks joinedPeers =
     concat (map (\<lambda>(i, d).
        map (ConsumerTask i) (map_values (producers d)) @
        map (DataConsumerTask (Some i))
          (filter (\<lambda>dp. dp_label dp \<noteq> ''bot'') (map_values (dataProducers d))))
       joinedPeers)"

text \<open>All the calls \<^verbatim>\<open>join\<close> makes: those of the loop, then the call for the bot's data
  producer.\<close>

definition joinTasks :: "(ident \<times> party_data) list \<Rightarrow> dataProducer \<Rightarrow> task list" where
  "joinTasks joinedPeers botProducer =
     genericJoinTasks joinedPeers @ [DataConsumerTask None botProducer]"

definition peerInfo :: "ident \<Rightarrow> 'a party_data_scheme \<Rightarrow> jsval" where
  "peerInfo i d =
     JObj [(''id'', JStr i), (''displayName'', displayName d), (''device'', device d)]"

definition joinedPeersAndBroadcasters :: "room \<Rightarrow> (ident \<times> party_data) list" where
  "joinedPeersAndBroadcasters rm =
     map (\<lambda>(i, d). (i, party_data.truncate d)) (getJoinedPeers rm None) @ broadcasters rm"

text \<open>
  \<^verbatim>\<open>join\<close>. The handler stores the client's data and marks the peer joined, accepts with
  the list of the other joined peers and broadcasters, makes the calls of \<^const>\<open>joinTasks\<close>
  for the joining peer, and notifies the other joined peers; the later turns of the calls
  follow.
\<close>

definition req_join ::
  "world \<Rightarrow> room \<Rightarrow> ident \<Rightarrow> peer_data \<Rightarrow> jsval \<Rightarrow> jsval \<Rightarrow> jsval \<Rightarrow> jsval \<Rightarrow>
     room \<times> outcome \<times> action list" where
  "req_join w rm pid pd dn dev rtp sctp =
     (if joined pd then (rm, Throw (Error ''Peer already joined''), [])
      else
        let pd1 = pd\<lparr>displayName := dn, device := dev, rtpCapabilities := rtp,
                      joined := True, sctpCapabilities := sctp\<rparr>;
            rm1 = setPeer rm pid pd1;
            joinedPeers = joinedPeersAndBroadcasters rm1;
            peerInfos = map (\<lambda>(i, d). peerInfo i d) (filter (\<lambda>(i, d). i \<noteq> pid) joinedPeers);
            calls = map (\<lambda>t. (pid, taskTurns w pid pd1 t)) (joinTasks joinedPeers (bot rm1));
            r = finish w rm1 calls
        in (fst r, Accept (JObj [(''peers'', JArr peerInfos)]),
            started calls @ notifyJoinedPeers rm1 (Some pid) ''newPeer'' (peerInfo pid pd1) @
            snd r))"

text \<open>\<^verbatim>\<open>config.mediasoup.webRtcTransportOptions\<close> and \<^verbatim>\<open>plainTransportOptions\<close>.\<close>

definition webRtcTransportOptions :: "world \<Rightarrow> (string \<times> jsval) list" where
  "webRtcTransportOptions w =
     [(''listenIps'', JArr [listenIp w]),
      (''initialAvailableOutgoingBitrate'', JNum 1000000),
      (''minimumAvailableOutgoingBitrate'', JNum 600000),
      (''maxSctpMessageSize'', JNum 262144),
      (''maxIncomingBitrate'', JNum 1500000)]"

definition plainTransportOptions :: "world \<Rightarrow> (string \<times> jsval) list" where
  "plainTransportOptions w =
     [(''listenIp'', listenIp w), (''maxSctpMessageSize'', JNum 262144)]"

definition sctpOptions :: "jsval \<Rightarrow> (string \<times> jsval) list" where
  "sctpOptions sctp =
     [(''enableSctp'', JBool (truthy sctp)),
      (''numSctpStreams'', js_prop (js_or sctp (JObj [])) ''numStreams'')]"

definition webRtcTransportData :: "transport \<Rightarrow> jsval" where
  "webRtcTransportData t =
     JObj [(''id'', JStr (t_id t)),
           (''iceParameters'', js_prop (t_params t) ''iceParameters''),
           (''iceCandidates'', js_prop (t_params t) ''iceCandidates''),
           (''dtlsParameters'', js_prop (t_params t) ''dtlsParameters''),
           (''sctpParameters'', js_prop (t_params t) ''sctpParameters'')]"

definition req_createWebRtcTransport ::
  "world \<Rightarrow> room \<Rightarrow> ident \<Rightarrow> peer_data \<Rightarrow> jsval \<Rightarrow> jsval \<Rightarrow> jsval \<Rightarrow> jsval \<Rightarrow>
     room \<times> outcome \<times> action list" where
  "req_createWebRtcTransport w rm pid pd forceTcp producing consuming sctp =
     (let appData = JObj [(''producing'', producing), (''consuming'', consuming)];
          opts = JObj (webRtcTransportOptions w @ sctpOptions sctp @ [(''appData'', appData)] @
                   (if truthy forceTcp
                    then [(''enableUdp'', JBool False), (''enableTcp'', JBool True)] else []));
          a1 = RouterCreateWebRtcTransport opts
      in case createTransportR w of
           None \<Rightarrow> (rm, Throw EngineError, [a1])
         | Some (tid, params) \<Rightarrow>
             (let t = \<lparr>t_id = tid, t_ctor = WebRtcTransport, t_appData = appData,
                       t_params = params\<rparr>;
                  a2 = EngineCall ''transport.enableTraceEvent'' tid (JArr [JStr ''bwe''])
              in if callR w a2 = None then (rm, Throw EngineError, [a1, a2])
                 else (setPeer rm pid (pd\<lparr>transports := AList.update tid t (transports pd)\<rparr>),
                       Accept (webRtcTransportData t),
                       [a1, a2, EngineCall ''transport.setMaxIncomingBitrate'' tid (JNum 1500000)])))"

text \<open>The handlers that look an object up in one of the peer's own collections, make one
  awaited call on it and accept with \<^verbatim>\<open>null\<close> or with the call's result.\<close>

definition callOn ::
  "world \<Rightarrow> room \<Rightarrow> (ident \<times> 'v) list \<Rightarrow> string \<Rightarrow> ident \<Rightarrow> action \<Rightarrow> bool \<Rightarrow>
     room \<times> outcome \<times> action list" where
  "callOn w rm coll what i a withResult =
     (case map_of coll i of
        None \<Rightarrow> (rm, Throw (notFound what i), [])
      | Some obj \<Rightarrow>
          (case callR w a of
             None \<Rightarrow> (rm, Throw EngineError, [a])
           | Some v \<Rightarrow> (rm, Accept (if withResult then v else JNull), [a])))"

definition js_assign :: "jsval \<Rightarrow> string \<Rightarrow> jsval \<Rightarrow> jsval" where
  "js_assign obj k v = JObj (AList.update k v (js_spread obj))"

text \<open>
  \<^verbatim>\<open>produce\<close>. After the awaited \<^verbatim>\<open>transport.produce\<close> the handler stores the producer,
  accepts, calls \<^verbatim>\<open>_createConsumer\<close> for every other joined peer and adds an audio producer
  to the audio level observer; the later turns of the calls follow.
\<close>

definition req_produce ::
  "world \<Rightarrow> room \<Rightarrow> ident \<Rightarrow> peer_data \<Rightarrow> ident \<Rightarrow> jsval \<Rightarrow> jsval \<Rightarrow> jsval \<Rightarrow>
     room \<times> outcome \<times> action list" where
  "req_produce w rm pid pd transportId kind rtpParameters appData =
     (if \<not> joined pd then (rm, Throw notJoined, [])
      else case map_of (transports pd) transportId of
        None \<Rightarrow> (rm, Throw (notFound ''transport'' transportId), [])
      | Some t \<Rightarrow>
          (let appData' = js_assign appData ''peerId'' (JStr pid);
               a1 = TransportProduce (t_id t) kind rtpParameters appData'
           in case produceR w (t_id t) of
                None \<Rightarrow> (rm, Throw EngineError, [a1])
              | Some prid \<Rightarrow>
                  (let pr = \<lparr>pr_id = prid, pr_kind = kind, pr_appData = appData'\<rparr>;
                       rm1 = setPeer rm pid (pd\<lparr>producers := AList.update prid pr (producers pd)\<rparr>);
                       calls = map (\<lambda>(i, d). (i, createConsumerTurns w i d pid pr))
                                 (getJoinedPeers rm1 (Some pid));
                       r = finish w rm1 calls
                   in (fst r, Accept (JObj [(''id'', JStr prid)]),
                       a1 # started calls @
                       (if kind = JStr ''audio'' then [ObserverAddProducer prid] else []) @
                       snd r))))"

definition req_closeProducer ::
  "room \<Rightarrow> ident \<Rightarrow> peer_data \<Rightarrow> ident \<Rightarrow> room \<times> outcome \<times> action list" where
  "req_closeProducer rm pid pd producerId =
     (if \<not> joined pd then (rm, Throw notJoined, [])
      else case map_of (producers pd) producerId of
        None \<Rightarrow> (rm, Throw (notFound ''producer'' producerId), [])
      | Some pr \<Rightarrow>
          (setPeer rm pid (pd\<lparr>producers := AList.delete (pr_id pr) (producers pd)\<rparr>),
           Accept JNull, [EngineCall ''producer.close'' (pr_id pr) JUndefined]))"

text \<open>The engine gives a producer or data producer that is created without \<^verbatim>\<open>appData\<close> the
  empty object.\<close>

definition appDataOrEmpty :: "jsval \<Rightarrow> jsval" where
  "appDataOrEmpty appData = (if appData = JUndefined then JObj [] else appData)"

definition req_produceData ::
  "world \<Rightarrow> room \<Rightarrow> ident \<Rightarrow> peer_data \<Rightarrow> ident \<Rightarrow> jsval \<Rightarrow> string \<Rightarrow> string \<Rightarrow> jsval \<Rightarrow>
     room \<times> outcome \<times> action list" where
  "req_produceData w rm pid pd transportId sctpStreamParameters label protocol appData =
     (if \<not> joined pd then (rm, Throw notJoined, [])
      else case map_of (transports pd) transportId of
        None \<Rightarrow> (rm, Throw (notFound ''transport'' transportId), [])
      | Some t \<Rightarrow>
          (let a1 = TransportProduceData (t_id t) sctpStreamParameters label protocol appData
           in case produceDataR w (t_id t) of
                None \<Rightarrow> (rm, Throw EngineError, [a1])
              | Some dpid \<Rightarrow>
                  (let dp = \<lparr>dp_id = dpid, dp_label = label, dp_appData = appDataOrEmpty appData\<rparr>;
                       rm1 = setPeer rm pid
                               (pd\<lparr>dataProducers := AList.update dpid dp (dataProducers pd)\<rparr>)
                   in if label = ''chat'' then
                        (let calls = map (\<lambda>(i, d). (i, createDataConsumerTurns w i d (Some pid) dp))
                                       (getJoinedPeers rm1 (Some pid));
                             r = finish w rm1 calls
                         in (fst r, Accept (JObj [(''id'', JStr dpid)]),
                             a1 # started calls @ snd r))
                      else if label = ''bot'' then
                        (rm1, Accept (JObj [(''id'', JStr dpid)]),
                         [a1, BotHandlePeerDataProducer dpid pid])
                      else (rm1, Accept (JObj [(''id'', JStr dpid)]), [a1]))))"

definition req_changeDisplayName ::
  "room \<Rightarrow> ident \<Rightarrow> peer_data \<Rightarrow> jsval \<Rightarrow> room \<times> outcome \<times> action list" where
  "req_changeDisplayName rm pid pd dn =
     (if \<not> joined pd then (rm, Throw notJoined, [])
      else
        (let rm1 = setPeer rm pid (pd\<lparr>displayName := dn\<rparr>)
         in (rm1, Accept JNull,
             notifyJoinedPeers rm1 (Some pid) ''peerDisplayNameChanged''
               (JObj [(''peerId'', JStr pid), (''displayName'', dn),
                      (''oldDisplayName'', displayName pd)]))))"

definition req_mixerDataChanged ::
  "room \<Rightarrow> ident \<Rightarrow> peer_data \<Rightarrow> jsval \<Rightarrow> room \<times> outcome \<times> action list" where
  "req_mixerDataChanged rm pid pd d =
     (if \<not> joined pd then (rm, Throw notJoined, [])
      else (rm, Accept JNull, notifyJoinedPeers rm (Some pid) ''mixerDataChanged'' d))"

text \<open>\<^verbatim>\<open>!secret || secret !== process.env.NETWORK_THROTTLE_SECRET\<close>: the environment value is
  a string or is not set. When the throttle itself fails the handlers reject with code 500
  and \<^verbatim>\<open>error.toString()\<close>, the text of the thrown error.\<close>

definition secretRefused :: "world \<Rightarrow> jsval \<Rightarrow> bool" where
  "secretRefused w secret =
     (\<not> truthy secret \<or>
      secret \<noteq> (case throttleSecret w of Some s \<Rightarrow> JStr s | None \<Rightarrow> JUndefined))"

definition req_applyNetworkThrottle ::
  "world \<Rightarrow> room \<Rightarrow> jsval \<Rightarrow> jsval \<Rightarrow> jsval \<Rightarrow> jsval \<Rightarrow> room \<times> outcome \<times> action list" where
  "req_applyNetworkThrottle w rm uplink downlink rtt secret =
     (if secretRefused w secret
      then (rm, Reject 403 ''operation NOT allowed, modda fuckaa'', [])
      else
        (let a = ThrottleStart (js_or uplink (JNum 1000000)) (js_or downlink (JNum 1000000))
                   (js_or rtt (JNum 0))
         in case callR w a of
              None \<Rightarrow> (rm, Reject 500 (throwText w a), [a])
            | Some v \<Rightarrow> (rm, Accept JNull, [a])))"

definition req_resetNetworkThrottle ::
  "world \<Rightarrow> room \<Rightarrow> jsval \<Rightarrow> room \<times> outcome \<times> action list" where
  "req_resetNetworkThrottle w rm secret =
     (if secretRefused w secret
      then (rm, Reject 403 ''operation NOT allowed, modda fuckaa'', [])
      else case callR w ThrottleStop of
             None \<Rightarrow> (rm, Reject 500 (throwText w ThrottleStop), [ThrottleStop])
           | Some v \<Rightarrow> (rm, Accept JNull, [ThrottleStop]))"

text \<open>The guard of the handlers that need a joined peer.\<close>

definition whenJoined ::
  "room \<Rightarrow> peer_data \<Rightarrow> room \<times> outcome \<times> action list \<Rightarrow> room \<times> outcome \<times> action list" where
  "whenJoined rm pd r = (if \<not> joined pd then (rm, Throw notJoined, []) else r)"

fun handleProtooRequest ::
  "world \<Rightarrow> room \<Rightarrow> ident \<Rightarrow> peer_data \<Rightarrow> request \<Rightarrow> room \<times> outcome \<times> action list" where
  "handleProtooRequest w rm pid pd GetRouterRtpCapabilities =
     (rm, Accept (routerRtpCapabilities rm), [])"
| "handleProtooRequest w rm pid pd (Join dn dev rtp sctp) = req_join w rm pid pd dn dev rtp sctp"
| "handleProtooRequest w rm pid pd (CreateWebRtcTransport forceTcp producing consuming sctp) =
     req_createWebRtcTransport w rm pid pd forceTcp producing consuming sctp"
| "handleProtooRequest w rm pid pd (ConnectWebRtcTransport i dtls) =
     callOn w rm (transports pd) ''transport'' i (EngineCall ''transport.connect'' i dtls) False"
| "handleProtooRequest w rm pid pd (RestartIce i) =
     callOn w rm (transports pd) ''transport'' i (EngineCall ''transport.restartIce'' i JUndefined) True"
| "handleProtooRequest w rm pid pd (Produce i kind rtpParameters appData) =
     req_produce w rm pid pd i kind rtpParameters appData"
| "handleProtooRequest w rm pid pd (CloseProducer i) = req_closeProducer rm pid pd i"
| "handleProtooRequest w rm pid pd (PauseProducer i) =
     whenJoined rm pd
       (callOn w rm (producers pd) ''producer'' i (EngineCall ''producer.pause'' i JUndefined) False)"
| "handleProtooRequest w rm pid pd (ResumeProducer i) =
     whenJoined rm pd
       (callOn w rm (producers pd) ''producer'' i (EngineCall ''producer.resume'' i JUndefined) False)"
| "handleProtooRequest w rm pid pd (PauseConsumer i) =
     whenJoined rm pd
       (callOn w rm (consumers pd) ''consumer'' i (EngineCall ''consumer.pause'' i JUndefined) False)"
| "handleProtooRequest w rm pid pd (ResumeConsumer i) =
     whenJoined rm pd (callOn w rm (consumers pd) ''consumer'' i (ConsumerResume i) False)"
| "handleProtooRequest w rm pid pd (SetConsumerPreferredLayers i spatialLayer temporalLayer) =
     whenJoined rm pd
       (callOn w rm (consumers pd) ''consumer'' i
          (EngineCall ''consumer.setPreferredLayers'' i
             (JObj [(''spatialLayer'', spatialLayer), (''temporalLayer'', temporalLayer)])) False)"
| "handleProtooRequest w rm pid pd (SetConsumerPriority i priority) =
     whenJoined rm pd
       (callOn w rm (consumers pd) ''consumer'' i (EngineCall ''consumer.setPriority'' i priority) False)"
| "handleProtooRequest w rm pid pd (RequestConsumerKeyFrame i) =
     whenJoined rm pd
       (callOn w rm (consumers pd) ''consumer'' i
          (EngineCall ''consumer.requestKeyFrame'' i JUndefined) False)"
| "handleProtooRequest w rm pid pd (ProduceData i sctpStreamParameters label protocol appData) =
     req_produceData w rm pid pd i sctpStreamParameters label protocol appData"
| "handleProtooRequest w rm pid pd (ChangeDisplayName dn) = req_changeDisplayName rm pid pd dn"
| "handleProtooRequest w rm pid pd (MixerDataChanged d) = req_mixerDataChanged rm pid pd d"
| "handleProtooRequest w rm pid pd (GetTransportStats i) =
     callOn w rm (transports pd) ''transport'' i (EngineCall ''transport.getStats'' i JUndefined) True"
| "handleProtooRequest w rm pid pd (GetProducerStats i) =
     callOn w rm (producers pd) ''producer'' i (EngineCall ''producer.getStats'' i JUndefined) True"
| "handleProtooRequest w rm pid pd (GetConsumerStats i) =
     callOn w rm (consumers pd) ''consumer'' i (EngineCall ''consumer.getStats'' i JUndefined) True"
| "handleProtooRequest w rm pid pd (GetDataProducerStats i) =
     callOn w rm (dataProducers pd) ''dataProducer'' i
       (EngineCall ''dataProducer.getStats'' i JUndefined) True"
| "handleProtooRequest w rm pid pd (GetDataConsumerStats i) =
     callOn w rm (dataConsumers pd) ''dataConsumer'' i
       (EngineCall ''dataConsumer.getStats'' i JUndefined) True"
| "handleProtooRequest w rm pid pd (ApplyNetworkThrottle uplink downlink rtt secret) =
     req_applyNetworkThrottle w rm uplink downlink rtt secret"
| "handleProtooRequest w rm pid pd (ResetNetworkThrottle secret) =
     req_resetNetworkThrottle w rm secret"
| "handleProtooRequest w rm pid pd (UnknownMethod m) =
     (rm, Reject 500 (''unknown request.method '' @ quoted m), [])"

text \<open>
  The peer's \<^verbatim>\<open>'request'\<close> listener: it runs the handler for the peer \<open>pid\<close> of the room and
  rejects with the error when the handler throws. A peer that is not in the room sends no
  request.
\<close>

definition onRequest :: "world \<Rightarrow> room \<Rightarrow> ident \<Rightarrow> request \<Rightarrow> (room \<times> reply \<times> action list) option" where
  "onRequest w rm pid req =
     (case map_of (peers rm) pid of
        None \<Rightarrow> None
      | Some pd \<Rightarrow>
          (case handleProtooRequest w rm pid pd req of
             (rm', Accept v, acts) \<Rightarrow> Some (rm', Accepted v, acts)
           | (rm', Reject c m, acts) \<Rightarrow> Some (rm', Rejected c m, acts)
           | (rm', Throw e, acts) \<Rightarrow> Some (rm', RejectedError e, acts)))"

section \<open>Connection, disconnection and closing the room\<close>

text \<open>\<^verbatim>\<open>Room.close()\<close>. Closing the signaling room closes every peer that is still in it;
  their \<^verbatim>\<open>'close'\<close> listeners return at once because \<^verbatim>\<open>_closed\<close> is already set.\<close>

definition roomClose :: "room \<Rightarrow> room \<times> action list" where
  "roomClose rm =
     (rm\<lparr>r_closed := True, peers := []\<rparr>,
      [ProtooRoomClose, RouterClose, BotClose, EmitClose] @
      (if networkThrottled rm then [ThrottleStop] else []))"

text \<open>
  A signaling peer closes (its connection drops, or \<^verbatim>\<open>peer.close()\<close> is called). The
  signaling library first takes the peer out of its room, which is what
  \<^verbatim>\<open>this._protooRoom.peers.length === 0\<close> relies on; then the \<^verbatim>\<open>'close'\<close> listener of
  \<^verbatim>\<open>handleProtooConnection\<close> runs.
\<close>

definition peerClosed :: "room \<Rightarrow> ident \<Rightarrow> room \<times> action list" where
  "peerClosed rm pid =
     (case map_of (peers rm) pid of
        None \<Rightarrow> (rm, [])
      | Some pd \<Rightarrow>
          (let rm1 = rm\<lparr>peers := AList.delete pid (peers rm)\<rparr>
           in if r_closed rm1 then (rm1, [])
              else
                (let a1 = (if joined pd
                           then notifyJoinedPeers rm1 (Some pid) ''peerClosed''
                                  (JObj [(''peerId'', JStr pid)])
                           else []);
                     a2 = map (\<lambda>t. TransportClose (t_id t)) (map_values (transports pd))
                 in if peers rm1 = []
                    then (fst (roomClose rm1), a1 @ a2 @ snd (roomClose rm1))
                    else (rm1, a1 @ a2))))"

definition newPeerData :: "jsval \<Rightarrow> peer_data" where
  "newPeerData cons =
     \<lparr>displayName = JUndefined, device = JUndefined, rtpCapabilities = JUndefined,
      transports = [], producers = [], consumers = [], dataProducers = [], dataConsumers = [],
      consume = cons, joined = False, sctpCapabilities = JUndefined\<rparr>"

text \<open>\<^verbatim>\<open>handleProtooConnection({ peerId, consume, protooWebSocketTransport })\<close>;
  \<^const>\<open>createPeerR\<close> tells whether \<^verbatim>\<open>createPeer\<close> gives a peer.\<close>

definition handleProtooConnection :: "world \<Rightarrow> room \<Rightarrow> ident \<Rightarrow> jsval \<Rightarrow> room \<times> action list" where
  "handleProtooConnection w rm peerId cons =
     (let r1 = (if map_has (peers rm) peerId
                then (fst (peerClosed rm peerId), PeerClose peerId # snd (peerClosed rm peerId))
                else (rm, []))
      in if createPeerR w
         then ((fst r1)\<lparr>peers := AList.update peerId (newPeerData cons) (peers (fst r1))\<rparr>, snd r1)
         else r1)"

section \<open>Events of the engine on consumers\<close>

text \<open>The listeners set on a consumer and on a data consumer of a signaling peer that
  change the peer's collections. The other listeners (producer pause and resume, score,
  layers change, trace, and the audio level observer's) only notify peers or log, and
  leave the room as it is.\<close>

datatype consumer_event =
    ConsumerTransportClose ident
  | ConsumerProducerClose ident
  | DataConsumerTransportClose ident
  | DataConsumerDataProducerClose ident

fun onConsumerEvent :: "room \<Rightarrow> ident \<Rightarrow> consumer_event \<Rightarrow> room \<times> action list" where
  "onConsumerEvent rm pid (ConsumerTransportClose cid) =
     (case map_of (peers rm) pid of
        None \<Rightarrow> (rm, [])
      | Some pd \<Rightarrow> (setPeer rm pid (pd\<lparr>consumers := AList.delete cid (consumers pd)\<rparr>), []))"
| "onConsumerEvent rm pid (ConsumerProducerClose cid) =
     (case map_of (peers rm) pid of
        None \<Rightarrow> (rm, [])
      | Some pd \<Rightarrow>
          (setPeer rm pid (pd\<lparr>consumers := AList.delete cid (consumers pd)\<rparr>),
           [PeerNotify pid ''consumerClosed'' (JObj [(''consumerId'', JStr cid)])]))"
| "onConsumerEvent rm pid (DataConsumerTransportClose cid) =
     (case map_of (peers rm) pid of
        None \<Rightarrow> (rm, [])
      | Some pd \<Rightarrow> (setPeer rm pid (pd\<lparr>dataConsumers := AList.delete cid (dataConsumers pd)\<rparr>), []))"
| "onConsumerEvent rm pid (DataConsumerDataProducerClose cid) =
     (case map_of (peers rm) pid of
        None \<Rightarrow> (rm, [])
      | Some pd \<Rightarrow>
          (setPeer rm pid (pd\<lparr>dataConsumers := AList.delete cid (dataConsumers pd)\<rparr>),
           [PeerNotify pid ''dataConsumerClosed'' (JObj [(''dataConsumerId'', JStr cid)])]))"

section \<open>Broadcasters\<close>

text \<open>The administrative operations return a result or throw.\<close>

definition noBroadcaster :: "ident \<Rightarrow> error" where
  "noBroadcaster i = Error (''broadcaster with id '' @ quoted i @ '' does not exist'')"

definition noTransport :: "ident \<Rightarrow> error" where
  "noTransport i = Error (''transport with id '' @ quoted i @ '' does not exist'')"

definition setBroadcaster :: "room \<Rightarrow> ident \<Rightarrow> party_data \<Rightarrow> room" where
  "setBroadcaster rm bid bd = rm\<lparr>broadcasters := AList.update bid bd (broadcasters rm)\<rparr>"

definition broadcasterDevice :: "jsval \<Rightarrow> jsval" where
  "broadcasterDevice dev =
     JObj [(''flag'', JStr ''broadcaster''),
           (''name'', js_or (js_prop dev ''name'') (JStr ''Unknown device'')),
           (''version'', js_prop dev ''version'')]"

text \<open>The reply of \<^verbatim>\<open>createBroadcaster\<close>: the joined peers with the producers the
  broadcaster can consume, when it gave its capabilities.\<close>

definition broadcasterPeerInfos :: "world \<Rightarrow> room \<Rightarrow> jsval \<Rightarrow> jsval list" where
  "broadcasterPeerInfos w rm rtp =
     (if truthy rtp
      then map (\<lambda>(i, d).
             JObj [(''id'', JStr i), (''displayName'', displayName d), (''device'', device d),
                   (''producers'',
                    JArr (map (\<lambda>p. JObj [(''id'', JStr (pr_id p)), (''kind'', pr_kind p)])
                            (filter (\<lambda>p. canConsume w (pr_id p) rtp) (map_values (producers d)))))])
             (getJoinedPeers rm None)
      else [])"

definition createBroadcaster ::
  "world \<Rightarrow> room \<Rightarrow> jsval \<Rightarrow> jsval \<Rightarrow> jsval \<Rightarrow> jsval \<Rightarrow> room \<times> (error + jsval) \<times> action list" where
  "createBroadcaster w rm bid dn dev0 rtp =
     (let dev = (if dev0 = JUndefined then JObj [] else dev0)
      in if \<not> is_string bid \<or> \<not> truthy bid then (rm, Inl (TypeError ''missing body.id''), [])
         else if \<not> is_string dn \<or> \<not> truthy dn
           then (rm, Inl (TypeError ''missing body.displayName''), [])
         else if dev = JNull then (rm, Inl (TypeError ''Cannot read properties of null''), [])
         else if \<not> is_string (js_prop dev ''name'') \<or> \<not> truthy (js_prop dev ''name'')
           then (rm, Inl (TypeError ''missing body.device.name''), [])
         else if truthy rtp \<and> \<not> is_object rtp
           then (rm, Inl (TypeError ''wrong body.rtpCapabilities''), [])
         else case bid of
           JStr i \<Rightarrow>
             (if map_has (broadcasters rm) i
              then (rm, Inl (Error (''broadcaster with id '' @ quoted i @ '' already exists'')), [])
              else
                (let bd = \<lparr>displayName = dn, device = broadcasterDevice dev, rtpCapabilities = rtp,
                           transports = [], producers = [], consumers = [], dataProducers = [],
                           dataConsumers = []\<rparr>;
                     rm1 = setBroadcaster rm i bd
                 in (rm1, Inr (JObj [(''peers'', JArr (broadcasterPeerInfos w rm1 rtp))]),
                     notifyJoinedPeers rm1 None ''newPeer'' (peerInfo i bd))))
         | v \<Rightarrow> (rm, Inl (TypeError ''missing body.id''), []))"

definition deleteBroadcaster :: "room \<Rightarrow> ident \<Rightarrow> room \<times> (error + jsval) \<times> action list" where
  "deleteBroadcaster rm bid =
     (case map_of (broadcasters rm) bid of
        None \<Rightarrow> (rm, Inl (noBroadcaster bid), [])
      | Some bd \<Rightarrow>
          (let rm1 = rm\<lparr>broadcasters := AList.delete bid (broadcasters rm)\<rparr>
           in (rm1, Inr JUndefined,
               map (\<lambda>t. TransportClose (t_id t)) (map_values (transports bd)) @
               notifyJoinedPeers rm1 None ''peerClosed'' (JObj [(''peerId'', JStr bid)]))))"

datatype transport_type = TypeWebrtc | TypePlain | TypeOther

definition plainTransportData :: "transport \<Rightarrow> jsval" where
  "plainTransportData t =
     JObj [(''id'', JStr (t_id t)),
           (''ip'', js_prop (js_prop (t_params t) ''tuple'') ''localIp''),
           (''port'', js_prop (js_prop (t_params t) ''tuple'') ''localPort''),
           (''rtcpPort'',
            (if truthy (js_prop (t_params t) ''rtcpTuple'')
             then js_prop (js_prop (t_params t) ''rtcpTuple'') ''localPort'' else JUndefined))]"

definition createBroadcasterTransport ::
  "world \<Rightarrow> room \<Rightarrow> ident \<Rightarrow> transport_type \<Rightarrow> jsval \<Rightarrow> jsval \<Rightarrow> jsval \<Rightarrow>
     room \<times> (error + jsval) \<times> action list" where
  "createBroadcasterTransport w rm bid ty rtcpMux comedia sctp =
     (case map_of (broadcasters rm) bid of
        None \<Rightarrow> (rm, Inl (noBroadcaster bid), [])
      | Some bd \<Rightarrow>
          (case ty of
             TypeWebrtc \<Rightarrow>
               (let a = RouterCreateWebRtcTransport (JObj (webRtcTransportOptions w @ sctpOptions sctp))
                in case createTransportR w of
                     None \<Rightarrow> (rm, Inl EngineError, [a])
                   | Some (tid, params) \<Rightarrow>
                       (let t = \<lparr>t_id = tid, t_ctor = WebRtcTransport, t_appData = JObj [],
                                 t_params = params\<rparr>
                        in (setBroadcaster rm bid
                              (bd\<lparr>transports := AList.update tid t (transports bd)\<rparr>),
                            Inr (webRtcTransportData t), [a])))
           | TypePlain \<Rightarrow>
               (let a = RouterCreatePlainTransport
                          (JObj (plainTransportOptions w @
                             [(''rtcpMux'', (if rtcpMux = JUndefined then JBool False else rtcpMux)),
                              (''comedia'', (if comedia = JUndefined then JBool True else comedia))]))
                in case createTransportR w of
                     None \<Rightarrow> (rm, Inl EngineError, [a])
                   | Some (tid, params) \<Rightarrow>
                       (let t = \<lparr>t_id = tid, t_ctor = PlainTransport, t_appData = JObj [],
                                 t_params = params\<rparr>
                        in (setBroadcaster rm bid
                              (bd\<lparr>transports := AList.update tid t (transports bd)\<rparr>),
                            Inr (plainTransportData t), [a])))
           | TypeOther \<Rightarrow> (rm, Inl (TypeError ''invalid type''), [])))"

definition connectBroadcasterTransport ::
  "world \<Rightarrow> room \<Rightarrow> ident \<Rightarrow> ident \<Rightarrow> jsval \<Rightarrow> room \<times> (error + jsval) \<times> action list" where
  "connectBroadcasterTransport w rm bid transportId dtls =
     (case map_of (broadcasters rm) bid of
        None \<Rightarrow> (rm, Inl (noBroadcaster bid), [])
      | Some bd \<Rightarrow>
          (case map_of (transports bd) transportId of
             None \<Rightarrow> (rm, Inl (noTransport transportId), [])
           | Some t \<Rightarrow>
               (if t_ctor t \<noteq> WebRtcTransport
                then (rm, Inl (Error (''transport with id '' @ quoted transportId @
                                       '' is not a WebRtcTransport'')), [])
                else case callR w (EngineCall ''transport.connect'' (t_id t) dtls) of
                       None \<Rightarrow> (rm, Inl EngineError, [EngineCall ''transport.connect'' (t_id t) dtls])
                     | Some v \<Rightarrow>
                         (rm, Inr JUndefined, [EngineCall ''transport.connect'' (t_id t) dtls]))))"

text \<open>\<^verbatim>\<open>createBroadcasterProducer\<close>: the producer is created without \<^verbatim>\<open>appData\<close>, stored, and
  \<^verbatim>\<open>_createConsumer\<close> is called for every joined peer.\<close>

definition createBroadcasterProducer ::
  "world \<Rightarrow> room \<Rightarrow> ident \<Rightarrow> ident \<Rightarrow> jsval \<Rightarrow> jsval \<Rightarrow> room \<times> (error + jsval) \<times> action list" where
  "createBroadcasterProducer w rm bid transportId kind rtpParameters =
     (case map_of (broadcasters rm) bid of
        None \<Rightarrow> (rm, Inl (noBroadcaster bid), [])
      | Some bd \<Rightarrow>
          (case map_of (transports bd) transportId of
             None \<Rightarrow> (rm, Inl (noTransport transportId), [])
           | Some t \<Rightarrow>
               (let a1 = TransportProduce (t_id t) kind rtpParameters JUndefined
                in case produceR w (t_id t) of
                     None \<Rightarrow> (rm, Inl EngineError, [a1])
                   | Some prid \<Rightarrow>
                       (let pr = \<lparr>pr_id = prid, pr_kind = kind, pr_appData = JObj []\<rparr>;
                            rm1 = setBroadcaster rm bid
                                    (bd\<lparr>producers := AList.update prid pr (producers bd)\<rparr>);
                            calls = map (\<lambda>(i, d). (i, createConsumerTurns w i d bid pr))
                                      (getJoinedPeers rm1 None);
                            r = finish w rm1 calls
                        in (fst r, Inr (JObj [(''id'', JStr prid)]),
                            a1 # started calls @
                            (if kind = JStr ''audio'' then [ObserverAddProducer prid] else []) @
                            snd r)))))"

definition consumerData :: "ident \<Rightarrow> consumer \<Rightarrow> jsval" where
  "consumerData producerId c =
     JObj [(''id'', JStr (c_id c)), (''producerId'', JStr producerId), (''kind'', c_kind c),
           (''rtpParameters'', c_rtpParameters c), (''type'', c_type c)]"

definition createBroadcasterConsumer ::
  "world \<Rightarrow> room \<Rightarrow> ident \<Rightarrow> ident \<Rightarrow> ident \<Rightarrow> room \<times> (error + jsval) \<times> action list" where
  "createBroadcasterConsumer w rm bid transportId producerId =
     (case map_of (broadcasters rm) bid of
        None \<Rightarrow> (rm, Inl (noBroadcaster bid), [])
      | Some bd \<Rightarrow>
          (if \<not> truthy (rtpCapabilities bd)
           then (rm, Inl (Error ''broadcaster does not have rtpCapabilities''), [])
           else case map_of (transports bd) transportId of
             None \<Rightarrow> (rm, Inl (noTransport transportId), [])
           | Some t \<Rightarrow>
               (let a = TransportConsume (t_id t) producerId (rtpCapabilities bd) False
                in case consumeR w (t_id t) producerId of
                     None \<Rightarrow> (rm, Inl EngineError, [a])
                   | Some c \<Rightarrow>
                       (setBroadcaster rm bid
                          (bd\<lparr>consumers := AList.update (c_id c) c (consumers bd)\<rparr>),
                        Inr (consumerData producerId c), [a]))))"

definition createBroadcasterDataConsumer ::
  "world \<Rightarrow> room \<Rightarrow> ident \<Rightarrow> ident \<Rightarrow> ident \<Rightarrow> room \<times> (error + jsval) \<times> action list" where
  "createBroadcasterDataConsumer w rm bid transportId dataProducerId =
     (case map_of (broadcasters rm) bid of
        None \<Rightarrow> (rm, Inl (noBroadcaster bid), [])
      | Some bd \<Rightarrow>
          (if \<not> truthy (rtpCapabilities bd)
           then (rm, Inl (Error ''broadcaster does not have rtpCapabilities''), [])
           else case map_of (transports bd) transportId of
             None \<Rightarrow> (rm, Inl (noTransport transportId), [])
           | Some t \<Rightarrow>
               (let a = TransportConsumeData (t_id t) dataProducerId
                in case consumeDataR w (t_id t) dataProducerId of
                     None \<Rightarrow> (rm, Inl EngineError, [a])
                   | Some dc \<Rightarrow>
                       (setBroadcaster rm bid
                          (bd\<lparr>dataConsumers := AList.update (dc_id dc) dc (dataConsumers bd)\<rparr>),
                        Inr (JObj [(''id'', JStr (dc_id dc))]), [a]))))"

text \<open>\<^verbatim>\<open>createBroadcasterDataProducer\<close>: the loop that would create a data consumer for each
  joined peer is commented out in the source, so the operation stores the data producer
  and returns its id.\<close>

definition createBroadcasterDataProducer ::
  "world \<Rightarrow> room \<Rightarrow> ident \<Rightarrow> ident \<Rightarrow> string \<Rightarrow> string \<Rightarrow> jsval \<Rightarrow> jsval \<Rightarrow>
     room \<times> (error + jsval) \<times> action list" where
  "createBroadcasterDataProducer w rm bid transportId label protocol sctpStreamParameters appData =
     (case map_of (broadcasters rm) bid of
        None \<Rightarrow> (rm, Inl (noBroadcaster bid), [])
      | Some bd \<Rightarrow>
          (case map_of (transports bd) transportId of
             None \<Rightarrow> (rm, Inl (noTransport transportId), [])
           | Some t \<Rightarrow>
               (let a = TransportProduceData (t_id t) sctpStreamParameters label protocol appData
                in case produceDataR w (t_id t) of
                     None \<Rightarrow> (rm, Inl EngineError, [a])
                   | Some dpid \<Rightarrow>
                       (let dp = \<lparr>dp_id = dpid, dp_label = label, dp_appData = appDataOrEmpty appData\<rparr>
                        in (setBroadcaster rm bid
                              (bd\<lparr>dataProducers := AList.update dpid dp (dataProducers bd)\<rparr>),
                            Inr (JObj [(''id'', JStr dpid)]), [a])))))"

text \<open>The listeners set on a broadcaster's consumers, data consumers and data producers:
  each removes the object from the broadcaster's collection.\<close>

datatype broadcaster_event =
    BroadcasterConsumerClose ident
  | BroadcasterDataConsumerClose ident
  | BroadcasterDataProducerTransportClose ident

fun onBroadcasterEvent :: "room \<Rightarrow> ident \<Rightarrow> broadcaster_event \<Rightarrow> room" where
  "onBroadcasterEvent rm bid (BroadcasterConsumerClose cid) =
     (case map_of (broadcasters rm) bid of
        None \<Rightarrow> rm
      | Some bd \<Rightarrow> setBroadcaster rm bid (bd\<lparr>consumers := AList.delete cid (consumers bd)\<rparr>))"
| "onBroadcasterEvent rm bid (BroadcasterDataConsumerClose cid) =
     (case map_of (broadcasters rm) bid of
        None \<Rightarrow> rm
      | Some bd \<Rightarrow> setBroadcaster rm bid (bd\<lparr>dataConsumers := AList.delete cid (dataConsumers bd)\<rparr>))"
| "onBroadcasterEvent rm bid (BroadcasterDataProducerTransportClose dpid) =
     (case map_of (broadcasters rm) bid of
        None \<Rightarrow> rm
      | Some bd \<Rightarrow> setBroadcaster rm bid (bd\<lparr>dataProducers := AList.delete dpid (dataProducers bd)\<rparr>))"

section \<open>Everything that can happen to a room\<close>

datatype broadcaster_op =
    CreateBroadcaster jsval jsval jsval jsval
  | DeleteBroadcaster ident
  | CreateBroadcasterTransport ident transport_type jsval jsval jsval
  | ConnectBroadcasterTransport ident ident jsval
  | CreateBroadcasterProducer ident ident jsval jsval
  | CreateBroadcasterConsumer ident ident ident
  | CreateBroadcasterDataConsumer ident ident ident
  | CreateBroadcasterDataProducer ident ident string string jsval jsval

fun broadcasterOp :: "world \<Rightarrow> room \<Rightarrow> broadcaster_op \<Rightarrow> room \<times> (error + jsval) \<times> action list" where
  "broadcasterOp w rm (CreateBroadcaster bid dn dev rtp) = createBroadcaster w rm bid dn dev rtp"
| "broadcasterOp w rm (DeleteBroadcaster bid) = deleteBroadcaster rm bid"
| "broadcasterOp w rm (CreateBroadcasterTransport bid ty rtcpMux comedia sctp) =
     createBroadcasterTransport w rm bid ty rtcpMux comedia sctp"
| "broadcasterOp w rm (ConnectBroadcasterTransport bid tid dtls) =
     connectBroadcasterTransport w rm bid tid dtls"
| "broadcasterOp w rm (CreateBroadcasterProducer bid tid kind rtpParameters) =
     createBroadcasterProducer w rm bid tid kind rtpParameters"
| "broadcasterOp w rm (CreateBroadcasterConsumer bid tid producerId) =
     createBroadcasterConsumer w rm bid tid producerId"
| "broadcasterOp w rm (CreateBroadcasterDataConsumer bid tid dataProducerId) =
     createBroadcasterDataConsumer w rm bid tid dataProducerId"
| "broadcasterOp w rm (CreateBroadcasterDataProducer bid tid label protocol sctpStreamParameters appData) =
     createBroadcasterDataProducer w rm bid tid label protocol sctpStreamParameters appData"

text \<open>One event on a room, with what the outside world answers while it is handled.\<close>

datatype room_event =
    EvConnection ident jsval
  | EvRequest ident request
  | EvPeerClosed ident
  | EvConsumer ident consumer_event
  | EvBroadcasterOp broadcaster_op
  | EvBroadcaster ident broadcaster_event

fun roomEvent :: "world \<Rightarrow> room \<Rightarrow> room_event \<Rightarrow> room \<times> action list" where
  "roomEvent w rm (EvConnection pid cons) = handleProtooConnection w rm pid cons"
| "roomEvent w rm (EvRequest pid req) =
     (case onRequest w rm pid req of None \<Rightarrow> (rm, []) | Some r \<Rightarrow> (fst r, snd (snd r)))"
| "roomEvent w rm (EvPeerClosed pid) = peerClosed rm pid"
| "roomEvent w rm (EvConsumer pid ev) = onConsumerEvent rm pid ev"
| "roomEvent w rm (EvBroadcasterOp bop) = (fst (broadcasterOp w rm bop), snd (snd (broadcasterOp w rm bop)))"
| "roomEvent w rm (EvBroadcaster bid ev) = (onBroadcasterEvent rm bid ev, [])"

definition roomStep :: "room \<Rightarrow> world \<times> room_event \<Rightarrow> room" where
  "roomStep rm e = fst (roomEvent (fst e) rm (snd e))"

definition roomRun :: "room \<Rightarrow> (world \<times> room_event) list \<Rightarrow> room" where
  "roomRun rm evs = foldl roomStep rm evs"

section \<open>The room registry\<close>

text \<open>\<^verbatim>\<open>Bot.create\<close> and \<^verbatim>\<open>Room.create\<close>: \<^const>\<open>createRoomR\<close> gives the router's capabilities and
  the id of the bot's data producer, or \<open>None\<close> when one of the awaited engine calls
  throws (the worker is the one \<^verbatim>\<open>getMediasoupWorker\<close> hands out). The bot's data producer is
  produced with the label \<^verbatim>\<open>'bot'\<close>.\<close>

definition botCreate :: "ident \<Rightarrow> dataProducer" where
  "botCreate dpid = \<lparr>dp_id = dpid, dp_label = ''bot'', dp_appData = JObj []\<rparr>"

definition roomCreate :: "world \<Rightarrow> ident \<Rightarrow> room option" where
  "roomCreate w rid =
     (case createRoomR w of
        None \<Rightarrow> None
      | Some (caps, dpid) \<Rightarrow>
          Some \<lparr>roomId = rid, r_closed = False, peers = [], broadcasters = [],
                routerRtpCapabilities = caps, bot = botCreate dpid, networkThrottled = False\<rparr>)"

text \<open>
  \<^verbatim>\<open>const rooms = new Map<string, Room>()\<close>. A Room object is its state together with a
  serial number given at construction, which stands for the identity of the object;
  \<open>constructed\<close> counts the Rooms constructed so far.
\<close>

record server =
  rooms :: "(ident \<times> nat \<times> room) list"
  constructed :: nat

definition getOrCreateRoom :: "world \<Rightarrow> server \<Rightarrow> ident \<Rightarrow> server \<times> (error + nat \<times> room)" where
  "getOrCreateRoom w srv rid =
     (case map_of (rooms srv) rid of
        Some r \<Rightarrow> (srv, Inr r)
      | None \<Rightarrow>
          (case roomCreate w rid of
             None \<Rightarrow> (srv, Inl EngineError)
           | Some rm \<Rightarrow>
               (srv\<lparr>rooms := AList.update rid (constructed srv, rm) (rooms srv),
                    constructed := Suc (constructed srv)\<rparr>,
                Inr (constructed srv, rm))))"

text \<open>
  A registered Room ran an operation: its new state is the registry's, and when it
  emitted \<^verbatim>\<open>'close'\<close> the listener set by \<^verbatim>\<open>getOrCreateRoom\<close> runs \<^verbatim>\<open>rooms.delete(roomId)\<close>.
\<close>

definition roomResult :: "server \<Rightarrow> ident \<Rightarrow> nat \<Rightarrow> room \<times> action list \<Rightarrow> server" where
  "roomResult srv rid inst r =
     (if EmitClose \<in> set (snd r) then srv\<lparr>rooms := AList.delete rid (rooms srv)\<rparr>
      else srv\<lparr>rooms := AList.update rid (inst, fst r) (rooms srv)\<rparr>)"

datatype conn_result = ConnRejectedError error | ConnAccepted nat

text \<open>
  The task the \<^verbatim>\<open>'connectionrequest'\<close> listener pushes into the queue, with its \<^verbatim>\<open>catch\<close>. The
  listener rejects a request that lacks the room id or the peer id with code 400 before
  it pushes anything, so a task carries both. The task accepts the connection and hands
  it to the Room; a Room that closes leaves the registry and is not followed further.
\<close>

definition connectionTask ::
  "world \<Rightarrow> server \<Rightarrow> ident \<Rightarrow> ident \<Rightarrow> server \<times> conn_result \<times> action list" where
  "connectionTask w srv rid peerId =
     (case getOrCreateRoom w srv rid of
        (srv1, Inl e) \<Rightarrow> (srv1, ConnRejectedError e, [])
      | (srv1, Inr (inst, rm)) \<Rightarrow>
          (let r = handleProtooConnection w rm peerId JUndefined
           in (roomResult srv1 rid inst r, ConnAccepted inst, snd r)))"

text \<open>
  The queue (\<^verbatim>\<open>AwaitQueue\<close>) runs the pushed tasks one at a time, in the order they were
  pushed: a task starts when the one before it has settled.
\<close>

fun runQueue ::
  "server \<Rightarrow> (world \<times> ident \<times> ident) list \<Rightarrow> server \<times> (conn_result \<times> action list) list" where
  "runQueue srv [] = (srv, [])"
| "runQueue srv ((w, rid, peerId) # ts) =
     (let r1 = connectionTask w srv rid peerId;
          r2 = runQueue (fst r1) ts
      in (fst r2, snd r1 # snd r2))"

text \<open>A peer of the Room registered for \<open>rid\<close> closes.\<close>

definition serverPeerClosed :: "server \<Rightarrow> ident \<Rightarrow> ident \<Rightarrow> server \<times> action list" where
  "serverPeerClosed srv rid pid =
     (case map_of (rooms srv) rid of
        None \<Rightarrow> (srv, [])
      | Some (inst, rm) \<Rightarrow> (roomResult srv rid inst (peerClosed rm pid), snd (peerClosed rm pid)))"

text \<open>Everything that can happen to the server: a queued connection task runs, or an
  event reaches the Room registered for a room id.\<close>

datatype server_event =
    SvConnect ident ident
  | SvRoom ident room_event

fun serverEvent :: "world \<Rightarrow> server \<Rightarrow> server_event \<Rightarrow> server \<times> action list" where
  "serverEvent w srv (SvConnect rid peerId) =
     (fst (connectionTask w srv rid peerId), snd (snd (connectionTask w srv rid peerId)))"
| "serverEvent w srv (SvRoom rid ev) =
     (case map_of (rooms srv) rid of
        None \<Rightarrow> (srv, [])
      | Some (inst, rm) \<Rightarrow> (roomResult srv rid inst (roomEvent w rm ev), snd (roomEvent w rm ev)))"

definition serverStep :: "server \<Rightarrow> world \<times> server_event \<Rightarrow> server" where
  "serverStep srv e = fst (serverEvent (fst e) srv (snd e))"

definition serverRun :: "server \<Rightarrow> (world \<times> server_event) list \<Rightarrow> server" where
  "serverRun srv evs = foldl serverStep srv evs"

text \<open>Every registered Room is open and the ids of its peers are distinct.\<close>

definition roomOpen :: "room \<Rightarrow> bool" where
  "roomOpen rm = (\<not> r_closed rm \<and> distinct (map fst (peers rm)))"

definition registryOpen :: "server \<Rightarrow> bool" where
  "registryOpen srv = (\<forall>x\<in>set (rooms srv). roomOpen (snd (snd x)))"

section \<open>Predicates on traces and on the calls of a fan-out\<close>

text \<open>\<open>occursBefore a b xs\<close>: every \<open>b\<close> in \<open>xs\<close> comes after an \<open>a\<close>.\<close>

fun occursBefore :: "'a \<Rightarrow> 'a \<Rightarrow> 'a list \<Rightarrow> bool" where
  "occursBefore a b [] = True"
| "occursBefore a b (x # xs) = (if x = a then True else x \<noteq> b \<and> occursBefore a b xs)"

fun isTransportConsume :: "action \<Rightarrow> bool" where
  "isTransportConsume (TransportConsume t p caps paused) = True"
| "isTransportConsume a = False"

fun isRequestTo :: "ident \<Rightarrow> string \<Rightarrow> action \<Rightarrow> bool" where
  "isRequestTo i m (PeerRequest i' m' d) = (i' = i \<and> m' = m)"
| "isRequestTo i m a = False"

fun isResume :: "action \<Rightarrow> bool" where
  "isResume (ConsumerResume c) = True"
| "isResume a = False"



text \<open>The consumer the engine creates in one \<^const>\<open>createConsumer\<close> call: none when the call
  returns before \<^verbatim>\<open>transport.consume\<close> or when \<^verbatim>\<open>transport.consume\<close> throws.\<close>

definition consumeOutcome :: "world \<Rightarrow> peer_data \<Rightarrow> producer \<Rightarrow> consumer option" where
  "consumeOutcome w cp pr =
     (if \<not> truthy (rtpCapabilities cp) \<or> \<not> canConsume w (pr_id pr) (rtpCapabilities cp) then None
      else case consumingTransport (transports cp) of
             None \<Rightarrow> None
           | Some t \<Rightarrow> consumeR w (t_id t) (pr_id pr))"



text \<open>A peer that has not joined owns no producer and no data producer.\<close>

definition okPeer :: "peer_data \<Rightarrow> bool" where
  "okPeer d = (\<not> joined d \<longrightarrow> producers d = [] \<and> dataProducers d = [])"

definition unjoinedEmpty :: "room \<Rightarrow> bool" where
  "unjoinedEmpty rm = (\<forall>x\<in>set (peers rm). okPeer (snd x))"

section \<open>A small room, for concrete runs\<close>

definition exCaps :: jsval where
  "exCaps = JObj [(''codecs'', JArr [])]"

definition exConsumer :: "ident \<Rightarrow> consumer" where
  "exConsumer p =
     \<lparr>c_id = ''c-'' @ p, c_kind = JStr ''video'', c_rtpParameters = JObj [],
      c_type = JStr ''simple'', c_producerPaused = JBool False, c_score = JObj []\<rparr>"

definition exDataConsumer :: "ident \<Rightarrow> dataConsumer" where
  "exDataConsumer p =
     \<lparr>dc_id = ''dc-'' @ p, dc_sctpStreamParameters = JObj [], dc_label = ''chat'',
      dc_protocol = []\<rparr>"

text \<open>A world in which every call succeeds and every peer answers positively; of the calls
  that nobody awaits, the second gets its first answer before the first does.\<close>

definition exWorld :: world where
  "exWorld =
     \<lparr>canConsume = (\<lambda>p caps. True), createTransportR = Some (''t9'', JObj []),
      produceR = (\<lambda>t. Some ''pr9''), consumeR = (\<lambda>t p. Some (exConsumer p)),
      produceDataR = (\<lambda>t. Some ''dp9''), consumeDataR = (\<lambda>t p. Some (exDataConsumer p)),
      requestR = (\<lambda>i m d. True), callR = (\<lambda>a. Some JUndefined), throwText = (\<lambda>a. ''Error''),
      answerOrder = [1, 0], createPeerR = True,
      createRoomR = Some (exCaps, ''bot-dp''), throttleSecret = Some ''s3cret'',
      listenIp = JObj []\<rparr>"

definition exTransport :: "ident \<Rightarrow> transport" where
  "exTransport i =
     \<lparr>t_id = i, t_ctor = WebRtcTransport,
      t_appData = JObj [(''producing'', JBool False), (''consuming'', JBool True)],
      t_params = JObj []\<rparr>"

text \<open>A joined peer with capabilities and one transport for consuming.\<close>

definition exPeer :: "ident \<Rightarrow> peer_data" where
  "exPeer tid =
     \<lparr>displayName = JStr ''someone'', device = JObj [], rtpCapabilities = exCaps,
      transports = [(tid, exTransport tid)], producers = [], consumers = [],
      dataProducers = [], dataConsumers = [], consume = JUndefined, joined = True,
      sctpCapabilities = JObj [(''numStreams'', JObj [])]\<rparr>"

definition exBroadcaster :: party_data where
  "exBroadcaster =
     \<lparr>displayName = JStr ''Camera'', device = broadcasterDevice (JObj [(''name'', JStr ''ffmpeg'')]),
      rtpCapabilities = exCaps,
      transports = [(''tc'', \<lparr>t_id = ''tc'', t_ctor = PlainTransport, t_appData = JObj [],
                              t_params = JObj []\<rparr>)],
      producers = [], consumers = [], dataProducers = [], dataConsumers = []\<rparr>"

text \<open>Alice and Bob have joined, Carol is connected and has not joined, and there is one
  broadcaster.\<close>

definition exRoom :: room where
  "exRoom =
     \<lparr>roomId = ''r'', r_closed = False,
      peers = [(''alice'', exPeer ''ta''), (''bob'', exPeer ''tb''), (''carol'', newPeerData JUndefined)],
      broadcasters = [(''cam'', exBroadcaster)],
      routerRtpCapabilities = exCaps, bot = botCreate ''bot-dp'', networkThrottled = False\<rparr>"

definition exServer :: server where
  "exServer = \<lparr>rooms = [(''r'', 0, exRoom)], constructed = 1\<rparr>"

definition emptyServer :: server where
  "emptyServer = \<lparr>rooms = [], constructed = 0\<rparr>"

text \<open>A run of the server: Alice connects, creates a transport for consuming and joins;
  Bob connects and joins; Carol connects.\<close>

definition exJoin :: request where
  "exJoin = Join (JStr ''someone'') (JObj []) exCaps (JObj [(''numStreams'', JObj [])])"

definition exEvents :: "(world \<times> server_event) list" where
  "exEvents =
     [(exWorld, SvConnect ''r'' ''alice''),
      (exWorld, SvRoom ''r'' (EvRequest ''alice''
         (CreateWebRtcTransport JUndefined JUndefined (JBool True) JUndefined))),
      (exWorld, SvRoom ''r'' (EvRequest ''alice'' exJoin)),
      (exWorld, SvConnect ''r'' ''bob''),
      (exWorld, SvRoom ''r'' (EvRequest ''bob'' exJoin)),
      (exWorld, SvConnect ''r'' ''carol'')]"

text \<open>
  A second run. Alice connects, creates a transport for consuming, joins and produces a
  video track, a chat channel and a channel for the bot; Bob connects and creates a
  transport for consuming. Then Bob joins, Carol connects, and a broadcaster is created
  and gets a transport. While Bob joins the engine gives each data consumer the label of
  its data producer.
\<close>

definition exJoinWorld :: world where
  "exJoinWorld =
     exWorld\<lparr>consumeDataR := (\<lambda>t p. Some ((exDataConsumer p)
                 \<lparr>dc_label := (if p = ''bot-dp'' then ''bot'' else ''chat'')\<rparr>))\<rparr>"

text \<open>A world for a broadcaster's audio producer, in which the engine gives each transport
  its own consumer.\<close>

definition exFanWorld :: world where
  "exFanWorld =
     exWorld\<lparr>produceR := (\<lambda>t. Some ''prc''),
              consumeR := (\<lambda>t p. Some \<lparr>c_id = ''c-'' @ t, c_kind = JStr ''audio'',
                                         c_rtpParameters = JObj [], c_type = JStr ''simple'',
                                         c_producerPaused = JBool False, c_score = JObj []\<rparr>)\<rparr>"

definition exEvents2 :: "(world \<times> server_event) list" where
  "exEvents2 =
     [(exWorld, SvConnect ''r'' ''alice''),
      (exWorld\<lparr>createTransportR := Some (''ta'', JObj [])\<rparr>, SvRoom ''r'' (EvRequest ''alice''
         (CreateWebRtcTransport JUndefined JUndefined (JBool True) JUndefined))),
      (exJoinWorld, SvRoom ''r'' (EvRequest ''alice'' exJoin)),
      (exWorld, SvRoom ''r'' (EvRequest ''alice''
         (Produce ''ta'' (JStr ''video'') (JObj []) JUndefined))),
      (exWorld, SvRoom ''r'' (EvRequest ''alice''
         (ProduceData ''ta'' (JObj []) ''chat'' [] JUndefined))),
      (exWorld\<lparr>produceDataR := (\<lambda>t. Some ''dpb'')\<rparr>, SvRoom ''r'' (EvRequest ''alice''
         (ProduceData ''ta'' (JObj []) ''bot'' [] JUndefined))),
      (exWorld, SvConnect ''r'' ''bob''),
      (exWorld\<lparr>createTransportR := Some (''tb'', JObj [])\<rparr>, SvRoom ''r'' (EvRequest ''bob''
         (CreateWebRtcTransport JUndefined JUndefined (JBool True) JUndefined))),
      (exJoinWorld, SvRoom ''r'' (EvRequest ''bob'' exJoin)),
      (exWorld, SvConnect ''r'' ''carol''),
      (exWorld, SvRoom ''r'' (EvBroadcasterOp
         (CreateBroadcaster (JStr ''cam'') (JStr ''Camera'') (JObj [(''name'', JStr ''ffmpeg'')]) exCaps))),
      (exWorld\<lparr>createTransportR := Some (''tc'', JObj [])\<rparr>, SvRoom ''r'' (EvBroadcasterOp
         (CreateBroadcasterTransport ''cam'' TypePlain JUndefined JUndefined JUndefined)))]"


section \<open>Merging the turns of the calls\<close>

text \<open>A merge has the elements of the lists, as often as they have them.\<close>

lemma concat_filter_nonempty: "concat (filter (\<lambda>xs. xs \<noteq> []) xss) = concat xss"
  by (induction xss) simp_all

lemma mset_concat_hd_tl:
  "i < length yss \<Longrightarrow> yss ! i \<noteq> [] \<Longrightarrow>
   add_mset (hd (yss ! i)) (mset (concat (yss[i := tl (yss ! i)]))) = mset (concat yss)"
proof (induction yss arbitrary: i)
  case Nil
  then show ?case by simp
next
  case (Cons y yss)
  show ?case
  proof (cases i)
    case 0
    with Cons.prems obtain a as where "y = a # as" by (cases y) auto
    with 0 show ?thesis by simp
  next
    case (Suc j)
    with Cons.prems Cons.IH[of j] show ?thesis by simp
  qed
qed

lemma mset_interleave: "mset (interleave ns xss) = mset (concat xss)"
proof (induction ns arbitrary: xss)
  case Nil
  show ?case by simp
next
  case (Cons n ns)
  let ?yss = "filter (\<lambda>xs. xs \<noteq> []) xss"
  show ?case
  proof (cases "?yss = []")
    case True
    with concat_filter_nonempty[of xss] show ?thesis by (simp add: Let_def)
  next
    case False
    let ?i = "n mod length ?yss"
    from False have i: "?i < length ?yss" by simp
    then have "?yss ! ?i \<in> set ?yss" by (rule nth_mem)
    then have ne: "?yss ! ?i \<noteq> []" by simp
    have "mset (interleave (n # ns) xss) =
          add_mset (hd (?yss ! ?i)) (mset (interleave ns (?yss[?i := tl (?yss ! ?i)])))"
      using False by (simp add: Let_def)
    also have "\<dots> = add_mset (hd (?yss ! ?i)) (mset (concat (?yss[?i := tl (?yss ! ?i)])))"
      by (simp add: Cons.IH)
    also have "\<dots> = mset (concat ?yss)" by (rule mset_concat_hd_tl[OF i ne])
    finally show ?thesis by (simp add: concat_filter_nonempty)
  qed
qed


lemma count_interleave:
  "length (filter P (interleave ns xss)) = length (filter P (concat xss))"
proof -
  have "mset (filter P (interleave ns xss)) = mset (filter P (concat xss))"
    by (simp only: mset_filter mset_interleave)
  then show ?thesis by (rule mset_eq_length)
qed

lemma filter_update_tl_le:
  "length (filter (\<lambda>xs. \<exists>x\<in>set xs. P x) (yss[i := tl (yss ! i)])) \<le>
   length (filter (\<lambda>xs. \<exists>x\<in>set xs. P x) yss)"
proof (induction yss arbitrary: i)
  case Nil
  show ?case by simp
next
  case (Cons y yss)
  show ?case
  proof (cases i)
    case 0
    have "(\<exists>x\<in>set (tl y). P x) \<Longrightarrow> (\<exists>x\<in>set y. P x)" by (cases y) auto
    with 0 show ?thesis by auto
  next
    case (Suc j)
    with Cons.IH[of j] show ?thesis by auto
  qed
qed

lemma filter_concat_hd_tl:
  assumes "length (filter (\<lambda>xs. \<exists>x\<in>set xs. P x) yss) \<le> 1"
      and "i < length yss" and "yss ! i \<noteq> []"
  shows "filter P [hd (yss ! i)] @ filter P (concat (yss[i := tl (yss ! i)])) = filter P (concat yss)"
  using assms
proof (induction yss arbitrary: i)
  case Nil
  then show ?case by simp
next
  case (Cons y yss)
  show ?case
  proof (cases i)
    case 0
    with Cons.prems obtain a as where "y = a # as" by (cases y) auto
    with 0 show ?thesis by simp
  next
    case (Suc j)
    show ?thesis
    proof (cases "\<exists>x\<in>set y. P x")
      case True
      with Cons.prems(1) have "filter (\<lambda>xs. \<exists>x\<in>set xs. P x) yss = []" by simp
      then have none: "\<forall>xs\<in>set yss. \<forall>x\<in>set xs. \<not> P x" by (simp add: filter_empty_conv)
      from Cons.prems Suc have j: "j < length yss" by simp
      then have m: "yss ! j \<in> set yss" by (rule nth_mem)
      have "set (yss[j := tl (yss ! j)]) \<subseteq> insert (tl (yss ! j)) (set yss)"
        by (rule set_update_subset_insert)
      moreover have "\<forall>x\<in>set (tl (yss ! j)). \<not> P x"
        using none m by (metis list.set_sel(2) tl_Nil)
      ultimately have none': "\<forall>xs\<in>set (yss[j := tl (yss ! j)]). \<forall>x\<in>set xs. \<not> P x"
        using none by blast
      have h: "\<not> P (hd (yss ! j))" using none m Cons.prems(3) Suc by (metis hd_in_set nth_Cons_Suc)
      have 1: "filter P (concat yss) = []" using none by (simp add: filter_empty_conv)
      have 2: "filter P (concat (yss[j := tl (yss ! j)])) = []"
        using none' by (simp add: filter_empty_conv)
      from Suc h 1 2 show ?thesis by simp
    next
      case False
      with Cons.prems(1) have le: "length (filter (\<lambda>xs. \<exists>x\<in>set xs. P x) yss) \<le> 1" by simp
      from Cons.prems Suc have j: "j < length yss" and ne: "yss ! j \<noteq> []" by simp_all
      from False have y: "filter P y = []" by (simp add: filter_empty_conv)
      have "filter P [hd (yss ! j)] @ filter P y @ filter P (concat (yss[j := tl (yss ! j)])) =
            filter P y @ filter P (concat yss)"
        using Cons.IH[OF le j ne] y by simp
      with Suc show ?thesis by simp
    qed
  qed
qed

lemma filter_interleave:
  assumes "length (filter (\<lambda>xs. \<exists>x\<in>set xs. P x) xss) \<le> 1"
  shows "filter P (interleave ns xss) = filter P (concat xss)"
  using assms
proof (induction ns arbitrary: xss)
  case Nil
  show ?case by simp
next
  case (Cons n ns)
  let ?yss = "filter (\<lambda>xs. xs \<noteq> []) xss"
  have f: "filter (\<lambda>xs. \<exists>x\<in>set xs. P x) ?yss = filter (\<lambda>xs. \<exists>x\<in>set xs. P x) xss"
    by (induction xss) auto
  show ?case
  proof (cases "?yss = []")
    case True
    have c: "concat xss = []"
      using concat_filter_nonempty[of xss] by (simp only: True concat.simps)
    have i0: "interleave (n # ns) xss = []" using True by (simp add: Let_def)
    show ?thesis unfolding i0 c by simp
  next
    case False
    let ?i = "n mod length ?yss"
    from False have i: "?i < length ?yss" by simp
    then have "?yss ! ?i \<in> set ?yss" by (rule nth_mem)
    then have ne: "?yss ! ?i \<noteq> []" by simp
    from Cons.prems f have le: "length (filter (\<lambda>xs. \<exists>x\<in>set xs. P x) ?yss) \<le> 1" by simp
    have le': "length (filter (\<lambda>xs. \<exists>x\<in>set xs. P x) (?yss[?i := tl (?yss ! ?i)])) \<le> 1"
      using filter_update_tl_le[of P ?yss ?i] le by simp
    have "filter P (interleave (n # ns) xss) =
          filter P [hd (?yss ! ?i)] @ filter P (interleave ns (?yss[?i := tl (?yss ! ?i)]))"
      using False by (simp add: Let_def)
    also have "\<dots> = filter P [hd (?yss ! ?i)] @ filter P (concat (?yss[?i := tl (?yss ! ?i)]))"
      by (simp only: Cons.IH[OF le'])
    also have "\<dots> = filter P (concat ?yss)" by (rule filter_concat_hd_tl[OF le i ne])
    finally show ?thesis by (simp add: concat_filter_nonempty)
  qed
qed

lemma subseq_concat_mem: "xs \<in> set xss \<Longrightarrow> subseq xs (concat xss)"
proof (induction xss)
  case Nil
  then show ?case by simp
next
  case (Cons ys xss)
  show ?case
  proof (cases "xs = ys")
    case True
    have "subseq ys (ys @ concat xss)" by (rule list_emb_prefix) simp
    with True show ?thesis by simp
  next
    case False
    with Cons have "subseq xs (concat xss)" by simp
    then show ?thesis by (simp add: list_emb_append2)
  qed
qed

lemma subseq_interleave: "xs \<in> set xss \<Longrightarrow> subseq xs (interleave ns xss)"
proof (induction ns arbitrary: xs xss)
  case Nil
  then show ?case by (simp add: subseq_concat_mem)
next
  case (Cons n ns)
  let ?yss = "filter (\<lambda>xs. xs \<noteq> []) xss"
  show ?case
  proof (cases "xs = []")
    case True
    then show ?thesis by simp
  next
    case False
    with Cons.prems have mem: "xs \<in> set ?yss" by simp
    then have ne: "?yss \<noteq> []" by (metis empty_iff empty_set)
    let ?i = "n mod length ?yss"
    from ne have i: "?i < length ?yss" by simp
    from mem obtain k where k: "k < length ?yss" "?yss ! k = xs" by (metis in_set_conv_nth)
    have r: "interleave (n # ns) xss =
             hd (?yss ! ?i) # interleave ns (?yss[?i := tl (?yss ! ?i)])"
      using ne by (simp add: Let_def)
    show ?thesis
    proof (cases "k = ?i")
      case True
      with k i have "tl xs \<in> set (?yss[?i := tl (?yss ! ?i)])"
        by (metis set_update_memI)
      from Cons.IH[OF this] have "subseq (tl xs) (interleave ns (?yss[?i := tl (?yss ! ?i)]))" .
      then have "subseq (hd xs # tl xs) (hd xs # interleave ns (?yss[?i := tl (?yss ! ?i)]))"
        by simp
      with False True k show ?thesis unfolding r by simp
    next
      case False
      with k have "(?yss[?i := tl (?yss ! ?i)]) ! k = xs" by simp
      with k have "xs \<in> set (?yss[?i := tl (?yss ! ?i)])"
        by (metis length_list_update nth_mem)
      from Cons.IH[OF this] show ?thesis unfolding r by (rule list_emb_Cons)
    qed
  qed
qed

text \<open>What the later turns leave of the room.\<close>

lemma applyStore_frame:
  "joined (applyStore s d) = joined d" "producers (applyStore s d) = producers d"
  "dataProducers (applyStore s d) = dataProducers d" "transports (applyStore s d) = transports d"
  "rtpCapabilities (applyStore s d) = rtpCapabilities d"
  "sctpCapabilities (applyStore s d) = sctpCapabilities d"
  "displayName (applyStore s d) = displayName d" "device (applyStore s d) = device d"
  by (cases s; simp)+

lemma map_fst_update_present:
  "map_of ps k = Some v \<Longrightarrow> map fst (AList.update k v' ps) = map fst ps"
  by (induction ps) auto

lemma applyTurn_frame:
  "map fst (peers (applyTurn rm x)) = map fst (peers rm)"
  "r_closed (applyTurn rm x) = r_closed rm" "broadcasters (applyTurn rm x) = broadcasters rm"
  "bot (applyTurn rm x) = bot rm" "roomId (applyTurn rm x) = roomId rm"
  "routerRtpCapabilities (applyTurn rm x) = routerRtpCapabilities rm"
  "networkThrottled (applyTurn rm x) = networkThrottled rm"
  by (simp_all add: applyTurn_def map_fst_update_present split: option.splits)

lemma turns_frame:
  "map fst (peers (foldl applyTurn rm ts)) = map fst (peers rm)"
  "r_closed (foldl applyTurn rm ts) = r_closed rm"
  "broadcasters (foldl applyTurn rm ts) = broadcasters rm"
  "bot (foldl applyTurn rm ts) = bot rm" "roomId (foldl applyTurn rm ts) = roomId rm"
  "routerRtpCapabilities (foldl applyTurn rm ts) = routerRtpCapabilities rm"
  "networkThrottled (foldl applyTurn rm ts) = networkThrottled rm"
  by (induction ts arbitrary: rm; simp add: applyTurn_frame)+

lemma finish_frame:
  "map fst (peers (fst (finish w rm calls))) = map fst (peers rm)"
  "r_closed (fst (finish w rm calls)) = r_closed rm"
  "broadcasters (fst (finish w rm calls)) = broadcasters rm"
  "bot (fst (finish w rm calls)) = bot rm" "roomId (fst (finish w rm calls)) = roomId rm"
  "routerRtpCapabilities (fst (finish w rm calls)) = routerRtpCapabilities rm"
  "networkThrottled (fst (finish w rm calls)) = networkThrottled rm"
  by (simp_all add: finish_def turns_frame)

text \<open>The data of one peer after the later turns: the stores of the turns for that peer,
  in the order in which they ran.\<close>

lemma applyTurn_lookup:
  "map_of (peers (applyTurn rm x)) q =
     (if fst x = q then map_option (applyStore (fst (snd x))) (map_of (peers rm) q)
      else map_of (peers rm) q)"
  by (auto simp add: applyTurn_def update_conv' split: option.splits)

lemma turns_lookup:
  "map_of (peers (foldl applyTurn rm ts)) q =
     map_option (\<lambda>d. foldl (\<lambda>d s. applyStore s d) d (map (\<lambda>x. fst (snd x)) (filter (\<lambda>x. fst x = q) ts)))
       (map_of (peers rm) q)"
proof (induction ts arbitrary: rm)
  case Nil
  show ?case by (simp add: option.map_ident)
next
  case (Cons x ts)
  show ?case
    by (cases "map_of (peers rm) q") (simp_all add: Cons.IH applyTurn_lookup)
qed

text \<open>The two functions as a whole are their turns run one after the other.\<close>

lemma createConsumer_turns:
  "createConsumer w i cp j pr = runAlone cp (createConsumerTurns w i cp j pr)"
  by (simp add: createConsumer_def createConsumerTurns_def runAlone_def split: option.splits)

lemma createDataConsumer_turns:
  "createDataConsumer w i cp j dp = runAlone cp (createDataConsumerTurns w i cp j dp)"
  by (simp add: createDataConsumer_def createDataConsumerTurns_def runAlone_def split: option.splits)


text \<open>The first turn of a call stores nothing.\<close>

text \<open>The actions of a handler that makes calls are, up to their order, the actions of
  the calls one after the other.\<close>

lemma mset_started_awaited:
  "mset (started calls) + mset (map (\<lambda>x. snd (snd x)) (awaited w calls)) =
   mset (concat (map (\<lambda>(i, ts). map snd ts) calls))"
proof -
  have a: "mset (map (\<lambda>x. snd (snd x)) (awaited w calls)) =
           mset (concat (map (\<lambda>(i, ts). map snd (drop 1 ts)) calls))"
  proof -
    have "mset (map (\<lambda>x. snd (snd x)) (awaited w calls)) =
          image_mset (\<lambda>x. snd (snd x)) (mset (concat (map (\<lambda>(i, ts). map (Pair i) (drop 1 ts)) calls)))"
      by (simp add: awaited_def mset_interleave)
    also have "\<dots> = mset (map (\<lambda>x. snd (snd x)) (concat (map (\<lambda>(i, ts). map (Pair i) (drop 1 ts)) calls)))"
      by simp
    also have "map (\<lambda>x. snd (snd x)) (concat (map (\<lambda>(i, ts). map (Pair i) (drop 1 ts)) calls)) =
               concat (map (\<lambda>(i, ts). map snd (drop 1 ts)) calls)"
      by (induction calls) (auto simp add: comp_def)
    finally show ?thesis .
  qed
  have "mset (started calls) + mset (concat (map (\<lambda>(i, ts). map snd (drop 1 ts)) calls)) =
        mset (concat (map (\<lambda>(i, ts). map snd ts) calls))"
  proof (induction calls)
    case Nil
    show ?case by (simp add: started_def)
  next
    case (Cons c calls)
    obtain i ts where c: "c = (i, ts)" by (cases c)
    have "mset (map snd (take 1 ts)) + mset (map snd (drop 1 ts)) = mset (map snd ts)"
      by (metis append_take_drop_id map_append mset_append)
    with Cons show ?case unfolding started_def c
      by (simp add: ac_simps)
  qed
  with a show ?thesis by simp
qed

lemma count_fanout:
  "length (filter P (started calls)) + length (filter P (snd (finish w rm calls))) =
   length (filter P (concat (map (\<lambda>(i, ts). map snd ts) calls)))"
proof -
  have "mset (filter P (started calls @ snd (finish w rm calls))) =
        mset (filter P (concat (map (\<lambda>(i, ts). map snd ts) calls)))"
    using mset_started_awaited[of calls w] by (simp only: mset_filter mset_append finish_def snd_conv)
  from mset_eq_length[OF this] show ?thesis by simp
qed


lemma consumer_calls_actions:
  "concat (map (\<lambda>(i, ts). map snd ts) (map (\<lambda>(i, d). (i, createConsumerTurns w i d j pr)) ps)) =
   concat (map (\<lambda>(i, d). snd (createConsumer w i d j pr)) ps)"
  by (induction ps) (auto simp add: createConsumer_turns runAlone_def)

lemma dataConsumer_calls_actions:
  "concat (map (\<lambda>(i, ts). map snd ts) (map (\<lambda>(i, d). (i, createDataConsumerTurns w i d j dp)) ps)) =
   concat (map (\<lambda>(i, d). snd (createDataConsumer w i d j dp)) ps)"
  by (induction ps) (auto simp add: createDataConsumer_turns runAlone_def)








section \<open>A second join is rejected\<close>

text \<open>
  C3. For every session whose \<open>joined\<close> flag is already true, a \<^verbatim>\<open>join\<close> request is rejected
  with the error \<^verbatim>\<open>Peer already joined\<close>, performs no action, and leaves the whole room, and
  with it the session's joined flag, display name, device, capabilities and five
  collections, unchanged.
\<close>

theorem join_when_joined_rejected:
  assumes "map_of (peers rm) pid = Some pd" and "joined pd"
  shows "onRequest w rm pid (Join dn dev rtp sctp) =
           Some (rm, RejectedError (Error ''Peer already joined''), [])"
  using assms by (simp add: onRequest_def req_join_def)

theorem join_when_joined_rejected_witness:
  "map_of (peers exRoom) ''alice'' = Some (exPeer ''ta'') \<and> joined (exPeer ''ta'') \<and>
   onRequest exWorld exRoom ''alice'' (Join (JStr ''Al'') JNull exCaps JNull) =
     Some (exRoom, RejectedError (Error ''Peer already joined''), [])"
proof -
  have h1: "map_of (peers exRoom) ''alice'' = Some (exPeer ''ta'')" by (simp add: exRoom_def)
  have h2: "joined (exPeer ''ta'')" by (simp add: exPeer_def)
  from join_when_joined_rejected[OF h1 h2] h1 h2 show ?thesis by simp
qed

section \<open>No consumer for a peer that cannot consume\<close>

text \<open>
  C5. For every new producer and every candidate receiving peer, \<^verbatim>\<open>_createConsumer\<close> creates
  no consumer for the peer when the peer has declared no receive capabilities or when
  \<^verbatim>\<open>canConsume(producerId, capabilities)\<close> is false: the call performs no action at all and
  the peer's state is unchanged.
\<close>

theorem createConsumer_skips_ineligible:
  assumes "\<not> truthy (rtpCapabilities cp) \<or> \<not> canConsume w (pr_id pr) (rtpCapabilities cp)"
  shows "createConsumer w i cp j pr = (cp, [])"
  using assms by (auto simp add: createConsumer_def)

text \<open>Carol has declared no capabilities; Bob has capabilities and a transport for
  consuming, and the engine says that he cannot consume the producer; and Bob without
  his capabilities.\<close>

theorem createConsumer_skips_ineligible_witness:
  "\<not> truthy (rtpCapabilities (newPeerData JUndefined)) \<and>
   createConsumer exWorld ''carol'' (newPeerData JUndefined) ''alice''
     \<lparr>pr_id = ''pr9'', pr_kind = JStr ''video'', pr_appData = JObj []\<rparr> =
     (newPeerData JUndefined, []) \<and>
   consumingTransport (transports (exPeer ''tb'')) = Some (exTransport ''tb'') \<and>
   createConsumer (exWorld\<lparr>canConsume := (\<lambda>p caps. False)\<rparr>) ''bob'' (exPeer ''tb'') ''alice''
     \<lparr>pr_id = ''pr9'', pr_kind = JStr ''video'', pr_appData = JObj []\<rparr> =
     (exPeer ''tb'', []) \<and>
   createConsumer exWorld ''bob'' ((exPeer ''tb'')\<lparr>rtpCapabilities := JUndefined\<rparr>) ''alice''
     \<lparr>pr_id = ''pr9'', pr_kind = JStr ''video'', pr_appData = JObj []\<rparr> =
     ((exPeer ''tb'')\<lparr>rtpCapabilities := JUndefined\<rparr>, [])"
proof -
  let ?pr = "\<lparr>pr_id = ''pr9'', pr_kind = JStr ''video'', pr_appData = JObj []\<rparr>"
  have h: "\<not> truthy (rtpCapabilities (newPeerData JUndefined)) \<or>
           \<not> canConsume exWorld (pr_id ?pr) (rtpCapabilities (newPeerData JUndefined))"
    by (simp add: newPeerData_def)
  have h2: "\<not> truthy (rtpCapabilities (exPeer ''tb'')) \<or>
            \<not> canConsume (exWorld\<lparr>canConsume := (\<lambda>p caps. False)\<rparr>) (pr_id ?pr)
                (rtpCapabilities (exPeer ''tb''))"
    by simp
  have h3: "\<not> truthy (rtpCapabilities ((exPeer ''tb'')\<lparr>rtpCapabilities := JUndefined\<rparr>)) \<or>
            \<not> canConsume exWorld (pr_id ?pr)
                (rtpCapabilities ((exPeer ''tb'')\<lparr>rtpCapabilities := JUndefined\<rparr>))"
    by simp
  have t: "consumingTransport (transports (exPeer ''tb'')) = Some (exTransport ''tb'')"
    by (simp add: consumingTransport_def exPeer_def exTransport_def map_values_def)
  from createConsumer_skips_ineligible[OF h] createConsumer_skips_ineligible[OF h2]
       createConsumer_skips_ineligible[OF h3] t
  show ?thesis by (simp add: newPeerData_def)
qed

section \<open>The throttle is gated by the shared secret\<close>

lemma secretRefused_mismatch:
  assumes "\<forall>s. throttleSecret w = Some s \<longrightarrow> secret \<noteq> JStr s"
  shows "secretRefused w secret"
  using assms by (cases "throttleSecret w") (auto simp add: secretRefused_def)

text \<open>
  C9. For every \<^verbatim>\<open>applyNetworkThrottle\<close> request whose \<^verbatim>\<open>secret\<close> field is not exactly the
  configured shared secret (a missing secret included), the request is rejected with code
  403 and the throttle is never started: the handler performs no action and the room is
  unchanged.
\<close>

theorem throttle_wrong_secret_forbidden:
  assumes "map_of (peers rm) pid = Some pd"
      and "\<forall>s. throttleSecret w = Some s \<longrightarrow> secret \<noteq> JStr s"
  shows "onRequest w rm pid (ApplyNetworkThrottle uplink downlink rtt secret) =
           Some (rm, Rejected 403 ''operation NOT allowed, modda fuckaa'', [])"
  using assms(1) secretRefused_mismatch[OF assms(2)]
  by (simp add: onRequest_def req_applyNetworkThrottle_def)

theorem throttle_wrong_secret_forbidden_witness:
  "onRequest exWorld exRoom ''alice'' (ApplyNetworkThrottle (JNum 5) (JNum 5) (JNum 1) (JStr ''guess'')) =
     Some (exRoom, Rejected 403 ''operation NOT allowed, modda fuckaa'', []) \<and>
   onRequest exWorld exRoom ''alice'' (ApplyNetworkThrottle (JNum 5) (JNum 5) (JNum 1) JUndefined) =
     Some (exRoom, Rejected 403 ''operation NOT allowed, modda fuckaa'', [])"
proof -
  have h1: "map_of (peers exRoom) ''alice'' = Some (exPeer ''ta'')" by (simp add: exRoom_def)
  have h2: "\<forall>s. throttleSecret exWorld = Some s \<longrightarrow> JStr ''guess'' \<noteq> JStr s"
    by (simp add: exWorld_def)
  have h3: "\<forall>s. throttleSecret exWorld = Some s \<longrightarrow> JUndefined \<noteq> JStr s" by simp
  from throttle_wrong_secret_forbidden[OF h1 h2] throttle_wrong_secret_forbidden[OF h1 h3]
  show ?thesis by simp
qed


section \<open>A broadcaster consumes without the paused handshake\<close>

lemma createBroadcasterConsumer_actions:
  "(\<forall>t p caps paused.
      TransportConsume t p caps paused \<in> set (snd (snd (createBroadcasterConsumer w rm bid tid prid))) \<longrightarrow>
      \<not> paused) \<and>
   (\<forall>i m d. PeerRequest i m d \<notin> set (snd (snd (createBroadcasterConsumer w rm bid tid prid)))) \<and>
   (\<forall>c. ConsumerResume c \<notin> set (snd (snd (createBroadcasterConsumer w rm bid tid prid))))"
  by (auto simp add: createBroadcasterConsumer_def Let_def split: option.splits)

lemma createBroadcasterConsumer_succeeds_iff:
  "(\<exists>v. fst (snd (createBroadcasterConsumer w rm bid tid prid)) = Inr v) \<longleftrightarrow>
   (\<exists>bd t c. map_of (broadcasters rm) bid = Some bd \<and> truthy (rtpCapabilities bd) \<and>
      map_of (transports bd) tid = Some t \<and> consumeR w (t_id t) prid = Some c)"
  by (auto simp add: createBroadcasterConsumer_def Let_def split: option.splits)

lemma createBroadcasterConsumer_result:
  assumes "map_of (broadcasters rm) bid = Some bd" and "truthy (rtpCapabilities bd)"
      and "map_of (transports bd) tid = Some t" and "consumeR w (t_id t) prid = Some c"
  shows "createBroadcasterConsumer w rm bid tid prid =
           (rm\<lparr>broadcasters := AList.update bid
                  (bd\<lparr>consumers := AList.update (c_id c) c (consumers bd)\<rparr>) (broadcasters rm)\<rparr>,
            Inr (JObj [(''id'', JStr (c_id c)), (''producerId'', JStr prid), (''kind'', c_kind c),
                       (''rtpParameters'', c_rtpParameters c), (''type'', c_type c)]),
            [TransportConsume (t_id t) prid (rtpCapabilities bd) False])"
  using assms by (simp add: createBroadcasterConsumer_def Let_def consumerData_def setBroadcaster_def)

text \<open>
  C10. For every broadcaster consume request, \<^verbatim>\<open>createBroadcasterConsumer\<close> creates the
  consumer unpaused and returns its parameters directly: no \<^verbatim>\<open>transport.consume\<close> of the
  operation is paused, and the operation sends no request to any peer and resumes no
  consumer. It succeeds exactly when the broadcaster exists, has supplied
  \<^verbatim>\<open>rtpCapabilities\<close>, owns the transport, and the engine creates the consumer; it then
  stores the consumer and returns its parameters (the consumer's id, the producer id, the
  kind, the RTP parameters and the type) after the single unpaused \<^verbatim>\<open>transport.consume\<close>.
\<close>

theorem broadcaster_consumer_unpaused:
  "(\<forall>t p caps paused.
      TransportConsume t p caps paused \<in> set (snd (snd (createBroadcasterConsumer w rm bid tid prid))) \<longrightarrow>
      \<not> paused) \<and>
   (\<forall>i m d. PeerRequest i m d \<notin> set (snd (snd (createBroadcasterConsumer w rm bid tid prid)))) \<and>
   (\<forall>c. ConsumerResume c \<notin> set (snd (snd (createBroadcasterConsumer w rm bid tid prid)))) \<and>
   ((\<exists>v. fst (snd (createBroadcasterConsumer w rm bid tid prid)) = Inr v) \<longleftrightarrow>
    (\<exists>bd t c. map_of (broadcasters rm) bid = Some bd \<and> truthy (rtpCapabilities bd) \<and>
       map_of (transports bd) tid = Some t \<and> consumeR w (t_id t) prid = Some c)) \<and>
   (\<forall>bd t c. map_of (broadcasters rm) bid = Some bd \<and> truthy (rtpCapabilities bd) \<and>
       map_of (transports bd) tid = Some t \<and> consumeR w (t_id t) prid = Some c \<longrightarrow>
       createBroadcasterConsumer w rm bid tid prid =
         (rm\<lparr>broadcasters := AList.update bid
                (bd\<lparr>consumers := AList.update (c_id c) c (consumers bd)\<rparr>) (broadcasters rm)\<rparr>,
          Inr (JObj [(''id'', JStr (c_id c)), (''producerId'', JStr prid), (''kind'', c_kind c),
                     (''rtpParameters'', c_rtpParameters c), (''type'', c_type c)]),
          [TransportConsume (t_id t) prid (rtpCapabilities bd) False]))"
  using createBroadcasterConsumer_actions[of w rm bid tid prid]
        createBroadcasterConsumer_succeeds_iff[of w rm bid tid prid]
        createBroadcasterConsumer_result[of rm bid _ tid _ w prid]
  by blast

theorem broadcaster_consumer_unpaused_witness:
  "createBroadcasterConsumer exWorld exRoom ''cam'' ''tc'' ''pr1'' =
     (exRoom\<lparr>broadcasters :=
        [(''cam'', exBroadcaster\<lparr>consumers :=
            [(''c-pr1'', \<lparr>c_id = ''c-pr1'', c_kind = JStr ''video'', c_rtpParameters = JObj [],
                          c_type = JStr ''simple'', c_producerPaused = JBool False,
                          c_score = JObj []\<rparr>)]\<rparr>)]\<rparr>,
      Inr (JObj [(''id'', JStr ''c-pr1''), (''producerId'', JStr ''pr1''), (''kind'', JStr ''video''),
                 (''rtpParameters'', JObj []), (''type'', JStr ''simple'')]),
      [TransportConsume ''tc'' ''pr1'' (JObj [(''codecs'', JArr [])]) False])"
proof -
  have h: "map_of (broadcasters exRoom) ''cam'' = Some exBroadcaster \<and>
           truthy (rtpCapabilities exBroadcaster) \<and>
           map_of (transports exBroadcaster) ''tc'' =
             Some \<lparr>t_id = ''tc'', t_ctor = PlainTransport, t_appData = JObj [], t_params = JObj []\<rparr> \<and>
           consumeR exWorld
             (t_id \<lparr>t_id = ''tc'', t_ctor = PlainTransport, t_appData = JObj [], t_params = JObj []\<rparr>)
             ''pr1'' = Some (exConsumer ''pr1'')"
    by (simp add: exRoom_def exBroadcaster_def exCaps_def exWorld_def)
  from broadcaster_consumer_unpaused[of exWorld exRoom "''cam''" "''tc''" "''pr1''"] h
  have "createBroadcasterConsumer exWorld exRoom ''cam'' ''tc'' ''pr1'' =
         (exRoom\<lparr>broadcasters := AList.update ''cam''
            (exBroadcaster\<lparr>consumers := AList.update (c_id (exConsumer ''pr1'')) (exConsumer ''pr1'')
                                            (consumers exBroadcaster)\<rparr>) (broadcasters exRoom)\<rparr>,
          Inr (JObj [(''id'', JStr (c_id (exConsumer ''pr1''))), (''producerId'', JStr ''pr1''),
                     (''kind'', c_kind (exConsumer ''pr1'')),
                     (''rtpParameters'', c_rtpParameters (exConsumer ''pr1'')),
                     (''type'', c_type (exConsumer ''pr1''))]),
          [TransportConsume
             (t_id \<lparr>t_id = ''tc'', t_ctor = PlainTransport, t_appData = JObj [], t_params = JObj []\<rparr>)
             ''pr1'' (rtpCapabilities exBroadcaster) False])"
    by blast
  then show ?thesis by (simp add: exBroadcaster_def exConsumer_def exRoom_def exCaps_def)
qed


section \<open>Consumers are created paused and resumed after the acknowledgment\<close>

lemma createConsumer_paused:
  "TransportConsume t p caps paused \<in> set (snd (createConsumer w i cp j pr)) \<Longrightarrow> paused"
  by (auto simp add: createConsumer_def split: if_splits option.splits)

lemma createConsumer_counts:
  "length (filter isTransportConsume (snd (createConsumer w i cp j pr))) \<le> 1 \<and>
   length (filter (isRequestTo i ''newConsumer'') (snd (createConsumer w i cp j pr))) =
     (if consumeOutcome w cp pr = None then 0 else 1) \<and>
   length (filter isResume (snd (createConsumer w i cp j pr))) \<le> 1"
  by (auto simp add: createConsumer_def consumeOutcome_def split: if_splits option.splits)

lemma createConsumer_requests_own_peer:
  "q \<noteq> i \<Longrightarrow> filter (isRequestTo q m) (snd (createConsumer w i cp j pr)) = []"
  by (auto simp add: createConsumer_def split: if_splits option.splits)

text \<open>In the calls for the joined peers, what concerns one peer comes from that peer's
  call alone.\<close>

lemma joined_calls_count:
  assumes other: "\<And>i d. i \<noteq> q \<Longrightarrow> filter P (g i d) = []"
      and dist: "distinct (map fst ps)" and q: "map_of ps q = Some qd"
  shows "length (filter P (concat (map (\<lambda>(i, d). g i d) (filter (\<lambda>(i, d). joined d \<and> Some i \<noteq> excl) ps)))) =
         (if joined qd \<and> Some q \<noteq> excl then length (filter P (g q qd)) else 0)"
  using dist q
proof (induction ps)
  case Nil
  then show ?case by simp
next
  case (Cons x ps)
  obtain i d where x: "x = (i, d)" by (cases x)
  let ?rest = "concat (map (\<lambda>(i, d). g i d) (filter (\<lambda>(i, d). joined d \<and> Some i \<noteq> excl) ps))"
  have tl: "filter P (concat (map (\<lambda>(i, d). g i d) (filter (\<lambda>(i, d). joined d \<and> Some i \<noteq> excl) (x # ps)))) =
      (if joined d \<and> Some i \<noteq> excl then filter P (g i d) else []) @ filter P ?rest"
    by (simp add: x)
  show ?case
  proof (cases "i = q")
    case True
    with Cons.prems x have qd: "qd = d" and notin: "q \<notin> fst ` set ps" by auto
    have "filter P ?rest = []"
      using notin other by (induction ps) auto
    with True qd show ?thesis unfolding tl by simp
  next
    case False
    with Cons.prems x have "map_of ps q = Some qd" "distinct (map fst ps)" by auto
    with Cons.IH have IH: "length (filter P (concat (map (\<lambda>(i, d). g i d) (filter (\<lambda>(i, d). joined d \<and> Some i \<noteq> excl) ps)))) =
         (if joined qd \<and> Some q \<noteq> excl then length (filter P (g q qd)) else 0)" by simp
    from False other have "filter P (g i d) = []" by simp
    with IH show ?thesis unfolding tl by simp
  qed
qed

lemma onRequest_produce_accepted:
  assumes a: "map_of (peers rm) a = Some ad"
      and ok: "onRequest w rm a (Produce tid kind rtp appData) = Some (rm', Accepted v, acts)"
  shows "\<exists>t prid. joined ad \<and> map_of (transports ad) tid = Some t \<and> produceR w (t_id t) = Some prid \<and>
          v = JObj [(''id'', JStr prid)] \<and>
          (\<exists>r. acts = TransportProduce (t_id t) kind rtp (js_assign appData ''peerId'' (JStr a)) #
            started (map (\<lambda>(i, d). (i, createConsumerTurns w i d a
                    \<lparr>pr_id = prid, pr_kind = kind, pr_appData = js_assign appData ''peerId'' (JStr a)\<rparr>))
                  (filter (\<lambda>(i, d). joined d \<and> Some i \<noteq> Some a)
                  (AList.update a (ad\<lparr>producers := AList.update prid
                      \<lparr>pr_id = prid, pr_kind = kind, pr_appData = js_assign appData ''peerId'' (JStr a)\<rparr>
                      (producers ad)\<rparr>) (peers rm)))) @
            (if kind = JStr ''audio'' then [ObserverAddProducer prid] else []) @
            snd (finish w r (map (\<lambda>(i, d). (i, createConsumerTurns w i d a
                    \<lparr>pr_id = prid, pr_kind = kind, pr_appData = js_assign appData ''peerId'' (JStr a)\<rparr>))
                  (filter (\<lambda>(i, d). joined d \<and> Some i \<noteq> Some a)
                  (AList.update a (ad\<lparr>producers := AList.update prid
                      \<lparr>pr_id = prid, pr_kind = kind, pr_appData = js_assign appData ''peerId'' (JStr a)\<rparr>
                      (producers ad)\<rparr>) (peers rm))))))"
  using ok a
  by (auto simp add: onRequest_def req_produce_def Let_def setPeer_def getJoinedPeers_def
        split: if_splits option.splits)

lemma produce_one_request_per_peer:
  assumes a: "map_of (peers rm) a = Some ad"
      and ok: "onRequest w rm a (Produce tid kind rtp appData) = Some (rm', Accepted v, acts)"
      and dist: "distinct (map fst (peers rm))" and b: "map_of (peers rm) b = Some bd" and ne: "b \<noteq> a"
  shows "\<exists>t prid. map_of (transports ad) tid = Some t \<and> produceR w (t_id t) = Some prid \<and>
           length (filter (isRequestTo b ''newConsumer'') acts) =
           (if joined bd \<and> consumeOutcome w bd
                 \<lparr>pr_id = prid, pr_kind = kind, pr_appData = js_assign appData ''peerId'' (JStr a)\<rparr> \<noteq> None
            then 1 else 0)"
proof -
  from onRequest_produce_accepted[OF a ok] obtain t prid r where
    t: "map_of (transports ad) tid = Some t" and p: "produceR w (t_id t) = Some prid" and
    acts: "acts = TransportProduce (t_id t) kind rtp (js_assign appData ''peerId'' (JStr a)) #
            started (map (\<lambda>(i, d). (i, createConsumerTurns w i d a
                    \<lparr>pr_id = prid, pr_kind = kind, pr_appData = js_assign appData ''peerId'' (JStr a)\<rparr>))
                  (filter (\<lambda>(i, d). joined d \<and> Some i \<noteq> Some a)
                  (AList.update a (ad\<lparr>producers := AList.update prid
                      \<lparr>pr_id = prid, pr_kind = kind, pr_appData = js_assign appData ''peerId'' (JStr a)\<rparr>
                      (producers ad)\<rparr>) (peers rm)))) @
            (if kind = JStr ''audio'' then [ObserverAddProducer prid] else []) @
            snd (finish w r (map (\<lambda>(i, d). (i, createConsumerTurns w i d a
                    \<lparr>pr_id = prid, pr_kind = kind, pr_appData = js_assign appData ''peerId'' (JStr a)\<rparr>))
                  (filter (\<lambda>(i, d). joined d \<and> Some i \<noteq> Some a)
                  (AList.update a (ad\<lparr>producers := AList.update prid
                      \<lparr>pr_id = prid, pr_kind = kind, pr_appData = js_assign appData ''peerId'' (JStr a)\<rparr>
                      (producers ad)\<rparr>) (peers rm)))))"
    by blast
  let ?pr = "\<lparr>pr_id = prid, pr_kind = kind, pr_appData = js_assign appData ''peerId'' (JStr a)\<rparr>"
  let ?ps = "AList.update a (ad\<lparr>producers := AList.update prid ?pr (producers ad)\<rparr>) (peers rm)"
  let ?calls = "map (\<lambda>(i, d). (i, createConsumerTurns w i d a ?pr))
                  (filter (\<lambda>(i, d). joined d \<and> Some i \<noteq> Some a) ?ps)"
  let ?P = "isRequestTo b ''newConsumer''"
  have d: "distinct (map fst ?ps)" using dist by (simp add: distinct_update)
  have m: "map_of ?ps b = Some bd" using b ne by (simp add: update_conv')
  have c: "length (filter ?P (concat (map (\<lambda>(i, d). snd (createConsumer w i d a ?pr))
              (filter (\<lambda>(i, d). joined d \<and> Some i \<noteq> Some a) ?ps)))) =
        (if joined bd \<and> Some b \<noteq> Some a
         then length (filter ?P (snd (createConsumer w b bd a ?pr))) else 0)"
    by (rule joined_calls_count[OF _ d m]) (simp add: createConsumer_requests_own_peer)
  have "length (filter ?P acts) =
        length (filter ?P (started ?calls)) + length (filter ?P (snd (finish w r ?calls)))"
    unfolding acts by simp
  also have "\<dots> = length (filter ?P (concat (map (\<lambda>(i, ts). map snd ts) ?calls)))"
    by (rule count_fanout)
  also have "\<dots> = length (filter ?P (concat (map (\<lambda>(i, d). snd (createConsumer w i d a ?pr))
              (filter (\<lambda>(i, d). joined d \<and> Some i \<noteq> Some a) ?ps))))"
    by (simp only: consumer_calls_actions)
  finally have "length (filter ?P acts) =
        (if joined bd \<and> Some b \<noteq> Some a
         then length (filter ?P (snd (createConsumer w b bd a ?pr))) else 0)"
    using c by simp
  with ne createConsumer_counts[of w b bd a ?pr] t p show ?thesis by auto
qed

lemma createConsumer_resume:
  "ConsumerResume c \<in> set (snd (createConsumer w i cp j pr)) \<Longrightarrow>
   \<exists>co. consumeOutcome w cp pr = Some co \<and> c_id co = c \<and>
        requestR w i ''newConsumer'' (newConsumerData j pr co) \<and>
        occursBefore (PeerRequest i ''newConsumer'' (newConsumerData j pr co)) (ConsumerResume c)
          (snd (createConsumer w i cp j pr))"
  by (auto simp add: createConsumer_def consumeOutcome_def split: if_splits option.splits)

lemma createConsumer_no_resume:
  "consumeOutcome w cp pr = None \<or>
   (\<exists>co. consumeOutcome w cp pr = Some co \<and>
      \<not> requestR w i ''newConsumer'' (newConsumerData j pr co)) \<Longrightarrow>
   filter isResume (snd (createConsumer w i cp j pr)) = []"
  by (auto simp add: createConsumer_def consumeOutcome_def split: if_splits option.splits)


text \<open>
  C2. For every media producer fanned out to a signaling peer by \<^verbatim>\<open>_createConsumer\<close>: every
  \<^verbatim>\<open>transport.consume\<close> of the call has \<^verbatim>\<open>paused = true\<close>; \<^verbatim>\<open>consumer.resume()\<close> is invoked
  only for the consumer the engine created, only when the receiving peer answered the
  \<^verbatim>\<open>newConsumer\<close> request positively, and only after that request in the call's own order;
  the call sends the receiving peer exactly one \<^verbatim>\<open>newConsumer\<close> request when a consumer was
  created and none otherwise; it makes at most one \<^verbatim>\<open>transport.consume\<close> (no retry); and
  when the creation or the acknowledgment fails no consumer is resumed. When a joined
  peer's \<^verbatim>\<open>produce\<close> request is accepted, every other peer of the room receives exactly one
  \<^verbatim>\<open>newConsumer\<close> request for the new producer if it has joined and a consumer was created
  for it, and none otherwise.
\<close>

theorem createConsumer_paused_until_ack:
  "(\<forall>t p caps paused.
      TransportConsume t p caps paused \<in> set (snd (createConsumer w i cp j pr)) \<longrightarrow> paused) \<and>
   (\<forall>c. ConsumerResume c \<in> set (snd (createConsumer w i cp j pr)) \<longrightarrow>
      (\<exists>co. consumeOutcome w cp pr = Some co \<and> c_id co = c \<and>
         requestR w i ''newConsumer'' (newConsumerData j pr co) \<and>
         occursBefore (PeerRequest i ''newConsumer'' (newConsumerData j pr co)) (ConsumerResume c)
           (snd (createConsumer w i cp j pr)))) \<and>
   length (filter (isRequestTo i ''newConsumer'') (snd (createConsumer w i cp j pr))) =
     (if consumeOutcome w cp pr = None then 0 else 1) \<and>
   length (filter isTransportConsume (snd (createConsumer w i cp j pr))) \<le> 1 \<and>
   length (filter isResume (snd (createConsumer w i cp j pr))) \<le> 1 \<and>
   (consumeOutcome w cp pr = None \<or>
    (\<exists>co. consumeOutcome w cp pr = Some co \<and>
       \<not> requestR w i ''newConsumer'' (newConsumerData j pr co)) \<longrightarrow>
    filter isResume (snd (createConsumer w i cp j pr)) = []) \<and>
   (map_of (peers rm) a = Some ad \<and>
    onRequest w rm a (Produce tid kind rtp appData) = Some (rm', Accepted v, acts) \<and>
    distinct (map fst (peers rm)) \<and> map_of (peers rm) b = Some bd \<and> b \<noteq> a \<longrightarrow>
    (\<exists>t prid. map_of (transports ad) tid = Some t \<and> produceR w (t_id t) = Some prid \<and>
       length (filter (isRequestTo b ''newConsumer'') acts) =
         (if joined bd \<and> consumeOutcome w bd
               \<lparr>pr_id = prid, pr_kind = kind, pr_appData = js_assign appData ''peerId'' (JStr a)\<rparr> \<noteq> None
          then 1 else 0)))"
proof (intro conjI)
  show "\<forall>t p caps paused.
      TransportConsume t p caps paused \<in> set (snd (createConsumer w i cp j pr)) \<longrightarrow> paused"
    using createConsumer_paused by blast
  show "\<forall>c. ConsumerResume c \<in> set (snd (createConsumer w i cp j pr)) \<longrightarrow>
      (\<exists>co. consumeOutcome w cp pr = Some co \<and> c_id co = c \<and>
         requestR w i ''newConsumer'' (newConsumerData j pr co) \<and>
         occursBefore (PeerRequest i ''newConsumer'' (newConsumerData j pr co)) (ConsumerResume c)
           (snd (createConsumer w i cp j pr)))"
    using createConsumer_resume by blast
  show "length (filter (isRequestTo i ''newConsumer'') (snd (createConsumer w i cp j pr))) =
     (if consumeOutcome w cp pr = None then 0 else 1)"
    using createConsumer_counts[of w i cp j pr] by blast
  show "length (filter isTransportConsume (snd (createConsumer w i cp j pr))) \<le> 1"
    using createConsumer_counts[of w i cp j pr] by blast
  show "length (filter isResume (snd (createConsumer w i cp j pr))) \<le> 1"
    using createConsumer_counts[of w i cp j pr] by blast
  show "consumeOutcome w cp pr = None \<or>
    (\<exists>co. consumeOutcome w cp pr = Some co \<and>
       \<not> requestR w i ''newConsumer'' (newConsumerData j pr co)) \<longrightarrow>
    filter isResume (snd (createConsumer w i cp j pr)) = []"
    using createConsumer_no_resume[of w cp pr i j] by blast
  show "map_of (peers rm) a = Some ad \<and>
    onRequest w rm a (Produce tid kind rtp appData) = Some (rm', Accepted v, acts) \<and>
    distinct (map fst (peers rm)) \<and> map_of (peers rm) b = Some bd \<and> b \<noteq> a \<longrightarrow>
    (\<exists>t prid. map_of (transports ad) tid = Some t \<and> produceR w (t_id t) = Some prid \<and>
       length (filter (isRequestTo b ''newConsumer'') acts) =
         (if joined bd \<and> consumeOutcome w bd
               \<lparr>pr_id = prid, pr_kind = kind, pr_appData = js_assign appData ''peerId'' (JStr a)\<rparr> \<noteq> None
          then 1 else 0))"
    using produce_one_request_per_peer[of rm a ad w tid kind rtp appData rm' v acts b bd] by blast
qed

theorem createConsumer_paused_until_ack_witness:
  "snd (createConsumer exWorld ''bob'' (exPeer ''tb'') ''alice''
          \<lparr>pr_id = ''pr9'', pr_kind = JStr ''video'', pr_appData = JObj []\<rparr>) =
     [TransportConsume ''tb'' ''pr9'' exCaps True,
      PeerRequest ''bob'' ''newConsumer''
        (newConsumerData ''alice'' \<lparr>pr_id = ''pr9'', pr_kind = JStr ''video'', pr_appData = JObj []\<rparr>
           (exConsumer ''pr9'')),
      ConsumerResume ''c-pr9'',
      PeerNotify ''bob'' ''consumerScore'' (JObj [(''consumerId'', JStr ''c-pr9''), (''score'', JObj [])])] \<and>
   occursBefore
     (PeerRequest ''bob'' ''newConsumer''
        (newConsumerData ''alice'' \<lparr>pr_id = ''pr9'', pr_kind = JStr ''video'', pr_appData = JObj []\<rparr>
           (exConsumer ''pr9'')))
     (ConsumerResume ''c-pr9'')
     (snd (createConsumer exWorld ''bob'' (exPeer ''tb'') ''alice''
          \<lparr>pr_id = ''pr9'', pr_kind = JStr ''video'', pr_appData = JObj []\<rparr>)) \<and>
   filter isResume
     (snd (createConsumer (exWorld\<lparr>requestR := \<lambda>i m d. False\<rparr>) ''bob'' (exPeer ''tb'') ''alice''
          \<lparr>pr_id = ''pr9'', pr_kind = JStr ''video'', pr_appData = JObj []\<rparr>)) = [] \<and>
   (\<exists>rm' v acts.
      onRequest exWorld exRoom ''alice'' (Produce ''ta'' (JStr ''video'') (JObj []) JUndefined) =
        Some (rm', Accepted v, acts) \<and>
      length (filter (isRequestTo ''bob'' ''newConsumer'') acts) = 1 \<and>
      length (filter (isRequestTo ''carol'' ''newConsumer'') acts) = 0)"
proof -
  let ?pr = "\<lparr>pr_id = ''pr9'', pr_kind = JStr ''video'', pr_appData = JObj []\<rparr>"
  let ?pr' = "\<lparr>pr_id = ''pr9'', pr_kind = JStr ''video'',
               pr_appData = js_assign JUndefined ''peerId'' (JStr ''alice'')\<rparr>"
  have tr: "snd (createConsumer exWorld ''bob'' (exPeer ''tb'') ''alice'' ?pr) =
     [TransportConsume ''tb'' ''pr9'' exCaps True,
      PeerRequest ''bob'' ''newConsumer'' (newConsumerData ''alice'' ?pr (exConsumer ''pr9'')),
      ConsumerResume ''c-pr9'',
      PeerNotify ''bob'' ''consumerScore'' (JObj [(''consumerId'', JStr ''c-pr9''), (''score'', JObj [])])]"
    by (simp add: createConsumer_def exWorld_def exPeer_def exCaps_def consumingTransport_def
          map_values_def exTransport_def exConsumer_def)
  have co: "consumeOutcome exWorld (exPeer ''tb'') ?pr = Some (exConsumer ''pr9'')"
    by (simp add: consumeOutcome_def exWorld_def exPeer_def exCaps_def consumingTransport_def
          map_values_def exTransport_def)
  have co2: "consumeOutcome (exWorld\<lparr>requestR := \<lambda>i m d. False\<rparr>) (exPeer ''tb'') ?pr =
               Some (exConsumer ''pr9'')"
    by (simp add: consumeOutcome_def exWorld_def exPeer_def exCaps_def consumingTransport_def
          map_values_def exTransport_def)
  have co3: "consumeOutcome exWorld (exPeer ''tb'') ?pr' \<noteq> None"
    by (simp add: consumeOutcome_def exWorld_def exPeer_def exCaps_def consumingTransport_def
          map_values_def exTransport_def)
  have res: "ConsumerResume ''c-pr9'' \<in> set (snd (createConsumer exWorld ''bob'' (exPeer ''tb'') ''alice'' ?pr))"
    by (simp add: tr)
  have h1: "map_of (peers exRoom) ''alice'' = Some (exPeer ''ta'')" by (simp add: exRoom_def)
  have h2: "distinct (map fst (peers exRoom))" by (simp add: exRoom_def)
  have h3: "map_of (peers exRoom) ''bob'' = Some (exPeer ''tb'')" by (simp add: exRoom_def)
  have h4: "map_of (peers exRoom) ''carol'' = Some (newPeerData JUndefined)" by (simp add: exRoom_def)
  have h5: "map_of (transports (exPeer ''ta'')) ''ta'' = Some (exTransport ''ta'')"
    by (simp add: exPeer_def)
  have h6: "produceR exWorld (t_id (exTransport ''ta'')) = Some ''pr9''" by (simp add: exWorld_def)
  obtain rm' v acts where ok:
    "onRequest exWorld exRoom ''alice'' (Produce ''ta'' (JStr ''video'') (JObj []) JUndefined) =
       Some (rm', Accepted v, acts)"
    by (simp add: onRequest_def exRoom_def req_produce_def Let_def exPeer_def exWorld_def)
  note T7 = conjunct2[OF conjunct2[OF conjunct2[OF conjunct2[OF conjunct2[OF conjunct2]]]]]
  have ne: "''bob'' \<noteq> ''alice''" "''carol'' \<noteq> ''alice''" by simp_all
  from T7[OF createConsumer_paused_until_ack[of exWorld "''bob''" "exPeer ''tb''" "''alice''" ?pr
            exRoom "''alice''" "exPeer ''ta''" "''ta''" "JStr ''video''" "JObj []" JUndefined
            rm' v acts "''bob''" "exPeer ''tb''"]] h1 ok h2 h3 ne(1)
  obtain t prid where b1: "map_of (transports (exPeer ''ta'')) ''ta'' = Some t"
    and b2: "produceR exWorld (t_id t) = Some prid"
    and b3: "length (filter (isRequestTo ''bob'' ''newConsumer'') acts) =
         (if joined (exPeer ''tb'') \<and> consumeOutcome exWorld (exPeer ''tb'')
               \<lparr>pr_id = prid, pr_kind = JStr ''video'',
                  pr_appData = js_assign JUndefined ''peerId'' (JStr ''alice'')\<rparr> \<noteq> None
          then 1 else 0)"
    by blast
  from b1 h5 have "t = exTransport ''ta''" by simp
  with b2 h6 have "prid = ''pr9''" by simp
  with b3 co3 have bob: "length (filter (isRequestTo ''bob'' ''newConsumer'') acts) = 1"
    by (simp add: exPeer_def)
  from T7[OF createConsumer_paused_until_ack[of exWorld "''bob''" "exPeer ''tb''" "''alice''" ?pr
            exRoom "''alice''" "exPeer ''ta''" "''ta''" "JStr ''video''" "JObj []" JUndefined
            rm' v acts "''carol''" "newPeerData JUndefined"]] h1 ok h2 h4 ne(2)
  obtain t' prid' where
    "length (filter (isRequestTo ''carol'' ''newConsumer'') acts) =
         (if joined (newPeerData JUndefined) \<and> consumeOutcome exWorld (newPeerData JUndefined)
               \<lparr>pr_id = prid', pr_kind = JStr ''video'',
                  pr_appData = js_assign JUndefined ''peerId'' (JStr ''alice'')\<rparr> \<noteq> None
          then 1 else 0)"
    by blast
  then have carol: "length (filter (isRequestTo ''carol'' ''newConsumer'') acts) = 0"
    by (simp add: newPeerData_def)
  note T2 = conjunct1[OF conjunct2]
  from T2[OF createConsumer_paused_until_ack[of exWorld "''bob''" "exPeer ''tb''" "''alice''" ?pr]] res
  obtain c where c1: "consumeOutcome exWorld (exPeer ''tb'') ?pr = Some c"
    and c2: "occursBefore (PeerRequest ''bob'' ''newConsumer'' (newConsumerData ''alice'' ?pr c))
               (ConsumerResume ''c-pr9'')
               (snd (createConsumer exWorld ''bob'' (exPeer ''tb'') ''alice'' ?pr))"
    by blast
  from c1 co have "c = exConsumer ''pr9''" by simp
  with c2 have ob: "occursBefore
     (PeerRequest ''bob'' ''newConsumer'' (newConsumerData ''alice'' ?pr (exConsumer ''pr9'')))
     (ConsumerResume ''c-pr9'')
     (snd (createConsumer exWorld ''bob'' (exPeer ''tb'') ''alice'' ?pr))" by simp
  note T6 = conjunct1[OF conjunct2[OF conjunct2[OF conjunct2[OF conjunct2[OF conjunct2]]]]]
  have nack: "\<not> requestR (exWorld\<lparr>requestR := \<lambda>i m d. False\<rparr>) ''bob'' ''newConsumer''
                  (newConsumerData ''alice'' ?pr (exConsumer ''pr9''))" by simp
  from T6[OF createConsumer_paused_until_ack[of "exWorld\<lparr>requestR := \<lambda>i m d. False\<rparr>"
            "''bob''" "exPeer ''tb''" "''alice''" ?pr]] co2 nack
  have nores: "filter isResume
     (snd (createConsumer (exWorld\<lparr>requestR := \<lambda>i m d. False\<rparr>) ''bob'' (exPeer ''tb'') ''alice'' ?pr)) = []"
    by blast
  from tr ob nores ok bob carol show ?thesis by blast
qed


section \<open>A peer that has not joined owns no producer\<close>

lemma set_update_subset: "set (AList.update k v ps) \<subseteq> insert (k, v) (set ps)"
  by (induction ps) auto

lemma set_delete_subset: "set (AList.delete k ps) \<subseteq> set ps"
  by (induction ps) auto

lemma inv_setPeer: "unjoinedEmpty rm \<Longrightarrow> okPeer pd \<Longrightarrow> unjoinedEmpty (setPeer rm pid pd)"
  unfolding unjoinedEmpty_def setPeer_def using set_update_subset[of pid pd "peers rm"] by auto

lemma inv_delete: "unjoinedEmpty rm \<Longrightarrow> unjoinedEmpty (rm\<lparr>peers := AList.delete pid (peers rm)\<rparr>)"
  unfolding unjoinedEmpty_def using set_delete_subset[of pid "peers rm"] by auto

lemma inv_lookup: "unjoinedEmpty rm \<Longrightarrow> map_of (peers rm) pid = Some pd \<Longrightarrow> okPeer pd"
  unfolding unjoinedEmpty_def using map_of_SomeD[of "peers rm" pid pd] by fastforce

lemma ok_applyStore: "okPeer (applyStore s d) = okPeer d"
  by (simp add: okPeer_def applyStore_frame)

lemma inv_applyTurn: "unjoinedEmpty rm \<Longrightarrow> unjoinedEmpty (applyTurn rm x)"
proof (cases "map_of (peers rm) (fst x)")
  case None
  assume "unjoinedEmpty rm"
  with None show ?thesis by (simp add: applyTurn_def)
next
  case (Some d)
  assume i: "unjoinedEmpty rm"
  from inv_lookup[OF i Some] have "okPeer (applyStore (fst (snd x)) d)" by (simp add: ok_applyStore)
  from inv_setPeer[OF i this, of "fst x"] Some show ?thesis by (simp add: applyTurn_def setPeer_def)
qed

lemma inv_finish: "unjoinedEmpty rm \<Longrightarrow> unjoinedEmpty (fst (finish w rm calls))"
proof -
  have "unjoinedEmpty r \<Longrightarrow> unjoinedEmpty (foldl applyTurn r ts)" for r ts
    by (induction ts arbitrary: r) (simp_all add: inv_applyTurn)
  then show "unjoinedEmpty rm \<Longrightarrow> unjoinedEmpty (fst (finish w rm calls))" by (simp add: finish_def)
qed

lemma inv_other_fields [simp]:
  "unjoinedEmpty (rm\<lparr>broadcasters := b\<rparr>) = unjoinedEmpty rm"
  "unjoinedEmpty (rm\<lparr>r_closed := c\<rparr>) = unjoinedEmpty rm"
  "unjoinedEmpty (rm\<lparr>peers := []\<rparr>)"
  by (simp_all add: unjoinedEmpty_def)

lemma fst_callOn [simp]: "fst (callOn w rm coll what i a b) = rm"
  by (simp add: callOn_def split: option.splits)

lemma fst_whenJoined [simp]: "fst r = rm \<Longrightarrow> fst (whenJoined rm pd r) = rm"
  by (simp add: whenJoined_def)

lemma inv_join:
  assumes "unjoinedEmpty rm"
  shows "unjoinedEmpty (fst (req_join w rm pid pd dn dev rtp sctp))"
proof (cases "joined pd")
  case True
  with assms show ?thesis by (simp add: req_join_def)
next
  case False
  let ?pd1 = "pd\<lparr>displayName := dn, device := dev, rtpCapabilities := rtp,
                      joined := True, sctpCapabilities := sctp\<rparr>"
  have 1: "okPeer ?pd1" by (simp add: okPeer_def)
  have 2: "unjoinedEmpty (setPeer rm pid ?pd1)" by (rule inv_setPeer[OF assms 1])
  show ?thesis using False by (simp add: req_join_def Let_def inv_finish[OF 2])
qed

lemma inv_createWebRtcTransport:
  assumes "unjoinedEmpty rm" "okPeer pd"
  shows "unjoinedEmpty (fst (req_createWebRtcTransport w rm pid pd a b c d))"
proof -
  have "okPeer (pd\<lparr>transports := ts\<rparr>)" for ts using assms(2) by (simp add: okPeer_def)
  then show ?thesis
    using assms(1) by (simp add: req_createWebRtcTransport_def Let_def inv_setPeer split: option.splits)
qed

lemma inv_produce:
  assumes "unjoinedEmpty rm"
  shows "unjoinedEmpty (fst (req_produce w rm pid pd t k r a))"
proof (cases "joined pd")
  case False
  with assms show ?thesis by (simp add: req_produce_def)
next
  case True
  then have 1: "okPeer (pd\<lparr>producers := ps\<rparr>)" for ps by (simp add: okPeer_def)
  have 2: "unjoinedEmpty (setPeer rm pid (pd\<lparr>producers := ps\<rparr>))" for ps
    by (rule inv_setPeer[OF assms 1])
  have 3: "unjoinedEmpty (fst (finish w (setPeer rm pid (pd\<lparr>producers := ps\<rparr>)) calls))" for ps calls
    by (rule inv_finish[OF 2])
  show ?thesis using assms True 3
    by (simp add: req_produce_def Let_def split: option.splits)
qed

lemma inv_closeProducer:
  assumes "unjoinedEmpty rm"
  shows "unjoinedEmpty (fst (req_closeProducer rm pid pd i))"
proof (cases "joined pd")
  case False
  with assms show ?thesis by (simp add: req_closeProducer_def)
next
  case True
  then have 1: "okPeer (pd\<lparr>producers := ps\<rparr>)" for ps by (simp add: okPeer_def)
  show ?thesis using assms True inv_setPeer[OF assms 1]
    by (simp add: req_closeProducer_def split: option.splits)
qed

lemma inv_produceData:
  assumes "unjoinedEmpty rm"
  shows "unjoinedEmpty (fst (req_produceData w rm pid pd t s l p a))"
proof (cases "joined pd")
  case False
  with assms show ?thesis by (simp add: req_produceData_def)
next
  case True
  then have 1: "okPeer (pd\<lparr>dataProducers := ps\<rparr>)" for ps by (simp add: okPeer_def)
  have 2: "unjoinedEmpty (setPeer rm pid (pd\<lparr>dataProducers := ps\<rparr>))" for ps
    by (rule inv_setPeer[OF assms 1])
  have 3: "unjoinedEmpty (fst (finish w (setPeer rm pid (pd\<lparr>dataProducers := ps\<rparr>)) calls))" for ps calls
    by (rule inv_finish[OF 2])
  show ?thesis using assms True 2 3
    by (simp add: req_produceData_def Let_def split: option.splits)
qed

lemma inv_changeDisplayName:
  assumes "unjoinedEmpty rm"
  shows "unjoinedEmpty (fst (req_changeDisplayName rm pid pd dn))"
proof (cases "joined pd")
  case False
  with assms show ?thesis by (simp add: req_changeDisplayName_def)
next
  case True
  then have 1: "okPeer (pd\<lparr>displayName := dn\<rparr>)" by (simp add: okPeer_def)
  show ?thesis using assms True inv_setPeer[OF assms 1]
    by (simp add: req_changeDisplayName_def Let_def)
qed

lemma inv_request:
  assumes "unjoinedEmpty rm" "okPeer pd"
  shows "unjoinedEmpty (fst (handleProtooRequest w rm pid pd req))"
  using assms
  by (cases req)
     (simp_all add: inv_join inv_createWebRtcTransport inv_produce inv_closeProducer inv_produceData
        inv_changeDisplayName req_mixerDataChanged_def req_applyNetworkThrottle_def
        req_resetNetworkThrottle_def Let_def split: option.splits)

lemma inv_onRequest:
  assumes "unjoinedEmpty rm" "onRequest w rm pid req = Some r"
  shows "unjoinedEmpty (fst r)"
proof -
  from assms(2) obtain pd where pd: "map_of (peers rm) pid = Some pd"
    by (auto simp add: onRequest_def split: option.splits)
  have "fst r = fst (handleProtooRequest w rm pid pd req)"
    using assms(2) pd by (auto simp add: onRequest_def split: prod.splits outcome.splits)
  with inv_request[OF assms(1) inv_lookup[OF assms(1) pd]] show ?thesis by simp
qed


lemma inv_roomClose: "unjoinedEmpty (fst (roomClose rm))"
  by (simp add: roomClose_def unjoinedEmpty_def)

lemma inv_peerClosed: "unjoinedEmpty rm \<Longrightarrow> unjoinedEmpty (fst (peerClosed rm pid))"
  using inv_delete[of rm pid]
  by (simp add: peerClosed_def Let_def inv_roomClose split: option.splits)

lemma ok_newPeerData: "okPeer (newPeerData c)"
  by (simp add: okPeer_def newPeerData_def)

lemma inv_connection:
  assumes "unjoinedEmpty rm"
  shows "unjoinedEmpty (fst (handleProtooConnection w rm pid c))"
proof -
  have "unjoinedEmpty (setPeer r pid (newPeerData c))" if "unjoinedEmpty r" for r
    using that ok_newPeerData by (rule inv_setPeer)
  then have "unjoinedEmpty (r\<lparr>peers := AList.update pid (newPeerData c) (peers r)\<rparr>)"
    if "unjoinedEmpty r" for r using that by (simp add: setPeer_def)
  then show ?thesis
    using assms inv_peerClosed[OF assms, of pid]
    by (simp add: handleProtooConnection_def Let_def)
qed

lemma inv_consumerEvent:
  assumes "unjoinedEmpty rm"
  shows "unjoinedEmpty (fst (onConsumerEvent rm pid ev))"
proof (cases "map_of (peers rm) pid")
  case None
  with assms show ?thesis by (cases ev) simp_all
next
  case (Some pd)
  from inv_lookup[OF assms Some] have
    "okPeer (pd\<lparr>consumers := cs\<rparr>)" "okPeer (pd\<lparr>dataConsumers := ds\<rparr>)" for cs ds
    by (simp_all add: okPeer_def)
  with Some assms show ?thesis by (cases ev) (simp_all add: inv_setPeer)
qed

lemma inv_setBroadcaster [simp]: "unjoinedEmpty (setBroadcaster rm b d) = unjoinedEmpty rm"
  by (simp add: setBroadcaster_def)

lemma inv_broadcasterEvent: "unjoinedEmpty rm \<Longrightarrow> unjoinedEmpty (onBroadcasterEvent rm bid ev)"
  by (cases ev) (simp_all split: option.splits)

lemma peers_setBroadcaster [simp]: "peers (setBroadcaster rm b d) = peers rm"
  by (simp add: setBroadcaster_def)

lemma inv_createBroadcasterProducer:
  assumes "unjoinedEmpty rm"
  shows "unjoinedEmpty (fst (createBroadcasterProducer w rm bid tid kind rtp))"
proof -
  have 1: "unjoinedEmpty (setBroadcaster rm bid bd)" for bd using assms by simp
  have "unjoinedEmpty (fst (finish w (setBroadcaster rm bid bd) calls))" for bd calls
    by (rule inv_finish[OF 1])
  with assms show ?thesis
    by (simp add: createBroadcasterProducer_def Let_def split: option.splits)
qed

lemma inv_createBroadcaster:
  "unjoinedEmpty rm \<Longrightarrow> unjoinedEmpty (fst (createBroadcaster w rm bid dn dev rtp))"
  by (simp add: createBroadcaster_def Let_def split: jsval.splits)

lemma inv_broadcasterOp:
  "unjoinedEmpty rm \<Longrightarrow> unjoinedEmpty (fst (broadcasterOp w rm bop))"
  by (cases bop)
     (simp_all add: inv_createBroadcaster inv_createBroadcasterProducer deleteBroadcaster_def
        createBroadcasterTransport_def connectBroadcasterTransport_def createBroadcasterConsumer_def
        createBroadcasterDataConsumer_def createBroadcasterDataProducer_def Let_def
        split: option.splits transport_type.splits)

lemma inv_roomStep: "unjoinedEmpty rm \<Longrightarrow> unjoinedEmpty (roomStep rm e)"
proof -
  assume i: "unjoinedEmpty rm"
  obtain w ev where e: "e = (w, ev)" by (cases e)
  show ?thesis unfolding e roomStep_def
    using i
    by (cases ev)
       (auto simp add: inv_connection inv_peerClosed inv_consumerEvent inv_broadcasterOp
          inv_broadcasterEvent split: option.splits dest: inv_onRequest)
qed

lemma inv_roomRun: "unjoinedEmpty rm \<Longrightarrow> unjoinedEmpty (roomRun rm evs)"
  unfolding roomRun_def by (induction evs arbitrary: rm) (simp_all add: inv_roomStep)

lemma inv_roomCreate: "roomCreate w rid = Some rm \<Longrightarrow> unjoinedEmpty rm"
  by (auto simp add: roomCreate_def unjoinedEmpty_def split: option.splits)


lemma never_joined_empty:
  assumes "roomCreate w rid = Some rm" and "map_of (peers (roomRun rm evs)) pid = Some pd"
      and "\<not> joined pd"
  shows "producers pd = [] \<and> dataProducers pd = []"
  using inv_lookup[OF inv_roomRun[OF inv_roomCreate[OF assms(1)]] assms(2)] assms(3)
  by (simp add: okPeer_def)

lemma produce_before_join:
  assumes "map_of (peers rm) pid = Some pd" and "\<not> joined pd"
  shows "onRequest w rm pid (Produce tid kind rtpParameters appData) =
           Some (rm, RejectedError (Error ''Peer not yet joined''), [])"
    and "onRequest w rm pid (ProduceData tid sp label protocol appData) =
           Some (rm, RejectedError (Error ''Peer not yet joined''), [])"
  using assms by (simp_all add: onRequest_def req_produce_def req_produceData_def notJoined_def)

text \<open>
  C4. For every session with \<open>joined = false\<close>, a \<^verbatim>\<open>produce\<close> request and a \<^verbatim>\<open>produceData\<close>
  request are rejected with the error \<^verbatim>\<open>Peer not yet joined\<close> before any call on the
  engine: the handler performs no action and leaves the room unchanged, so no producer
  and no data producer is created. Consequently, in every state a room reaches from its
  creation through connections, requests, disconnections, engine events and broadcaster
  operations, a session whose \<open>joined\<close> flag is false has empty \<open>producers\<close> and
  \<open>dataProducers\<close> collections.
\<close>

theorem unjoined_cannot_produce:
  "(map_of (peers rm) pid = Some pd \<and> \<not> joined pd \<longrightarrow>
      onRequest w rm pid (Produce tid kind rtpParameters appData) =
        Some (rm, RejectedError (Error ''Peer not yet joined''), []) \<and>
      onRequest w rm pid (ProduceData tid sp label protocol appData) =
        Some (rm, RejectedError (Error ''Peer not yet joined''), [])) \<and>
   (roomCreate w0 rid = Some rm0 \<and> map_of (peers (roomRun rm0 evs)) p = Some d \<and> \<not> joined d \<longrightarrow>
      producers d = [] \<and> dataProducers d = [])"
proof (rule conjI; rule impI)
  assume "map_of (peers rm) pid = Some pd \<and> \<not> joined pd"
  then have a: "map_of (peers rm) pid = Some pd" and b: "\<not> joined pd" by simp_all
  show "onRequest w rm pid (Produce tid kind rtpParameters appData) =
        Some (rm, RejectedError (Error ''Peer not yet joined''), []) \<and>
      onRequest w rm pid (ProduceData tid sp label protocol appData) =
        Some (rm, RejectedError (Error ''Peer not yet joined''), [])"
    using produce_before_join(1)[OF a b] produce_before_join(2)[OF a b] by simp
next
  assume "roomCreate w0 rid = Some rm0 \<and> map_of (peers (roomRun rm0 evs)) p = Some d \<and> \<not> joined d"
  then show "producers d = [] \<and> dataProducers d = []"
    using never_joined_empty[of w0 rid rm0 evs p d] by blast
qed

theorem unjoined_cannot_produce_witness:
  "onRequest exWorld exRoom ''carol'' (Produce ''ta'' (JStr ''video'') (JObj []) JUndefined) =
     Some (exRoom, RejectedError (Error ''Peer not yet joined''), []) \<and>
   onRequest exWorld exRoom ''carol'' (ProduceData ''ta'' (JObj []) ''chat'' [] JUndefined) =
     Some (exRoom, RejectedError (Error ''Peer not yet joined''), []) \<and>
   (\<exists>rm0 d. roomCreate exWorld ''r'' = Some rm0 \<and>
      map_of (peers (roomRun rm0
         [(exWorld, EvConnection ''dave'' JUndefined),
          (exWorld, EvRequest ''dave'' (CreateWebRtcTransport JUndefined (JBool True) JUndefined JUndefined)),
          (exWorld, EvRequest ''dave'' (Produce ''t9'' (JStr ''video'') (JObj []) JUndefined))]))
        ''dave'' = Some d \<and>
      \<not> joined d \<and> transports d \<noteq> [] \<and> producers d = [] \<and> dataProducers d = [])"
proof -
  let ?evs = "[(exWorld, EvConnection ''dave'' JUndefined),
          (exWorld, EvRequest ''dave'' (CreateWebRtcTransport JUndefined (JBool True) JUndefined JUndefined)),
          (exWorld, EvRequest ''dave'' (Produce ''t9'' (JStr ''video'') (JObj []) JUndefined))]"
  have h1: "map_of (peers exRoom) ''carol'' = Some (newPeerData JUndefined)" by (simp add: exRoom_def)
  have h2: "\<not> joined (newPeerData JUndefined)" by (simp add: newPeerData_def)
  obtain rm0 where c: "roomCreate exWorld ''r'' = Some rm0"
    by (simp add: roomCreate_def exWorld_def)
  then have rm0: "rm0 = \<lparr>roomId = ''r'', r_closed = False, peers = [], broadcasters = [],
                routerRtpCapabilities = exCaps, bot = botCreate ''bot-dp'', networkThrottled = False\<rparr>"
    by (simp add: roomCreate_def exWorld_def)
  obtain d where r: "map_of (peers (roomRun rm0 ?evs)) ''dave'' = Some d"
    and nj: "\<not> joined d" and tr: "transports d \<noteq> []"
    unfolding rm0
    by (simp add: roomRun_def roomStep_def handleProtooConnection_def map_has_def onRequest_def
          exWorld_def newPeerData_def req_createWebRtcTransport_def req_produce_def Let_def
          setPeer_def)
  note T = unjoined_cannot_produce[of exRoom "''carol''" "newPeerData JUndefined" exWorld "''ta''"
             "JStr ''video''" "JObj []" JUndefined "JObj []" "''chat''" "[]" exWorld "''r''" rm0 ?evs
             "''dave''" d]
  from T h1 h2 have a:
    "onRequest exWorld exRoom ''carol'' (Produce ''ta'' (JStr ''video'') (JObj []) JUndefined) =
       Some (exRoom, RejectedError (Error ''Peer not yet joined''), [])"
    "onRequest exWorld exRoom ''carol'' (ProduceData ''ta'' (JObj []) ''chat'' [] JUndefined) =
       Some (exRoom, RejectedError (Error ''Peer not yet joined''), [])"
    by blast+
  from T c r nj have "producers d = [] \<and> dataProducers d = []" by blast
  with a c r nj tr show ?thesis by blast
qed

section \<open>Registered rooms are open\<close>

lemma open_setPeer: "roomOpen rm \<Longrightarrow> roomOpen (setPeer rm pid pd)"
  by (simp add: roomOpen_def setPeer_def distinct_update)

lemma open_finish: "roomOpen rm \<Longrightarrow> roomOpen (fst (finish w rm calls))"
  by (simp add: roomOpen_def finish_frame)

lemma open_setBroadcaster [simp]: "roomOpen (setBroadcaster rm b d) = roomOpen rm"
  by (simp add: roomOpen_def setBroadcaster_def)

lemma open_broadcasters [simp]: "roomOpen (rm\<lparr>broadcasters := b\<rparr>) = roomOpen rm"
  by (simp add: roomOpen_def)

lemma open_request:
  assumes "roomOpen rm"
  shows "roomOpen (fst (handleProtooRequest w rm pid pd req))"
proof -
  note s = open_setPeer[OF assms]
  have f: "roomOpen (fst (finish w (setPeer rm pid d) calls))" for d calls
    by (rule open_finish[OF s])
  show ?thesis
    using assms s f
    by (cases req)
       (simp_all add: req_join_def req_createWebRtcTransport_def req_produce_def
          req_closeProducer_def req_produceData_def req_changeDisplayName_def
          req_mixerDataChanged_def req_applyNetworkThrottle_def req_resetNetworkThrottle_def
          Let_def split: option.splits)
qed

lemma open_onRequest:
  assumes "roomOpen rm" and "onRequest w rm pid req = Some r"
  shows "roomOpen (fst r)"
proof -
  from assms(2) obtain pd where pd: "map_of (peers rm) pid = Some pd"
    by (auto simp add: onRequest_def split: option.splits)
  have "fst r = fst (handleProtooRequest w rm pid pd req)"
    using assms(2) pd by (auto simp add: onRequest_def split: prod.splits outcome.splits)
  with open_request[OF assms(1)] show ?thesis by simp
qed

lemma open_peerClosed:
  assumes "roomOpen rm" and "EmitClose \<notin> set (snd (peerClosed rm pid))"
  shows "roomOpen (fst (peerClosed rm pid))"
  using assms
  by (auto simp add: peerClosed_def roomOpen_def roomClose_def Let_def distinct_delete
        split: option.splits if_splits)

lemma open_connection:
  assumes "roomOpen rm" and "EmitClose \<notin> set (snd (handleProtooConnection w rm pid c))"
  shows "roomOpen (fst (handleProtooConnection w rm pid c))"
proof -
  have u: "roomOpen (r\<lparr>peers := AList.update pid (newPeerData c) (peers r)\<rparr>)" if "roomOpen r" for r
    using that by (simp add: roomOpen_def distinct_update)
  show ?thesis
  proof (cases "map_has (peers rm) pid")
    case False
    with assms(1) u show ?thesis by (simp add: handleProtooConnection_def Let_def)
  next
    case True
    with assms(2) have "EmitClose \<notin> set (snd (peerClosed rm pid))"
      by (simp add: handleProtooConnection_def Let_def split: if_splits)
    from open_peerClosed[OF assms(1) this] True u show ?thesis
      by (simp add: handleProtooConnection_def Let_def)
  qed
qed

lemma open_consumerEvent: "roomOpen rm \<Longrightarrow> roomOpen (fst (onConsumerEvent rm pid ev))"
  by (cases ev) (simp_all add: open_setPeer split: option.splits)

lemma open_broadcasterEvent: "roomOpen rm \<Longrightarrow> roomOpen (onBroadcasterEvent rm bid ev)"
  by (cases ev) (simp_all split: option.splits)

lemma open_createBroadcasterProducer:
  assumes "roomOpen rm"
  shows "roomOpen (fst (createBroadcasterProducer w rm bid tid kind rtp))"
proof -
  have 1: "roomOpen (setBroadcaster rm bid bd)" for bd using assms by simp
  have "roomOpen (fst (finish w (setBroadcaster rm bid bd) calls))" for bd calls
    by (rule open_finish[OF 1])
  with assms show ?thesis
    by (simp add: createBroadcasterProducer_def Let_def split: option.splits)
qed

lemma open_broadcasterOp: "roomOpen rm \<Longrightarrow> roomOpen (fst (broadcasterOp w rm bop))"
  by (cases bop)
     (simp_all add: open_createBroadcasterProducer createBroadcaster_def deleteBroadcaster_def
        createBroadcasterTransport_def connectBroadcasterTransport_def createBroadcasterConsumer_def
        createBroadcasterDataConsumer_def createBroadcasterDataProducer_def Let_def
        split: option.splits transport_type.splits jsval.splits)

lemma open_roomEvent:
  assumes "roomOpen rm" and "EmitClose \<notin> set (snd (roomEvent w rm ev))"
  shows "roomOpen (fst (roomEvent w rm ev))"
  using assms
  by (cases ev)
     (auto simp add: open_connection open_peerClosed open_consumerEvent open_broadcasterOp
        open_broadcasterEvent split: option.splits dest: open_onRequest)

lemma registry_roomResult:
  assumes "registryOpen srv" and "EmitClose \<notin> set (snd r) \<Longrightarrow> roomOpen (fst r)"
  shows "registryOpen (roomResult srv rid inst r)"
proof (cases "EmitClose \<in> set (snd r)")
  case True
  with assms(1) set_delete_subset[of rid "rooms srv"] show ?thesis
    by (auto simp add: roomResult_def registryOpen_def)
next
  case False
  with assms set_update_subset[of rid "(inst, fst r)" "rooms srv"] show ?thesis
    by (auto simp add: roomResult_def registryOpen_def)
qed

lemma registry_lookup:
  "registryOpen srv \<Longrightarrow> map_of (rooms srv) rid = Some (inst, rm) \<Longrightarrow> roomOpen rm"
  unfolding registryOpen_def using map_of_SomeD[of "rooms srv" rid "(inst, rm)"] by fastforce

lemma registry_connectionTask:
  assumes "registryOpen srv"
  shows "registryOpen (fst (connectionTask w srv rid pid))"
proof (cases "map_of (rooms srv) rid")
  case (Some x)
  obtain inst rm where x: "x = (inst, rm)" by (cases x)
  from registry_lookup[OF assms Some[unfolded x]] have o: "roomOpen rm" .
  have "registryOpen (roomResult srv rid inst (handleProtooConnection w rm pid JUndefined))"
    by (rule registry_roomResult[OF assms open_connection[OF o]])
  with Some x show ?thesis by (simp add: connectionTask_def getOrCreateRoom_def Let_def)
next
  case None
  show ?thesis
  proof (cases "roomCreate w rid")
    case n: None
    with None assms show ?thesis by (simp add: connectionTask_def getOrCreateRoom_def)
  next
    case (Some rm)
    then have o: "roomOpen rm" by (auto simp add: roomCreate_def roomOpen_def split: option.splits)
    let ?srv1 = "srv\<lparr>rooms := AList.update rid (constructed srv, rm) (rooms srv),
                    constructed := Suc (constructed srv)\<rparr>"
    have 1: "registryOpen ?srv1"
      using assms o set_update_subset[of rid "(constructed srv, rm)" "rooms srv"]
      by (auto simp add: registryOpen_def)
    have "registryOpen (roomResult ?srv1 rid (constructed srv) (handleProtooConnection w rm pid JUndefined))"
      by (rule registry_roomResult[OF 1 open_connection[OF o]])
    with None Some show ?thesis by (simp add: connectionTask_def getOrCreateRoom_def Let_def)
  qed
qed

lemma registry_serverStep: "registryOpen srv \<Longrightarrow> registryOpen (serverStep srv e)"
proof -
  assume a: "registryOpen srv"
  obtain w ev where e: "e = (w, ev)" by (cases e)
  show ?thesis
  proof (cases ev)
    case (SvConnect rid pid)
    with a e show ?thesis by (simp add: serverStep_def registry_connectionTask)
  next
    case (SvRoom rid rev)
    show ?thesis
    proof (cases "map_of (rooms srv) rid")
      case None
      with a e SvRoom show ?thesis by (simp add: serverStep_def)
    next
      case (Some x)
      obtain inst rm where x: "x = (inst, rm)" by (cases x)
      from registry_lookup[OF a Some[unfolded x]] have o: "roomOpen rm" .
      have "registryOpen (roomResult srv rid inst (roomEvent w rm rev))"
        by (rule registry_roomResult[OF a open_roomEvent[OF o]])
      with e SvRoom Some x show ?thesis by (simp add: serverStep_def)
    qed
  qed
qed

lemma registry_serverRun: "registryOpen srv \<Longrightarrow> registryOpen (serverRun srv evs)"
  unfolding serverRun_def by (induction evs arbitrary: srv) (simp_all add: registry_serverStep)

lemma registry_reachable:
  assumes "map_of (rooms (serverRun emptyServer evs)) rid = Some (inst, rm)"
  shows "\<not> r_closed rm \<and> distinct (map fst (peers rm))"
proof -
  have "registryOpen emptyServer" by (simp add: registryOpen_def emptyServer_def)
  from registry_lookup[OF registry_serverRun[OF this] assms] show ?thesis
    by (simp add: roomOpen_def)
qed

section \<open>Disconnection\<close>


lemma count_notify:
  assumes "distinct (map fst ps)" and "map_of ps q = Some qd"
  shows "count_list (map (\<lambda>(i, d). PeerNotify i m payload) (filter P ps)) (PeerNotify q m payload) =
         (if P (q, qd) then 1 else 0)"
  using assms
proof (induction ps)
  case Nil
  then show ?case by simp
next
  case (Cons x ps)
  obtain i d where x: "x = (i, d)" by (cases x)
  show ?case
  proof (cases "i = q")
    case True
    with Cons.prems x have qd: "d = qd" and notin: "q \<notin> fst ` set ps" by auto
    have "count_list (map (\<lambda>(i, d). PeerNotify i m payload) (filter P ps)) (PeerNotify q m payload) = 0"
      using notin by (force simp add: count_list_0_iff)
    with True qd x show ?thesis by simp
  next
    case False
    with Cons x show ?thesis by auto
  qed
qed

lemma notifyJoinedPeers_count:
  assumes "distinct (map fst (peers rm))" and "map_of (peers rm) q = Some qd"
  shows "count_list (notifyJoinedPeers rm excl m payload) (PeerNotify q m payload) =
         (if joined qd \<and> Some q \<noteq> excl then 1 else 0)"
  unfolding notifyJoinedPeers_def getJoinedPeers_def
  using count_notify[OF assms, of m payload "\<lambda>(i, d). joined d \<and> Some i \<noteq> excl"] by simp

lemma notifyJoinedPeers_mem:
  "PeerNotify q m' d \<in> set (notifyJoinedPeers rm excl m payload) \<Longrightarrow>
   m' = m \<and> d = payload \<and> Some q \<noteq> excl \<and> (\<exists>qd. (q, qd) \<in> set (peers rm) \<and> joined qd)"
  by (auto simp add: notifyJoinedPeers_def getJoinedPeers_def)

lemma notifyJoinedPeers_only_notify:
  "a \<in> set (notifyJoinedPeers rm excl m payload) \<Longrightarrow> \<exists>q. a = PeerNotify q m payload"
  by (auto simp add: notifyJoinedPeers_def getJoinedPeers_def)

lemma peerClosed_open:
  assumes p: "map_of (peers rm) pid = Some pd" and o: "\<not> r_closed rm"
  shows "snd (peerClosed rm pid) =
           (if joined pd
            then notifyJoinedPeers (rm\<lparr>peers := AList.delete pid (peers rm)\<rparr>) (Some pid) ''peerClosed''
                   (JObj [(''peerId'', JStr pid)]) else []) @
           map (\<lambda>t. TransportClose (t_id t)) (map_values (transports pd)) @
           (if AList.delete pid (peers rm) = []
            then [ProtooRoomClose, RouterClose, BotClose, EmitClose] @
                 (if networkThrottled rm then [ThrottleStop] else [])
            else [])"
    and "fst (peerClosed rm pid) =
           (if AList.delete pid (peers rm) = [] then rm\<lparr>r_closed := True, peers := []\<rparr>
            else rm\<lparr>peers := AList.delete pid (peers rm)\<rparr>)"
  using p o by (simp_all add: peerClosed_def roomClose_def Let_def)


lemma map_of_in_set: "distinct (map fst ps) \<Longrightarrow> (k, v) \<in> set ps \<Longrightarrow> map_of ps k = Some v"
  by simp

lemma disconnect_room:
  assumes p: "map_of (peers rm) pid = Some pd" and j: "joined pd" and o: "\<not> r_closed rm"
      and d: "distinct (map fst (peers rm))"
  shows "(\<forall>q qd. map_of (peers rm) q = Some qd \<and> q \<noteq> pid \<longrightarrow>
            count_list (snd (peerClosed rm pid)) (PeerNotify q ''peerClosed'' (JObj [(''peerId'', JStr pid)])) =
              (if joined qd then 1 else 0))"
    and "(\<forall>q m x. PeerNotify q m x \<in> set (snd (peerClosed rm pid)) \<longrightarrow>
            m = ''peerClosed'' \<and> x = JObj [(''peerId'', JStr pid)] \<and> q \<noteq> pid \<and>
            (\<exists>qd. map_of (peers rm) q = Some qd \<and> joined qd))"
    and "(\<forall>t\<in>set (map_values (transports pd)). TransportClose (t_id t) \<in> set (snd (peerClosed rm pid)))"
    and "AList.delete pid (peers rm) = [] \<longrightarrow>
           r_closed (fst (peerClosed rm pid)) \<and> EmitClose \<in> set (snd (peerClosed rm pid))"
    and "AList.delete pid (peers rm) \<noteq> [] \<longrightarrow>
           fst (peerClosed rm pid) = rm\<lparr>peers := AList.delete pid (peers rm)\<rparr> \<and>
           EmitClose \<notin> set (snd (peerClosed rm pid))"
proof -
  let ?rm1 = "rm\<lparr>peers := AList.delete pid (peers rm)\<rparr>"
  let ?n = "notifyJoinedPeers ?rm1 (Some pid) ''peerClosed'' (JObj [(''peerId'', JStr pid)])"
  let ?c = "map (\<lambda>t. TransportClose (t_id t)) (map_values (transports pd))"
  let ?e = "(if AList.delete pid (peers rm) = []
            then [ProtooRoomClose, RouterClose, BotClose, EmitClose] @
                 (if networkThrottled rm then [ThrottleStop] else [])
            else [])"
  have acts: "snd (peerClosed rm pid) = ?n @ ?c @ ?e"
    using peerClosed_open(1)[OF p o] j by simp
  have d1: "distinct (map fst (peers ?rm1))" using d by (simp add: distinct_delete)
  have cnt0: "count_list (?c @ ?e) (PeerNotify q m x) = 0" for q m x
    by (auto simp add: count_list_0_iff)
  show "(\<forall>q qd. map_of (peers rm) q = Some qd \<and> q \<noteq> pid \<longrightarrow>
            count_list (snd (peerClosed rm pid)) (PeerNotify q ''peerClosed'' (JObj [(''peerId'', JStr pid)])) =
              (if joined qd then 1 else 0))"
  proof (intro allI impI)
    fix q qd assume a: "map_of (peers rm) q = Some qd \<and> q \<noteq> pid"
    then have m: "map_of (peers ?rm1) q = Some qd" by simp
    from notifyJoinedPeers_count[OF d1 m, of "Some pid" "''peerClosed''" "JObj [(''peerId'', JStr pid)]"] a
    have "count_list ?n (PeerNotify q ''peerClosed'' (JObj [(''peerId'', JStr pid)])) =
          (if joined qd then 1 else 0)" by simp
    with cnt0[of q "''peerClosed''" "JObj [(''peerId'', JStr pid)]"] acts
    show "count_list (snd (peerClosed rm pid)) (PeerNotify q ''peerClosed'' (JObj [(''peerId'', JStr pid)])) =
              (if joined qd then 1 else 0)" by simp
  qed
  show "(\<forall>q m x. PeerNotify q m x \<in> set (snd (peerClosed rm pid)) \<longrightarrow>
            m = ''peerClosed'' \<and> x = JObj [(''peerId'', JStr pid)] \<and> q \<noteq> pid \<and>
            (\<exists>qd. map_of (peers rm) q = Some qd \<and> joined qd))"
  proof (intro allI impI)
    fix q m x assume "PeerNotify q m x \<in> set (snd (peerClosed rm pid))"
    then have "PeerNotify q m x \<in> set ?n" unfolding acts by auto
    from notifyJoinedPeers_mem[OF this] obtain qd where
      mx: "m = ''peerClosed''" "x = JObj [(''peerId'', JStr pid)]" and
      ne: "q \<noteq> pid" and mem: "(q, qd) \<in> set (AList.delete pid (peers rm))" and jq: "joined qd" by auto
    from map_of_in_set[OF d1[simplified] mem] ne have "map_of (peers rm) q = Some qd" by simp
    with mx ne jq show "m = ''peerClosed'' \<and> x = JObj [(''peerId'', JStr pid)] \<and> q \<noteq> pid \<and>
            (\<exists>qd. map_of (peers rm) q = Some qd \<and> joined qd)" by blast
  qed
  show "(\<forall>t\<in>set (map_values (transports pd)). TransportClose (t_id t) \<in> set (snd (peerClosed rm pid)))"
    unfolding acts by auto
  show "AList.delete pid (peers rm) = [] \<longrightarrow>
           r_closed (fst (peerClosed rm pid)) \<and> EmitClose \<in> set (snd (peerClosed rm pid))"
    using peerClosed_open(2)[OF p o] acts by simp
  show "AList.delete pid (peers rm) \<noteq> [] \<longrightarrow>
           fst (peerClosed rm pid) = rm\<lparr>peers := AList.delete pid (peers rm)\<rparr> \<and>
           EmitClose \<notin> set (snd (peerClosed rm pid))"
    using peerClosed_open(2)[OF p o] acts by (auto dest: notifyJoinedPeers_only_notify)
qed

text \<open>
  C6. In every state the server reaches from an empty registry: when a joined session of
  a registered room disconnects, every other joined peer is notified \<^verbatim>\<open>peerClosed\<close> with
  the disconnected peer's id exactly once, no other notification is sent (so peers that
  have not joined, and the disconnected peer itself, receive nothing), and every
  transport the disconnected session owns is closed. If no session is left in the room,
  the Room becomes closed, emits \<^verbatim>\<open>'close'\<close>, and the registry has no entry for its room id
  any more; otherwise the Room stays registered, without the session.
\<close>

theorem disconnect_cleanup:
  assumes reg: "map_of (rooms (serverRun emptyServer evs)) rid = Some (inst, rm)"
      and p: "map_of (peers rm) pid = Some pd" and j: "joined pd"
  shows "(\<forall>q qd. map_of (peers rm) q = Some qd \<and> q \<noteq> pid \<longrightarrow>
            count_list (snd (serverPeerClosed (serverRun emptyServer evs) rid pid))
              (PeerNotify q ''peerClosed'' (JObj [(''peerId'', JStr pid)])) =
              (if joined qd then 1 else 0)) \<and>
         (\<forall>q m x. PeerNotify q m x \<in> set (snd (serverPeerClosed (serverRun emptyServer evs) rid pid)) \<longrightarrow>
            m = ''peerClosed'' \<and> x = JObj [(''peerId'', JStr pid)] \<and> q \<noteq> pid \<and>
            (\<exists>qd. map_of (peers rm) q = Some qd \<and> joined qd)) \<and>
         (\<forall>t\<in>set (map_values (transports pd)).
            TransportClose (t_id t) \<in> set (snd (serverPeerClosed (serverRun emptyServer evs) rid pid))) \<and>
         (AList.delete pid (peers rm) = [] \<longrightarrow>
            r_closed (fst (peerClosed rm pid)) \<and>
            EmitClose \<in> set (snd (serverPeerClosed (serverRun emptyServer evs) rid pid)) \<and>
            map_of (rooms (fst (serverPeerClosed (serverRun emptyServer evs) rid pid))) rid = None) \<and>
         (AList.delete pid (peers rm) \<noteq> [] \<longrightarrow>
            map_of (rooms (fst (serverPeerClosed (serverRun emptyServer evs) rid pid))) rid =
              Some (inst, rm\<lparr>peers := AList.delete pid (peers rm)\<rparr>))"
proof -
  let ?srv = "serverRun emptyServer evs"
  from registry_reachable[OF reg] have o: "\<not> r_closed rm" and d: "distinct (map fst (peers rm))"
    by simp_all
  have s: "snd (serverPeerClosed ?srv rid pid) = snd (peerClosed rm pid)"
    and f: "fst (serverPeerClosed ?srv rid pid) = roomResult ?srv rid inst (peerClosed rm pid)"
    using reg by (simp_all add: serverPeerClosed_def)
  note R = disconnect_room[OF p j o d]
  have closing: "AList.delete pid (peers rm) = [] \<longrightarrow>
            r_closed (fst (peerClosed rm pid)) \<and>
            EmitClose \<in> set (snd (serverPeerClosed ?srv rid pid)) \<and>
            map_of (rooms (fst (serverPeerClosed ?srv rid pid))) rid = None"
    using R(4) by (simp add: s f roomResult_def delete_conv')
  have staying: "AList.delete pid (peers rm) \<noteq> [] \<longrightarrow>
            map_of (rooms (fst (serverPeerClosed ?srv rid pid))) rid =
              Some (inst, rm\<lparr>peers := AList.delete pid (peers rm)\<rparr>)"
    using R(5) by (simp add: f roomResult_def update_conv')
  from R(1) R(2) R(3) closing staying show ?thesis unfolding s by blast
qed

text \<open>Alice disconnects from the room of \<^const>\<open>exEvents\<close>, in which Bob has joined and Carol
  has not; and she disconnects from a room in which she is alone.\<close>

theorem disconnect_cleanup_witness:
  "snd (serverPeerClosed (serverRun emptyServer exEvents) ''r'' ''alice'') =
     [PeerNotify ''bob'' ''peerClosed'' (JObj [(''peerId'', JStr ''alice'')]), TransportClose ''t9''] \<and>
   count_list (snd (serverPeerClosed (serverRun emptyServer exEvents) ''r'' ''alice''))
     (PeerNotify ''bob'' ''peerClosed'' (JObj [(''peerId'', JStr ''alice'')])) = 1 \<and>
   count_list (snd (serverPeerClosed (serverRun emptyServer exEvents) ''r'' ''alice''))
     (PeerNotify ''carol'' ''peerClosed'' (JObj [(''peerId'', JStr ''alice'')])) = 0 \<and>
   map_of (rooms (fst (serverPeerClosed (serverRun emptyServer exEvents) ''r'' ''alice''))) ''r'' \<noteq> None \<and>
   snd (serverPeerClosed (serverRun emptyServer (take 3 exEvents)) ''r'' ''alice'') =
     [TransportClose ''t9'', ProtooRoomClose, RouterClose, BotClose, EmitClose] \<and>
   map_of (rooms (fst (serverPeerClosed (serverRun emptyServer (take 3 exEvents)) ''r'' ''alice''))) ''r'' = None"
proof -
  let ?S = "serverRun emptyServer exEvents"
  let ?S3 = "serverRun emptyServer (take 3 exEvents)"
  let ?look = "\<lambda>srv q. map_option (\<lambda>x. map_option joined (map_of (peers (snd x)) q)) (map_of (rooms srv) ''r'')"
  let ?rest = "\<lambda>srv. map_option (\<lambda>x. AList.delete ''alice'' (peers (snd x)) = []) (map_of (rooms srv) ''r'')"
  have fa: "?look ?S ''alice'' = Some (Some True)" by code_simp
  have fb: "?look ?S ''bob'' = Some (Some True)" by code_simp
  have fc: "?look ?S ''carol'' = Some (Some False)" by code_simp
  have fr: "?rest ?S = Some False" by code_simp
  from fa obtain x where x: "map_of (rooms ?S) ''r'' = Some x" by blast
  obtain inst rm where xr: "x = (inst, rm)" by (cases x)
  from x xr have reg: "map_of (rooms ?S) ''r'' = Some (inst, rm)" by simp
  from fa reg obtain pd where p: "map_of (peers rm) ''alice'' = Some pd" and j: "joined pd" by auto
  from fb reg obtain bd where b: "map_of (peers rm) ''bob'' = Some bd" and jb: "joined bd" by auto
  from fc reg obtain cd where c: "map_of (peers rm) ''carol'' = Some cd" and jc: "\<not> joined cd" by auto
  from fr reg have ne: "AList.delete ''alice'' (peers rm) \<noteq> []" by simp
  note T = disconnect_cleanup[OF reg p j]
  note T1 = conjunct1[OF T]
  note T5 = conjunct2[OF conjunct2[OF conjunct2[OF conjunct2[OF T]]]]
  have nb: "''bob'' \<noteq> ''alice''" and nc: "''carol'' \<noteq> ''alice''" by simp_all
  from T1 b nb have "count_list (snd (serverPeerClosed ?S ''r'' ''alice''))
     (PeerNotify ''bob'' ''peerClosed'' (JObj [(''peerId'', JStr ''alice'')])) =
       (if joined bd then 1 else 0)" by blast
  with jb have 1: "count_list (snd (serverPeerClosed ?S ''r'' ''alice''))
     (PeerNotify ''bob'' ''peerClosed'' (JObj [(''peerId'', JStr ''alice'')])) = 1" by simp
  from T1 c nc have "count_list (snd (serverPeerClosed ?S ''r'' ''alice''))
     (PeerNotify ''carol'' ''peerClosed'' (JObj [(''peerId'', JStr ''alice'')])) =
       (if joined cd then 1 else 0)" by blast
  with jc have 2: "count_list (snd (serverPeerClosed ?S ''r'' ''alice''))
     (PeerNotify ''carol'' ''peerClosed'' (JObj [(''peerId'', JStr ''alice'')])) = 0" by simp
  from T5 ne have 3: "map_of (rooms (fst (serverPeerClosed ?S ''r'' ''alice''))) ''r'' \<noteq> None"
    by simp
  have 4: "snd (serverPeerClosed ?S ''r'' ''alice'') =
     [PeerNotify ''bob'' ''peerClosed'' (JObj [(''peerId'', JStr ''alice'')]), TransportClose ''t9'']"
    by code_simp
  have ga: "?look ?S3 ''alice'' = Some (Some True)" by code_simp
  have gr: "?rest ?S3 = Some True" by code_simp
  from ga obtain x' where x': "map_of (rooms ?S3) ''r'' = Some x'" by blast
  obtain inst' rm' where xr': "x' = (inst', rm')" by (cases x')
  from x' xr' have reg': "map_of (rooms ?S3) ''r'' = Some (inst', rm')" by simp
  from ga reg' obtain pd' where p': "map_of (peers rm') ''alice'' = Some pd'" and j': "joined pd'"
    by auto
  from gr reg' have e: "AList.delete ''alice'' (peers rm') = []" by simp
  note U = disconnect_cleanup[OF reg' p' j']
  note U4 = conjunct1[OF conjunct2[OF conjunct2[OF conjunct2[OF U]]]]
  from U4 e have 5: "map_of (rooms (fst (serverPeerClosed ?S3 ''r'' ''alice''))) ''r'' = None"
    by blast
  have 6: "snd (serverPeerClosed ?S3 ''r'' ''alice'') =
     [TransportClose ''t9'', ProtooRoomClose, RouterClose, BotClose, EmitClose]"
    by code_simp
  from 1 2 3 4 5 6 show ?thesis by blast
qed

section \<open>One live Room for a room id\<close>

text \<open>When the creation of the Room fails, the caller gets the error and nothing is
  registered; and the entry of a Room that emits \<^verbatim>\<open>'close'\<close> is removed.\<close>

lemma task_failed:
  assumes "map_of (rooms srv) rid = None" and "createRoomR w = None"
  shows "connectionTask w srv rid p = (srv, ConnRejectedError EngineError, [])"
  using assms by (simp add: connectionTask_def getOrCreateRoom_def roomCreate_def)

lemma close_removes_entry:
  "EmitClose \<in> set (snd r) \<Longrightarrow> map_of (rooms (roomResult srv rid inst r)) rid = None"
  by (simp add: roomResult_def delete_conv')

text \<open>
  C1. The registry is meant to hold one Room for a room id: the connection requests go
  through the queue one at a time so that two of them never create two Rooms for the same
  id, and \<^verbatim>\<open>handleProtooConnection\<close> replaces a session that connects again. The code
  breaks this when the session that connects again is the only one of its room. Three
  requests for room \<^verbatim>\<open>r\<close>, from the peers \<^verbatim>\<open>p\<close>, \<^verbatim>\<open>p\<close> and \<^verbatim>\<open>q\<close>: the first constructs Room 0 and
  registers it. The second finds Room 0, and \<^verbatim>\<open>handleProtooConnection\<close> closes the existing
  peer \<^verbatim>\<open>p\<close>; the room is left without a session, so the listener closes the Room, the Room
  emits \<^verbatim>\<open>'close'\<close> and the registry forgets it; the new session \<^verbatim>\<open>p\<close> is then attached to the
  closed Room. The third request finds no Room and constructs Room 1. The callers resolve
  to the instances 0, 0 and 1, and two Rooms are constructed for the one room id.
\<close>

theorem registry_reconnect_two_rooms:
  "rooms (fst (runQueue emptyServer [(exWorld, ''r'', ''p'')])) =
     [(''r'', 0, \<lparr>roomId = ''r'', r_closed = False, peers = [(''p'', newPeerData JUndefined)],
                  broadcasters = [], routerRtpCapabilities = exCaps, bot = botCreate ''bot-dp'',
                  networkThrottled = False\<rparr>)] \<and>
   handleProtooConnection exWorld
     \<lparr>roomId = ''r'', r_closed = False, peers = [(''p'', newPeerData JUndefined)],
      broadcasters = [], routerRtpCapabilities = exCaps, bot = botCreate ''bot-dp'',
      networkThrottled = False\<rparr> ''p'' JUndefined =
     (\<lparr>roomId = ''r'', r_closed = True, peers = [(''p'', newPeerData JUndefined)],
       broadcasters = [], routerRtpCapabilities = exCaps, bot = botCreate ''bot-dp'',
       networkThrottled = False\<rparr>,
      [PeerClose ''p'', ProtooRoomClose, RouterClose, BotClose, EmitClose]) \<and>
   rooms (fst (runQueue emptyServer [(exWorld, ''r'', ''p''), (exWorld, ''r'', ''p'')])) = [] \<and>
   map fst (snd (runQueue emptyServer [(exWorld, ''r'', ''p''), (exWorld, ''r'', ''p''), (exWorld, ''r'', ''q'')])) =
     [ConnAccepted 0, ConnAccepted 0, ConnAccepted 1] \<and>
   constructed (fst (runQueue emptyServer
     [(exWorld, ''r'', ''p''), (exWorld, ''r'', ''p''), (exWorld, ''r'', ''q'')])) = 2"
  by (simp add: emptyServer_def connectionTask_def getOrCreateRoom_def roomCreate_def exWorld_def
        handleProtooConnection_def map_has_def roomResult_def Let_def newPeerData_def peerClosed_def
        roomClose_def map_values_def)

section \<open>The bot's data producer in \<^verbatim>\<open>join\<close>\<close>

























section \<open>Broadcasters: notification and fan-out\<close>

lemma mset_finish:
  "mset (snd (finish w rm calls)) = mset (concat (map (\<lambda>(i, ts). map snd (drop 1 ts)) calls))"
proof -
  have "mset (map (\<lambda>x. snd (snd x)) (awaited w calls)) =
        image_mset (\<lambda>x. snd (snd x)) (mset (concat (map (\<lambda>(i, ts). map (Pair i) (drop 1 ts)) calls)))"
    by (simp add: awaited_def mset_interleave)
  also have "\<dots> = mset (map (\<lambda>x. snd (snd x)) (concat (map (\<lambda>(i, ts). map (Pair i) (drop 1 ts)) calls)))"
    by simp
  also have "map (\<lambda>x. snd (snd x)) (concat (map (\<lambda>(i, ts). map (Pair i) (drop 1 ts)) calls)) =
             concat (map (\<lambda>(i, ts). map snd (drop 1 ts)) calls)"
    by (induction calls) (auto simp add: comp_def)
  finally show ?thesis by (simp add: finish_def)
qed

lemma subseq_finish:
  assumes "(i, ts) \<in> set calls"
  shows "subseq (map snd (drop 1 ts)) (snd (finish w rm calls))"
proof -
  from assms have "map (Pair i) (drop 1 ts) \<in> set (map (\<lambda>(i, ts). map (Pair i) (drop 1 ts)) calls)"
    by force
  from subseq_interleave[OF this, of "answerOrder w"]
  have "subseq (map (\<lambda>x. snd (snd x)) (map (Pair i) (drop 1 ts)))
               (map (\<lambda>x. snd (snd x)) (awaited w calls))"
    unfolding awaited_def by (rule subseq_map)
  then show ?thesis by (simp add: finish_def comp_def)
qed

lemma started_consumer_calls:
  "started (map (\<lambda>(i, d). (i, createConsumerTurns w i d j pr)) ps) =
   concat (map (\<lambda>(i, d). take 1 (snd (createConsumer w i d j pr))) ps)"
  by (induction ps) (auto simp add: started_def createConsumer_turns runAlone_def take_map)

lemma rest_consumer_calls:
  "concat (map (\<lambda>(i, ts). map snd (drop 1 ts)) (map (\<lambda>(i, d). (i, createConsumerTurns w i d j pr)) ps)) =
   concat (map (\<lambda>(i, d). drop 1 (snd (createConsumer w i d j pr))) ps)"
  by (induction ps) (auto simp add: createConsumer_turns runAlone_def drop_map)

text \<open>When the calls are for different peers, the later turns for one peer are those of
  its call.\<close>

lemma one_list_for_peer:
  assumes "distinct (map fst calls)"
  shows "length (filter (\<lambda>xs. \<exists>x\<in>set xs. fst x = q) (map (\<lambda>(i, ts). map (Pair i) (drop 1 ts)) calls)) \<le> 1"
  using assms
proof (induction calls)
  case Nil
  show ?case by simp
next
  case (Cons c calls)
  obtain i ts where c: "c = (i, ts)" by (cases c)
  show ?case
  proof (cases "i = q")
    case True
    with Cons.prems c have "q \<notin> fst ` set calls" by auto
    then have "filter (\<lambda>xs. \<exists>x\<in>set xs. fst x = q) (map (\<lambda>(i, ts). map (Pair i) (drop 1 ts)) calls) = []"
      by (induction calls) auto
    then show ?thesis by (simp add: c)
  next
    case False
    with Cons c show ?thesis by auto
  qed
qed

lemma concat_for_peer:
  assumes "distinct (map fst calls)"
  shows "filter (\<lambda>x. fst x = q) (concat (map (\<lambda>(i, ts). map (Pair i) (drop 1 ts)) calls)) =
         (case map_of calls q of None \<Rightarrow> [] | Some ts \<Rightarrow> map (Pair q) (drop 1 ts))"
  using assms
proof (induction calls)
  case Nil
  show ?case by simp
next
  case (Cons c calls)
  obtain i ts where c: "c = (i, ts)" by (cases c)
  show ?case
  proof (cases "i = q")
    case True
    with Cons.prems c have "q \<notin> fst ` set calls" by auto
    then have "filter (\<lambda>x. fst x = q) (concat (map (\<lambda>(i, ts). map (Pair i) (drop 1 ts)) calls)) = []"
      by (induction calls) auto
    moreover have "filter (\<lambda>x. fst x = q) (map (Pair q) (drop 1 ts)) = map (Pair q) (drop 1 ts)"
      by (induction "drop 1 ts") (auto simp add: filter_map comp_def)
    ultimately show ?thesis using True c by simp
  next
    case False
    have "filter (\<lambda>x. fst x = q) (map (Pair i) (drop 1 ts)) = []"
      using False by (simp add: filter_map comp_def)
    with Cons c False show ?thesis by simp
  qed
qed

lemma awaited_for_peer:
  assumes "distinct (map fst calls)"
  shows "filter (\<lambda>x. fst x = q) (awaited w calls) =
         (case map_of calls q of None \<Rightarrow> [] | Some ts \<Rightarrow> map (Pair q) (drop 1 ts))"
  unfolding awaited_def
  by (simp only: filter_interleave[OF one_list_for_peer[OF assms]] concat_for_peer[OF assms])

lemma finish_lookup:
  assumes "distinct (map fst calls)"
  shows "map_of (peers (fst (finish w rm calls))) q =
         map_option (\<lambda>d. case map_of calls q of
                          None \<Rightarrow> d
                        | Some ts \<Rightarrow> foldl (\<lambda>d t. applyStore (fst t) d) d (drop 1 ts))
           (map_of (peers rm) q)"
proof (cases "map_of calls q")
  case None
  then show ?thesis
    by (simp add: finish_def turns_lookup awaited_for_peer[OF assms])
next
  case (Some ts)
  have "foldl (\<lambda>d s. applyStore s d) d (map (\<lambda>x. fst (snd x)) (map (Pair q) (drop 1 ts))) =
        foldl (\<lambda>d t. applyStore (fst t) d) d (drop 1 ts)" for d
    by (simp add: foldl_map comp_def)
  with Some show ?thesis
    by (simp add: finish_def turns_lookup awaited_for_peer[OF assms])
qed

lemma createConsumerTurns_alone:
  "foldl (\<lambda>d t. applyStore (fst t) d) d (drop 1 (createConsumerTurns w i d j pr)) =
   fst (createConsumer w i d j pr)"
  by (simp add: createConsumer_def createConsumerTurns_def split: option.splits)

lemma map_of_joined_calls:
  "map_of (map (\<lambda>(i, d). (i, f i d)) (filter (\<lambda>(i, d). joined d \<and> Some i \<noteq> excl) ps)) q =
   (case map_of (filter (\<lambda>(i, d). joined d \<and> Some i \<noteq> excl) ps) q of None \<Rightarrow> None | Some d \<Rightarrow> Some (f q d))"
  by (induction ps) auto

lemma map_of_filter_distinct:
  assumes "distinct (map fst ps)"
  shows "map_of (filter P ps) q = (case map_of ps q of None \<Rightarrow> None | Some d \<Rightarrow> if P (q, d) then Some d else None)"
  using assms
proof (induction ps)
  case Nil
  show ?case by simp
next
  case (Cons x ps)
  obtain i d where x: "x = (i, d)" by (cases x)
  show ?case
  proof (cases "i = q")
    case True
    with Cons.prems x have "q \<notin> fst ` set ps" by auto
    then have "map_of (filter P ps) q = None" by (induction ps) auto
    with True x show ?thesis by simp
  next
    case False
    with Cons x show ?thesis by simp
  qed
qed

lemma distinct_joined_calls:
  "distinct (map fst ps) \<Longrightarrow>
   distinct (map fst (map (\<lambda>(i, d). (i, f i d)) (filter P ps)))"
proof -
  assume a: "distinct (map fst ps)"
  have e: "map fst (map (\<lambda>(i, d). (i, f i d)) (filter P ps)) = map fst (filter P ps)"
    by (induction ps) auto
  show ?thesis unfolding e using a by (rule distinct_map_filter)
qed

text \<open>The peers after a fan-out of \<^verbatim>\<open>_createConsumer\<close> over the joined peers.\<close>

lemma consumer_fanout_state:
  assumes d: "distinct (map fst (peers rm))" and q: "map_of (peers rm) q = Some qd"
  shows "map_of (peers (fst (finish w rm
            (map (\<lambda>(i, d). (i, createConsumerTurns w i d j pr))
               (filter (\<lambda>(i, d). joined d \<and> Some i \<noteq> excl) (peers rm)))))) q =
         Some (if joined qd \<and> Some q \<noteq> excl then fst (createConsumer w q qd j pr) else qd)"
proof -
  let ?calls = "map (\<lambda>(i, d). (i, createConsumerTurns w i d j pr))
               (filter (\<lambda>(i, d). joined d \<and> Some i \<noteq> excl) (peers rm))"
  have dc: "distinct (map fst ?calls)" by (rule distinct_joined_calls[OF d])
  have m: "map_of ?calls q =
           (if joined qd \<and> Some q \<noteq> excl then Some (createConsumerTurns w q qd j pr) else None)"
    by (simp add: map_of_joined_calls map_of_filter_distinct[OF d] q)
  show ?thesis
    using createConsumerTurns_alone[of qd w q j pr]
    by (simp add: finish_lookup[OF dc] q m)
qed

lemma createBroadcaster_ok:
  assumes "fst (snd (createBroadcaster w rm bid dn dev rtp)) = Inr v"
  shows "\<exists>i n. bid = JStr i \<and> js_prop dev ''name'' = JStr n \<and>
           fst (createBroadcaster w rm bid dn dev rtp) =
             rm\<lparr>broadcasters := AList.update i
                  \<lparr>displayName = dn,
                   device = JObj [(''flag'', JStr ''broadcaster''), (''name'', JStr n),
                                  (''version'', js_prop dev ''version'')],
                   rtpCapabilities = rtp, transports = [], producers = [], consumers = [],
                   dataProducers = [], dataConsumers = []\<rparr> (broadcasters rm)\<rparr> \<and>
           snd (snd (createBroadcaster w rm bid dn dev rtp)) =
             map (\<lambda>(q, d). PeerNotify q ''newPeer''
                    (JObj [(''id'', JStr i), (''displayName'', dn),
                           (''device'', JObj [(''flag'', JStr ''broadcaster''), (''name'', JStr n),
                                              (''version'', js_prop dev ''version'')])]))
               (filter (\<lambda>(q, d). joined d) (peers rm))"
proof (cases bid)
  case (JStr i)
  let ?dev = "if dev = JUndefined then JObj [] else dev"
  from assms JStr have nm: "is_string (js_prop ?dev ''name'')" "truthy (js_prop ?dev ''name'')"
    by (auto simp add: createBroadcaster_def Let_def split: if_splits)
  then obtain n where n: "js_prop ?dev ''name'' = JStr n" by (cases "js_prop ?dev ''name''") auto
  from nm have du: "dev \<noteq> JUndefined" by auto
  with n have n': "js_prop dev ''name'' = JStr n" by simp
  let ?bd = "\<lparr>displayName = dn, device = broadcasterDevice ?dev,
              rtpCapabilities = rtp, transports = [], producers = [], consumers = [],
              dataProducers = [], dataConsumers = []\<rparr>"
  have bdv: "broadcasterDevice ?dev =
             JObj [(''flag'', JStr ''broadcaster''), (''name'', JStr n), (''version'', js_prop dev ''version'')]"
    using nm n du by (simp add: broadcasterDevice_def js_or_def)
  from assms JStr have
    "fst (createBroadcaster w rm bid dn dev rtp) = setBroadcaster rm i ?bd"
    "snd (snd (createBroadcaster w rm bid dn dev rtp)) =
       notifyJoinedPeers (setBroadcaster rm i ?bd) None ''newPeer'' (peerInfo i ?bd)"
    by (auto simp add: createBroadcaster_def Let_def split: if_splits)
  then show ?thesis using JStr n'
    by (simp add: setBroadcaster_def notifyJoinedPeers_def getJoinedPeers_def peerInfo_def bdv)
qed (use assms in \<open>auto simp add: createBroadcaster_def Let_def split: if_splits\<close>)

lemma createConsumer_request:
  assumes "consumeOutcome w d pr = Some c"
  shows "PeerRequest q ''newConsumer''
           (JObj [(''peerId'', JStr j), (''producerId'', JStr (pr_id pr)), (''id'', JStr (c_id c)),
                  (''kind'', c_kind c), (''rtpParameters'', c_rtpParameters c), (''type'', c_type c),
                  (''appData'', pr_appData pr), (''producerPaused'', c_producerPaused c)])
         \<in> set (drop 1 (snd (createConsumer w q d j pr)))"
  using assms
  by (auto simp add: consumeOutcome_def createConsumer_def newConsumerData_def split: if_splits option.splits)

lemma createBroadcasterProducer_ok:
  assumes d: "distinct (map fst (peers rm))"
      and ok: "fst (snd (createBroadcasterProducer w rm b tid kind rtp)) = Inr v"
  shows "\<exists>bd t prid A.
     map_of (broadcasters rm) b = Some bd \<and> map_of (transports bd) tid = Some t \<and>
     produceR w (t_id t) = Some prid \<and> v = JObj [(''id'', JStr prid)] \<and>
     broadcasters (fst (createBroadcasterProducer w rm b tid kind rtp)) =
       AList.update b
         (bd\<lparr>producers := AList.update prid \<lparr>pr_id = prid, pr_kind = kind, pr_appData = JObj []\<rparr>
                             (producers bd)\<rparr>) (broadcasters rm) \<and>
     snd (snd (createBroadcasterProducer w rm b tid kind rtp)) =
       TransportProduce (t_id t) kind rtp JUndefined #
       concat (map (\<lambda>(q, d). take 1 (snd (createConsumer w q d b
                                 \<lparr>pr_id = prid, pr_kind = kind, pr_appData = JObj []\<rparr>)))
                 (filter (\<lambda>(q, d). joined d) (peers rm))) @
       (if kind = JStr ''audio'' then [ObserverAddProducer prid] else []) @ A \<and>
     mset A =
       mset (concat (map (\<lambda>(q, d). drop 1 (snd (createConsumer w q d b
                                 \<lparr>pr_id = prid, pr_kind = kind, pr_appData = JObj []\<rparr>)))
                 (filter (\<lambda>(q, d). joined d) (peers rm)))) \<and>
     (\<forall>q d. map_of (peers rm) q = Some d \<and> joined d \<longrightarrow>
        subseq (drop 1 (snd (createConsumer w q d b
                  \<lparr>pr_id = prid, pr_kind = kind, pr_appData = JObj []\<rparr>))) A) \<and>
     (\<forall>q d. map_of (peers rm) q = Some d \<longrightarrow>
        map_of (peers (fst (createBroadcasterProducer w rm b tid kind rtp))) q =
          Some (if joined d
                then fst (createConsumer w q d b \<lparr>pr_id = prid, pr_kind = kind, pr_appData = JObj []\<rparr>)
                else d)) \<and>
     (\<forall>q d c. map_of (peers rm) q = Some d \<and> joined d \<and>
        consumeOutcome w d \<lparr>pr_id = prid, pr_kind = kind, pr_appData = JObj []\<rparr> = Some c \<longrightarrow>
        PeerRequest q ''newConsumer''
          (JObj [(''peerId'', JStr b), (''producerId'', JStr prid), (''id'', JStr (c_id c)),
                 (''kind'', c_kind c), (''rtpParameters'', c_rtpParameters c), (''type'', c_type c),
                 (''appData'', JObj []), (''producerPaused'', c_producerPaused c)]) \<in> set A \<and>
        length (filter (isRequestTo q ''newConsumer'')
                  (snd (snd (createBroadcasterProducer w rm b tid kind rtp)))) = 1)"
proof -
  from ok obtain bd t prid where
    bd: "map_of (broadcasters rm) b = Some bd" and t: "map_of (transports bd) tid = Some t"
    and pr: "produceR w (t_id t) = Some prid"
    by (auto simp add: createBroadcasterProducer_def Let_def split: option.splits)
  define PR where "PR = \<lparr>pr_id = prid, pr_kind = kind, pr_appData = JObj []\<rparr>"
  define rm1 where "rm1 = setBroadcaster rm b (bd\<lparr>producers := AList.update prid PR (producers bd)\<rparr>)"
  define js where "js = filter (\<lambda>(q, d). joined d) (peers rm)"
  define calls where "calls = map (\<lambda>(i, d). (i, createConsumerTurns w i d b PR)) js"
  define A where "A = snd (finish w rm1 calls)"
  define obs where "obs = (if kind = JStr ''audio'' then [ObserverAddProducer prid] else [])"
  have p1: "peers rm1 = peers rm" by (simp add: rm1_def)
  have js': "filter (\<lambda>(i, d). joined d \<and> Some i \<noteq> None) (peers rm) = js" by (simp add: js_def)
  have r: "createBroadcasterProducer w rm b tid kind rtp =
     (fst (finish w rm1 calls), Inr (JObj [(''id'', JStr prid)]),
      TransportProduce (t_id t) kind rtp JUndefined # started calls @ obs @ A)"
    using bd t pr
    by (simp add: createBroadcasterProducer_def Let_def rm1_def PR_def calls_def A_def obs_def
          getJoinedPeers_def js_def)
  have v: "v = JObj [(''id'', JStr prid)]" using ok by (simp add: r)
  have br: "broadcasters (fst (createBroadcasterProducer w rm b tid kind rtp)) =
       AList.update b (bd\<lparr>producers := AList.update prid PR (producers bd)\<rparr>) (broadcasters rm)"
    by (simp add: r finish_frame rm1_def setBroadcaster_def)
  have st: "started calls = concat (map (\<lambda>(q, d). take 1 (snd (createConsumer w q d b PR))) js)"
    unfolding calls_def by (rule started_consumer_calls)
  have ms: "mset A = mset (concat (map (\<lambda>(q, d). drop 1 (snd (createConsumer w q d b PR))) js))"
    unfolding A_def calls_def mset_finish rest_consumer_calls ..
  have mem: "(q, d) \<in> set js" if "map_of (peers rm) q = Some d" "joined d" for q d
    using that map_of_SomeD[of "peers rm" q d] by (simp add: js_def)
  have sub: "\<forall>q d. map_of (peers rm) q = Some d \<and> joined d \<longrightarrow>
        subseq (drop 1 (snd (createConsumer w q d b PR))) A"
  proof (intro allI impI)
    fix q d assume a: "map_of (peers rm) q = Some d \<and> joined d"
    then have "(q, createConsumerTurns w q d b PR) \<in> set calls"
      using mem[of q d] by (force simp add: calls_def)
    from subseq_finish[OF this, of w rm1]
    show "subseq (drop 1 (snd (createConsumer w q d b PR))) A"
      by (simp add: A_def createConsumer_turns runAlone_def drop_map)
  qed
  have state: "\<forall>q d. map_of (peers rm) q = Some d \<longrightarrow>
        map_of (peers (fst (createBroadcasterProducer w rm b tid kind rtp))) q =
          Some (if joined d then fst (createConsumer w q d b PR) else d)"
  proof (intro allI impI)
    fix q d assume a: "map_of (peers rm) q = Some d"
    have d1: "distinct (map fst (peers rm1))" using d by (simp add: p1)
    from consumer_fanout_state[OF d1 a[folded p1], of w b PR None]
    show "map_of (peers (fst (createBroadcasterProducer w rm b tid kind rtp))) q =
          Some (if joined d then fst (createConsumer w q d b PR) else d)"
      by (simp add: r calls_def p1 js_def)
  qed
  have req: "\<forall>q d c. map_of (peers rm) q = Some d \<and> joined d \<and> consumeOutcome w d PR = Some c \<longrightarrow>
        PeerRequest q ''newConsumer''
          (JObj [(''peerId'', JStr b), (''producerId'', JStr prid), (''id'', JStr (c_id c)),
                 (''kind'', c_kind c), (''rtpParameters'', c_rtpParameters c), (''type'', c_type c),
                 (''appData'', JObj []), (''producerPaused'', c_producerPaused c)]) \<in> set A \<and>
        length (filter (isRequestTo q ''newConsumer'')
                  (snd (snd (createBroadcasterProducer w rm b tid kind rtp)))) = 1"
  proof (intro allI impI)
    fix q d c
    assume a: "map_of (peers rm) q = Some d \<and> joined d \<and> consumeOutcome w d PR = Some c"
    let ?a = "PeerRequest q ''newConsumer''
          (JObj [(''peerId'', JStr b), (''producerId'', JStr prid), (''id'', JStr (c_id c)),
                 (''kind'', c_kind c), (''rtpParameters'', c_rtpParameters c), (''type'', c_type c),
                 (''appData'', JObj []), (''producerPaused'', c_producerPaused c)])"
    let ?P = "isRequestTo q ''newConsumer''"
    from a have co: "consumeOutcome w d PR = Some c" by simp
    from createConsumer_request[OF co, of q b]
    have "?a \<in> set (drop 1 (snd (createConsumer w q d b PR)))" by (simp add: PR_def)
    with mem[of q d] a have "?a \<in> set (concat (map (\<lambda>(q, d). drop 1 (snd (createConsumer w q d b PR))) js))"
      by force
    then have inA: "?a \<in> set A" using mset_eq_setD[OF ms] by simp
    have "length (filter ?P (snd (snd (createBroadcasterProducer w rm b tid kind rtp)))) =
          length (filter ?P (started calls)) + length (filter ?P A)"
      by (auto simp add: r obs_def)
    also have "\<dots> = length (filter ?P (concat (map (\<lambda>(i, ts). map snd ts) calls)))"
      unfolding A_def by (rule count_fanout)
    also have "\<dots> = length (filter ?P (concat (map (\<lambda>(i, d). snd (createConsumer w i d b PR))
                          (filter (\<lambda>(i, d). joined d \<and> Some i \<noteq> None) (peers rm)))))"
      unfolding calls_def consumer_calls_actions js' ..
    also have "\<dots> = (if joined d \<and> Some q \<noteq> None
                     then length (filter ?P (snd (createConsumer w q d b PR))) else 0)"
      using a by (intro joined_calls_count[OF _ d]) (simp_all add: createConsumer_requests_own_peer)
    finally have "length (filter ?P (snd (snd (createBroadcasterProducer w rm b tid kind rtp)))) = 1"
      using a createConsumer_counts[of w q d b PR] by simp
    with inA show "?a \<in> set A \<and>
        length (filter ?P (snd (snd (createBroadcasterProducer w rm b tid kind rtp)))) = 1" by simp
  qed
  show ?thesis
    apply (rule exI[of _ bd], rule exI[of _ t], rule exI[of _ prid], rule exI[of _ A])
    using bd t pr v br[unfolded PR_def] r st[unfolded PR_def js_def] ms[unfolded PR_def js_def]
      sub[unfolded PR_def] state[unfolded PR_def] req[unfolded PR_def]
    by (simp add: obs_def)
qed

lemma createBroadcasterDataProducer_ok:
  assumes "fst (snd (createBroadcasterDataProducer w rm b tid label protocol sp appData)) = Inr v"
  shows "\<exists>bd t dpid. map_of (broadcasters rm) b = Some bd \<and> map_of (transports bd) tid = Some t \<and>
           produceDataR w (t_id t) = Some dpid \<and> v = JObj [(''id'', JStr dpid)] \<and>
           createBroadcasterDataProducer w rm b tid label protocol sp appData =
             (rm\<lparr>broadcasters := AList.update b
                    (bd\<lparr>dataProducers := AList.update dpid
                          \<lparr>dp_id = dpid, dp_label = label,
                           dp_appData = (if appData = JUndefined then JObj [] else appData)\<rparr>
                          (dataProducers bd)\<rparr>) (broadcasters rm)\<rparr>,
              Inr (JObj [(''id'', JStr dpid)]),
              [TransportProduceData (t_id t) sp label protocol appData])"
  using assms
  by (auto simp add: createBroadcasterDataProducer_def Let_def setBroadcaster_def appDataOrEmpty_def
        split: option.splits)

lemma createBroadcasterDataProducer_no_fanout:
  "peers (fst (createBroadcasterDataProducer w rm b tid label protocol sp appData)) = peers rm \<and>
   (\<forall>a\<in>set (snd (snd (createBroadcasterDataProducer w rm b tid label protocol sp appData))).
      \<exists>t. a = TransportProduceData t sp label protocol appData)"
  by (auto simp add: createBroadcasterDataProducer_def Let_def setBroadcaster_def split: option.splits)

text \<open>
  C8 (amended). In every state the server reaches from an empty registry: when
  \<^verbatim>\<open>createBroadcaster\<close> succeeds, the broadcaster is stored with its display name, its device
  and its capabilities, and every currently joined peer is notified \<^verbatim>\<open>newPeer\<close> with the
  broadcaster's id, display name and device, with no separate join step; these
  notifications are all the operation does.

  When \<^verbatim>\<open>createBroadcasterProducer\<close> succeeds, it returns the id of the producer the engine
  created, the producer is stored in the broadcaster's \<open>producers\<close>, and it is fanned out at
  once to every currently joined peer by \<^verbatim>\<open>_createConsumer\<close>, the function that serves the
  peers' own producers. The operation's actions are the \<^verbatim>\<open>transport.produce\<close>, the first
  action of the \<^verbatim>\<open>_createConsumer\<close> call for each joined peer in the order of the peers, the
  call on the audio level observer for an audio producer, and then (\<open>A\<close>) the remaining
  actions of these calls, merged in the order of the answers: \<open>A\<close> has exactly the
  remaining actions of the calls and keeps the order of each call. Each joined peer's data
  is afterwards what its call leaves, the other peers' data is unchanged, and a joined
  peer for which the engine creates a consumer receives exactly one \<^verbatim>\<open>newConsumer\<close> request,
  with the broadcaster's id, the producer's id and the consumer's parameters.

  A data producer a broadcaster creates is stored and its id returned, without any
  fan-out: \<^verbatim>\<open>createBroadcasterDataProducer\<close> changes no peer and performs no action but the
  \<^verbatim>\<open>transport.produceData\<close>.
\<close>

theorem broadcaster_fanout_media_only:
  assumes reg: "map_of (rooms (serverRun emptyServer evs)) rid = Some (inst, rm)"
  shows
  "(fst (snd (createBroadcaster w rm bid dn dev rtp)) = Inr v \<longrightarrow>
      (\<exists>i n. bid = JStr i \<and> js_prop dev ''name'' = JStr n \<and>
         fst (createBroadcaster w rm bid dn dev rtp) =
           rm\<lparr>broadcasters := AList.update i
                \<lparr>displayName = dn,
                 device = JObj [(''flag'', JStr ''broadcaster''), (''name'', JStr n),
                                (''version'', js_prop dev ''version'')],
                 rtpCapabilities = rtp, transports = [], producers = [], consumers = [],
                 dataProducers = [], dataConsumers = []\<rparr> (broadcasters rm)\<rparr> \<and>
         snd (snd (createBroadcaster w rm bid dn dev rtp)) =
           map (\<lambda>(q, d). PeerNotify q ''newPeer''
                  (JObj [(''id'', JStr i), (''displayName'', dn),
                         (''device'', JObj [(''flag'', JStr ''broadcaster''), (''name'', JStr n),
                                            (''version'', js_prop dev ''version'')])]))
             (filter (\<lambda>(q, d). joined d) (peers rm)))) \<and>
   (fst (snd (createBroadcasterProducer w rm b tid kind rtpParameters)) = Inr v' \<longrightarrow>
      (\<exists>bd t prid A.
         map_of (broadcasters rm) b = Some bd \<and> map_of (transports bd) tid = Some t \<and>
         produceR w (t_id t) = Some prid \<and> v' = JObj [(''id'', JStr prid)] \<and>
         broadcasters (fst (createBroadcasterProducer w rm b tid kind rtpParameters)) =
           AList.update b
             (bd\<lparr>producers := AList.update prid \<lparr>pr_id = prid, pr_kind = kind, pr_appData = JObj []\<rparr>
                                 (producers bd)\<rparr>) (broadcasters rm) \<and>
         snd (snd (createBroadcasterProducer w rm b tid kind rtpParameters)) =
           TransportProduce (t_id t) kind rtpParameters JUndefined #
           concat (map (\<lambda>(q, d). take 1 (snd (createConsumer w q d b
                                     \<lparr>pr_id = prid, pr_kind = kind, pr_appData = JObj []\<rparr>)))
                     (filter (\<lambda>(q, d). joined d) (peers rm))) @
           (if kind = JStr ''audio'' then [ObserverAddProducer prid] else []) @ A \<and>
         mset A =
           mset (concat (map (\<lambda>(q, d). drop 1 (snd (createConsumer w q d b
                                     \<lparr>pr_id = prid, pr_kind = kind, pr_appData = JObj []\<rparr>)))
                     (filter (\<lambda>(q, d). joined d) (peers rm)))) \<and>
         (\<forall>q d. map_of (peers rm) q = Some d \<and> joined d \<longrightarrow>
            subseq (drop 1 (snd (createConsumer w q d b
                      \<lparr>pr_id = prid, pr_kind = kind, pr_appData = JObj []\<rparr>))) A) \<and>
         (\<forall>q d. map_of (peers rm) q = Some d \<longrightarrow>
            map_of (peers (fst (createBroadcasterProducer w rm b tid kind rtpParameters))) q =
              Some (if joined d
                    then fst (createConsumer w q d b \<lparr>pr_id = prid, pr_kind = kind, pr_appData = JObj []\<rparr>)
                    else d)) \<and>
         (\<forall>q d c. map_of (peers rm) q = Some d \<and> joined d \<and>
            consumeOutcome w d \<lparr>pr_id = prid, pr_kind = kind, pr_appData = JObj []\<rparr> = Some c \<longrightarrow>
            PeerRequest q ''newConsumer''
              (JObj [(''peerId'', JStr b), (''producerId'', JStr prid), (''id'', JStr (c_id c)),
                     (''kind'', c_kind c), (''rtpParameters'', c_rtpParameters c), (''type'', c_type c),
                     (''appData'', JObj []), (''producerPaused'', c_producerPaused c)]) \<in> set A \<and>
            length (filter (isRequestTo q ''newConsumer'')
                      (snd (snd (createBroadcasterProducer w rm b tid kind rtpParameters)))) = 1))) \<and>
   (fst (snd (createBroadcasterDataProducer w rm b tid label protocol sp appData)) = Inr v'' \<longrightarrow>
      (\<exists>bd t dpid. map_of (broadcasters rm) b = Some bd \<and> map_of (transports bd) tid = Some t \<and>
         produceDataR w (t_id t) = Some dpid \<and> v'' = JObj [(''id'', JStr dpid)] \<and>
         createBroadcasterDataProducer w rm b tid label protocol sp appData =
           (rm\<lparr>broadcasters := AList.update b
                  (bd\<lparr>dataProducers := AList.update dpid
                        \<lparr>dp_id = dpid, dp_label = label,
                         dp_appData = (if appData = JUndefined then JObj [] else appData)\<rparr>
                        (dataProducers bd)\<rparr>) (broadcasters rm)\<rparr>,
            Inr (JObj [(''id'', JStr dpid)]),
            [TransportProduceData (t_id t) sp label protocol appData]))) \<and>
   peers (fst (createBroadcasterDataProducer w rm b tid label protocol sp appData)) = peers rm \<and>
   (\<forall>a\<in>set (snd (snd (createBroadcasterDataProducer w rm b tid label protocol sp appData))).
      \<exists>t. a = TransportProduceData t sp label protocol appData)"
proof -
  from registry_reachable[OF reg] have d: "distinct (map fst (peers rm))" by simp
  show ?thesis
    using createBroadcaster_ok[of w rm bid dn dev rtp v]
          createBroadcasterProducer_ok[OF d, of w b tid kind rtpParameters v']
          createBroadcasterDataProducer_ok[of w rm b tid label protocol sp appData v'']
          createBroadcasterDataProducer_no_fanout[of w rm b tid label protocol sp appData]
    by blast
qed

text \<open>In the room of \<^const>\<open>exEvents2\<close> Alice and Bob have joined and Carol has not: a second
  broadcaster is created, the broadcaster \<^verbatim>\<open>cam\<close> creates an audio producer, and it creates
  a data producer.\<close>

theorem broadcaster_fanout_media_only_witness:
  "\<exists>inst rm.
     map_of (rooms (serverRun emptyServer exEvents2)) ''r'' = Some (inst, rm) \<and>
     snd (snd (createBroadcaster exWorld rm (JStr ''cam2'') (JStr ''Second'')
                 (JObj [(''name'', JStr ''obs'')]) JUndefined)) =
       [PeerNotify ''alice'' ''newPeer''
          (JObj [(''id'', JStr ''cam2''), (''displayName'', JStr ''Second''),
                 (''device'', JObj [(''flag'', JStr ''broadcaster''), (''name'', JStr ''obs''),
                                    (''version'', JUndefined)])]),
        PeerNotify ''bob'' ''newPeer''
          (JObj [(''id'', JStr ''cam2''), (''displayName'', JStr ''Second''),
                 (''device'', JObj [(''flag'', JStr ''broadcaster''), (''name'', JStr ''obs''),
                                    (''version'', JUndefined)])])] \<and>
     snd (createBroadcasterProducer exFanWorld rm ''cam'' ''tc'' (JStr ''audio'') (JObj [])) =
       (Inr (JObj [(''id'', JStr ''prc'')]),
        [TransportProduce ''tc'' (JStr ''audio'') (JObj []) JUndefined,
         TransportConsume ''ta'' ''prc'' (JObj [(''codecs'', JArr [])]) True,
         TransportConsume ''tb'' ''prc'' (JObj [(''codecs'', JArr [])]) True,
         ObserverAddProducer ''prc'',
         PeerRequest ''bob'' ''newConsumer''
           (JObj [(''peerId'', JStr ''cam''), (''producerId'', JStr ''prc''), (''id'', JStr ''c-tb''),
                  (''kind'', JStr ''audio''), (''rtpParameters'', JObj []), (''type'', JStr ''simple''),
                  (''appData'', JObj []), (''producerPaused'', JBool False)]),
         PeerRequest ''alice'' ''newConsumer''
           (JObj [(''peerId'', JStr ''cam''), (''producerId'', JStr ''prc''), (''id'', JStr ''c-ta''),
                  (''kind'', JStr ''audio''), (''rtpParameters'', JObj []), (''type'', JStr ''simple''),
                  (''appData'', JObj []), (''producerPaused'', JBool False)]),
         ConsumerResume ''c-ta'',
         PeerNotify ''alice'' ''consumerScore'' (JObj [(''consumerId'', JStr ''c-ta''), (''score'', JObj [])]),
         ConsumerResume ''c-tb'',
         PeerNotify ''bob'' ''consumerScore'' (JObj [(''consumerId'', JStr ''c-tb''), (''score'', JObj [])])]) \<and>
     length (filter (isRequestTo ''alice'' ''newConsumer'')
               (snd (snd (createBroadcasterProducer exFanWorld rm ''cam'' ''tc'' (JStr ''audio'') (JObj []))))) = 1 \<and>
     createBroadcasterDataProducer exWorld rm ''cam'' ''tc'' ''chat'' [] (JObj []) JUndefined =
       (rm\<lparr>broadcasters :=
            [(''cam'',
              \<lparr>displayName = JStr ''Camera'',
               device = JObj [(''flag'', JStr ''broadcaster''), (''name'', JStr ''ffmpeg''),
                              (''version'', JUndefined)],
               rtpCapabilities = JObj [(''codecs'', JArr [])],
               transports = [(''tc'', \<lparr>t_id = ''tc'', t_ctor = PlainTransport, t_appData = JObj [],
                                       t_params = JObj []\<rparr>)],
               producers = [], consumers = [],
               dataProducers = [(''dp9'', \<lparr>dp_id = ''dp9'', dp_label = ''chat'', dp_appData = JObj []\<rparr>)],
               dataConsumers = []\<rparr>)]\<rparr>,
        Inr (JObj [(''id'', JStr ''dp9'')]),
        [TransportProduceData ''tc'' (JObj []) ''chat'' [] JUndefined])"
proof -
  let ?S = "serverRun emptyServer exEvents2"
  let ?dev = "JObj [(''flag'', JStr ''broadcaster''), (''name'', JStr ''obs''), (''version'', JUndefined)]"
  let ?cam = "\<lparr>displayName = JStr ''Camera'',
               device = JObj [(''flag'', JStr ''broadcaster''), (''name'', JStr ''ffmpeg''),
                              (''version'', JUndefined)],
               rtpCapabilities = JObj [(''codecs'', JArr [])],
               transports = [(''tc'', \<lparr>t_id = ''tc'', t_ctor = PlainTransport, t_appData = JObj [],
                                       t_params = JObj []\<rparr>)],
               producers = [], consumers = [], dataProducers = [], dataConsumers = []\<rparr>"
  let ?trace = "[TransportProduce ''tc'' (JStr ''audio'') (JObj []) JUndefined,
         TransportConsume ''ta'' ''prc'' (JObj [(''codecs'', JArr [])]) True,
         TransportConsume ''tb'' ''prc'' (JObj [(''codecs'', JArr [])]) True,
         ObserverAddProducer ''prc'',
         PeerRequest ''bob'' ''newConsumer''
           (JObj [(''peerId'', JStr ''cam''), (''producerId'', JStr ''prc''), (''id'', JStr ''c-tb''),
                  (''kind'', JStr ''audio''), (''rtpParameters'', JObj []), (''type'', JStr ''simple''),
                  (''appData'', JObj []), (''producerPaused'', JBool False)]),
         PeerRequest ''alice'' ''newConsumer''
           (JObj [(''peerId'', JStr ''cam''), (''producerId'', JStr ''prc''), (''id'', JStr ''c-ta''),
                  (''kind'', JStr ''audio''), (''rtpParameters'', JObj []), (''type'', JStr ''simple''),
                  (''appData'', JObj []), (''producerPaused'', JBool False)]),
         ConsumerResume ''c-ta'',
         PeerNotify ''alice'' ''consumerScore'' (JObj [(''consumerId'', JStr ''c-ta''), (''score'', JObj [])]),
         ConsumerResume ''c-tb'',
         PeerNotify ''bob'' ''consumerScore'' (JObj [(''consumerId'', JStr ''c-tb''), (''score'', JObj [])])]"
  have f0: "map_option (\<lambda>x. broadcasters (snd x)) (map_of (rooms ?S) ''r'') = Some [(''cam'', ?cam)]"
    by code_simp
  have f1: "map_option (\<lambda>x. fst (snd (createBroadcaster exWorld (snd x) (JStr ''cam2'') (JStr ''Second'')
                 (JObj [(''name'', JStr ''obs'')]) JUndefined))) (map_of (rooms ?S) ''r'') =
            Some (Inr (JObj [(''peers'', JArr [])]))" by code_simp
  have f2: "map_option (\<lambda>x. map fst (filter (\<lambda>(q, d). joined d) (peers (snd x)))) (map_of (rooms ?S) ''r'') =
            Some [''alice'', ''bob'']" by code_simp
  have f3: "map_option (\<lambda>x. snd (createBroadcasterProducer exFanWorld (snd x) ''cam'' ''tc'' (JStr ''audio'') (JObj [])))
              (map_of (rooms ?S) ''r'') = Some (Inr (JObj [(''id'', JStr ''prc'')]), ?trace)" by code_simp
  have f4: "map_option (\<lambda>x. map_option (\<lambda>d. (joined d,
                consumeOutcome exFanWorld d \<lparr>pr_id = ''prc'', pr_kind = JStr ''audio'', pr_appData = JObj []\<rparr> \<noteq> None))
                (map_of (peers (snd x)) ''alice'')) (map_of (rooms ?S) ''r'') = Some (Some (True, True))"
    by code_simp
  have f5: "map_option (\<lambda>x. fst (snd (createBroadcasterDataProducer exWorld (snd x) ''cam'' ''tc'' ''chat'' []
                 (JObj []) JUndefined))) (map_of (rooms ?S) ''r'') = Some (Inr (JObj [(''id'', JStr ''dp9'')]))"
    by code_simp
  from f1 obtain x where x: "map_of (rooms ?S) ''r'' = Some x" by blast
  obtain inst rm where xr: "x = (inst, rm)" by (cases x)
  from x xr have reg: "map_of (rooms ?S) ''r'' = Some (inst, rm)" by simp
  from f0 reg have bs: "broadcasters rm = [(''cam'', ?cam)]" by simp
  from f1 reg have ok1: "fst (snd (createBroadcaster exWorld rm (JStr ''cam2'') (JStr ''Second'')
                 (JObj [(''name'', JStr ''obs'')]) JUndefined)) = Inr (JObj [(''peers'', JArr [])])" by simp
  from f3 reg have r3: "snd (createBroadcasterProducer exFanWorld rm ''cam'' ''tc'' (JStr ''audio'') (JObj [])) =
       (Inr (JObj [(''id'', JStr ''prc'')]), ?trace)" by simp
  then have ok3: "fst (snd (createBroadcasterProducer exFanWorld rm ''cam'' ''tc'' (JStr ''audio'') (JObj []))) =
       Inr (JObj [(''id'', JStr ''prc'')])" by simp
  from f5 reg have ok5: "fst (snd (createBroadcasterDataProducer exWorld rm ''cam'' ''tc'' ''chat'' []
                 (JObj []) JUndefined)) = Inr (JObj [(''id'', JStr ''dp9'')])" by simp
  from f4 reg obtain ad where a: "map_of (peers rm) ''alice'' = Some ad" and ja: "joined ad"
    and ca: "consumeOutcome exFanWorld ad \<lparr>pr_id = ''prc'', pr_kind = JStr ''audio'', pr_appData = JObj []\<rparr> \<noteq> None"
    by auto
  note T1 = broadcaster_fanout_media_only[OF reg, where w = exWorld and bid = "JStr ''cam2''"
      and dn = "JStr ''Second''" and dev = "JObj [(''name'', JStr ''obs'')]" and rtp = JUndefined
      and v = "JObj [(''peers'', JArr [])]" and b = "''cam''" and tid = "''tc''" and label = "''chat''"
      and protocol = "[]" and sp = "JObj []" and appData = JUndefined and v'' = "JObj [(''id'', JStr ''dp9'')]"]
  note T2 = broadcaster_fanout_media_only[OF reg, where w = exFanWorld and b = "''cam''" and tid = "''tc''"
      and kind = "JStr ''audio''" and rtpParameters = "JObj []" and v' = "JObj [(''id'', JStr ''prc'')]"]
  from conjunct1[OF T1, THEN mp, OF ok1] obtain i n where
    i: "JStr ''cam2'' = JStr i" and n: "js_prop (JObj [(''name'', JStr ''obs'')]) ''name'' = JStr n" and
    nt: "snd (snd (createBroadcaster exWorld rm (JStr ''cam2'') (JStr ''Second'')
                 (JObj [(''name'', JStr ''obs'')]) JUndefined)) =
           map (\<lambda>(q, d). PeerNotify q ''newPeer''
                  (JObj [(''id'', JStr i), (''displayName'', JStr ''Second''),
                         (''device'', JObj [(''flag'', JStr ''broadcaster''), (''name'', JStr n),
                                            (''version'', js_prop (JObj [(''name'', JStr ''obs'')]) ''version'')])]))
             (filter (\<lambda>(q, d). joined d) (peers rm))"
    by blast
  from i n have i': "i = ''cam2''" and n': "n = ''obs''" by simp_all
  have mapf: "map (\<lambda>(q, d). f q) xs = map f (map fst xs)" for f :: "ident \<Rightarrow> action" and xs :: "(ident \<times> peer_data) list"
    by (induction xs) auto
  from f2 reg have js: "map fst (filter (\<lambda>(q, d). joined d) (peers rm)) = [''alice'', ''bob'']" by simp
  have 1: "snd (snd (createBroadcaster exWorld rm (JStr ''cam2'') (JStr ''Second'')
                 (JObj [(''name'', JStr ''obs'')]) JUndefined)) =
       [PeerNotify ''alice'' ''newPeer''
          (JObj [(''id'', JStr ''cam2''), (''displayName'', JStr ''Second''), (''device'', ?dev)]),
        PeerNotify ''bob'' ''newPeer''
          (JObj [(''id'', JStr ''cam2''), (''displayName'', JStr ''Second''), (''device'', ?dev)])]"
    unfolding nt i' n' mapf js by simp
  from conjunct1[OF conjunct2[OF T2], THEN mp, OF ok3] obtain bd t prid A where
    p: "JObj [(''id'', JStr ''prc'')] = JObj [(''id'', JStr prid)]" and
    q: "\<forall>q d c. map_of (peers rm) q = Some d \<and> joined d \<and>
            consumeOutcome exFanWorld d \<lparr>pr_id = prid, pr_kind = JStr ''audio'', pr_appData = JObj []\<rparr> = Some c \<longrightarrow>
            PeerRequest q ''newConsumer''
              (JObj [(''peerId'', JStr ''cam''), (''producerId'', JStr prid), (''id'', JStr (c_id c)),
                     (''kind'', c_kind c), (''rtpParameters'', c_rtpParameters c), (''type'', c_type c),
                     (''appData'', JObj []), (''producerPaused'', c_producerPaused c)]) \<in> set A \<and>
            length (filter (isRequestTo q ''newConsumer'')
                      (snd (snd (createBroadcasterProducer exFanWorld rm ''cam'' ''tc'' (JStr ''audio'') (JObj []))))) = 1"
    by blast
  from p have prid: "prid = ''prc''" by simp
  from ca obtain c where "consumeOutcome exFanWorld ad \<lparr>pr_id = ''prc'', pr_kind = JStr ''audio'', pr_appData = JObj []\<rparr> = Some c"
    by blast
  with q[unfolded prid] a ja have 2: "length (filter (isRequestTo ''alice'' ''newConsumer'')
               (snd (snd (createBroadcasterProducer exFanWorld rm ''cam'' ''tc'' (JStr ''audio'') (JObj []))))) = 1"
    by blast
  from conjunct1[OF conjunct2[OF conjunct2[OF T1]], THEN mp, OF ok5] obtain bd' t' dpid where
    b': "map_of (broadcasters rm) ''cam'' = Some bd'" and t': "map_of (transports bd') ''tc'' = Some t'" and
    d': "JObj [(''id'', JStr ''dp9'')] = JObj [(''id'', JStr dpid)]" and
    r5: "createBroadcasterDataProducer exWorld rm ''cam'' ''tc'' ''chat'' [] (JObj []) JUndefined =
           (rm\<lparr>broadcasters := AList.update ''cam''
                  (bd'\<lparr>dataProducers := AList.update dpid
                        \<lparr>dp_id = dpid, dp_label = ''chat'',
                         dp_appData = (if JUndefined = JUndefined then JObj [] else JUndefined)\<rparr>
                        (dataProducers bd')\<rparr>) (broadcasters rm)\<rparr>,
            Inr (JObj [(''id'', JStr dpid)]),
            [TransportProduceData (t_id t') (JObj []) ''chat'' [] JUndefined])"
    by blast
  from b' bs have bd': "bd' = ?cam" by simp
  from t' bd' have tt: "t' = \<lparr>t_id = ''tc'', t_ctor = PlainTransport, t_appData = JObj [], t_params = JObj []\<rparr>"
    by simp
  from d' have dp: "dpid = ''dp9''" by simp
  have 3: "createBroadcasterDataProducer exWorld rm ''cam'' ''tc'' ''chat'' [] (JObj []) JUndefined =
       (rm\<lparr>broadcasters :=
            [(''cam'', ?cam\<lparr>dataProducers := [(''dp9'', \<lparr>dp_id = ''dp9'', dp_label = ''chat'', dp_appData = JObj []\<rparr>)]\<rparr>)]\<rparr>,
        Inr (JObj [(''id'', JStr ''dp9'')]),
        [TransportProduceData ''tc'' (JObj []) ''chat'' [] JUndefined])"
    unfolding r5 bs bd' tt dp by simp
  from reg 1 r3 2 3 show ?thesis by simp
qed

text \<open>
  The claim as it is stated fails for data producers. Alice has joined, has declared
  data-channel capabilities and has a transport for consuming, so a call of
  \<^verbatim>\<open>_createDataConsumer\<close> for her performs a \<^verbatim>\<open>transport.consumeData\<close> and sends her a
  \<^verbatim>\<open>newDataConsumer\<close> request. When the broadcaster creates a data producer, neither action
  happens: the only action is the \<^verbatim>\<open>transport.produceData\<close>.
\<close>

theorem broadcaster_data_not_fanned_out:
  "snd (createDataConsumer exWorld ''alice'' (exPeer ''ta'') (Some ''cam'')
          \<lparr>dp_id = ''dp9'', dp_label = ''chat'', dp_appData = JNull\<rparr>) =
     [TransportConsumeData ''ta'' ''dp9'',
      PeerRequest ''alice'' ''newDataConsumer''
        (JObj [(''peerId'', JStr ''cam''), (''dataProducerId'', JStr ''dp9''), (''id'', JStr ''dc-dp9''),
               (''sctpStreamParameters'', JObj []), (''label'', JStr ''chat''), (''protocol'', JStr []),
               (''appData'', JNull)])] \<and>
   fst (snd (createBroadcasterDataProducer exWorld exRoom ''cam'' ''tc'' ''chat'' [] (JObj []) JNull)) =
     Inr (JObj [(''id'', JStr ''dp9'')]) \<and>
   snd (snd (createBroadcasterDataProducer exWorld exRoom ''cam'' ''tc'' ''chat'' [] (JObj []) JNull)) =
     [TransportProduceData ''tc'' (JObj []) ''chat'' [] JNull] \<and>
   peers (fst (createBroadcasterDataProducer exWorld exRoom ''cam'' ''tc'' ''chat'' [] (JObj []) JNull)) =
     peers exRoom"
  by (simp add: createDataConsumer_def exPeer_def consumingTransport_def map_values_def exTransport_def
        exWorld_def createBroadcasterDataProducer_def exRoom_def exBroadcaster_def Let_def
        setBroadcaster_def newDataConsumerData_def exDataConsumer_def)

end
